(* ===== verification/KS_Prelude.thy ===== *)
theory KS_Prelude
  imports Complex_Main
begin

text \<open>
  Shared vocabulary of the Kisaan-Sahayak development: the types every component theory
  uses, the JavaScript primitives the sources call (\<^verbatim>\<open>Math.round\<close>, \<^verbatim>\<open>Math.abs\<close>,
  truthiness of a number, the \<^verbatim>\<open>TypeError\<close> a read of \<^verbatim>\<open>undefined\<close> raises, a number
  printed in decimal), the theorem collections the component proofs unfold, and the
  generic facts about lists, sums and rounding that several components need.

  JavaScript numbers are modelled as real numbers: arithmetic is exact, there is no NaN,
  no infinity and no rounding of intermediate results. Times are natural numbers of
  milliseconds.
\<close>

section \<open>Theorem collections\<close>

named_theorems js_defs "definitions of the modelled JavaScript primitives"
named_theorems handler_defs "definitions of the handlers and callbacks of the screen"
named_theorems inv_defs "definitions of the invariants of the screen"

section \<open>Shared types\<close>

type_synonym number = real
type_synonym millis = nat

text \<open>
  An object with a \<^verbatim>\<open>latitude\<close> and a \<^verbatim>\<open>longitude\<close> field. The map points, regions and
  polygon corners of the screen are extensions of this record, so a function over
  \<open>'a coordinate_scheme\<close> accepts all of them, as the JavaScript functions do.
\<close>

record coordinate =
  latitude :: number
  longitude :: number

section \<open>JavaScript primitives\<close>

text \<open>
  \<^verbatim>\<open>Math.round(x)\<close> is the integer nearest to \<open>x\<close>, a tie going up:
  \<open>\<lfloor>x + 1/2\<rfloor>\<close>. \<^verbatim>\<open>Math.abs\<close> is the absolute value. A number in a condition
  (\<^verbatim>\<open>x && ...\<close>) counts as true unless it is zero.
\<close>

definition Math_round :: "number \<Rightarrow> number" where
  "Math_round x = of_int \<lfloor>x + 1 / 2\<rfloor>"

definition Math_abs :: "number \<Rightarrow> number" where
  "Math_abs x = \<bar>x\<bar>"

definition truthy :: "number \<Rightarrow> bool" where
  "truthy x \<longleftrightarrow> x \<noteq> 0"

text \<open>The error a read of a property of \<^verbatim>\<open>undefined\<close> or \<^verbatim>\<open>null\<close> raises; functions
  that can raise return it as a value.\<close>

datatype js_error = TypeError

text \<open>A natural number as JavaScript prints it (in a template literal, as a property
  name).\<close>

fun decimal :: "nat \<Rightarrow> string" where
  "decimal n =
     (if n < 10 then [char_of (48 + n)] else decimal (n div 10) @ [char_of (48 + n mod 10)])"

declare decimal.simps [simp del]

lemmas [js_defs] = Math_round_def Math_abs_def truthy_def

subsection \<open>Rounding\<close>

lemma Math_round_le: "Math_round x \<le> x + 1 / 2"
  by (simp add: Math_round_def)

lemma Math_round_gt: "x - 1 / 2 < Math_round x"
  unfolding Math_round_def by linarith

lemma Math_round_in_Ints [simp]: "Math_round x \<in> \<int>"
  by (simp add: Math_round_def)

lemma Math_round_of_int [simp]: "Math_round (of_int k) = of_int k"
  by (simp add: Math_round_def floor_eq_iff)

lemma Math_round_mono: "x \<le> y \<Longrightarrow> Math_round x \<le> Math_round y"
  by (simp add: Math_round_def floor_mono)

lemma Math_round_nonneg: "0 \<le> x \<Longrightarrow> 0 \<le> Math_round x"
  unfolding Math_round_def by simp

lemma Math_round_eq_0_iff: "Math_round x = 0 \<longleftrightarrow> - (1 / 2) \<le> x \<and> x < 1 / 2"
  unfolding Math_round_def by (auto simp: floor_eq_iff)

lemma Math_round_eqI:
  "of_int k - 1 / 2 \<le> x \<Longrightarrow> x < of_int k + 1 / 2 \<Longrightarrow> Math_round x = of_int k"
  unfolding Math_round_def by (simp add: floor_eq_iff)

section \<open>Lists and sums\<close>

lemma foldl_plus_sum_list: "foldl (\<lambda>s p. s + f p) a xs = a + sum_list (map f xs)"
  for a :: "'a::monoid_add"
  by (induction xs arbitrary: a) (simp_all add: add.assoc)

lemma sum_list_rotate1 [simp]: "sum_list (rotate1 xs) = sum_list xs"
  for xs :: "'a::comm_monoid_add list"
  by (cases xs) (simp_all add: add.commute)

lemma length4E:
  assumes "length xs = 4"
  obtains a b c d where "xs = [a, b, c, d]"
  using assms by (auto simp: length_Suc_conv numeral_eq_Suc)

lemma Suc_mod_less [simp]: "i < n \<Longrightarrow> Suc i mod n < n"
  by (cases n) auto

text \<open>A sum over one turn of a cycle does not depend on where the turn starts.\<close>

lemma cyclic_sum_shift:
  fixes h :: "nat \<Rightarrow> 'a::comm_monoid_add"
  shows "(\<Sum>i<n. h (Suc i mod n)) = (\<Sum>i<n. h i)"
proof (cases n)
  case 0
  then show ?thesis by simp
next
  case (Suc m)
  have "(\<Sum>i<Suc m. h (Suc i mod Suc m)) = (\<Sum>i<m. h (Suc i)) + h 0"
    by simp
  also have "\<dots> = (\<Sum>i<Suc m. h i)"
    unfolding sum.lessThan_Suc_shift by (simp add: add.commute)
  finally show ?thesis by (simp add: Suc)
qed

text \<open>The mean of a list lies within any bound on the absolute values of its elements.\<close>

lemma mean_abs_le:
  fixes f :: "'a \<Rightarrow> real"
  assumes "xs \<noteq> []" and "\<forall>x\<in>set xs. \<bar>f x\<bar> \<le> b"
  shows "\<bar>sum_list (map f xs) / real (length xs)\<bar> \<le> b"
proof -
  have "\<bar>sum_list (map f xs)\<bar> \<le> sum_list (map (\<lambda>x. \<bar>f x\<bar>) xs)"
    using sum_list_abs [of "map f xs"] by (simp add: comp_def)
  also have "\<dots> \<le> sum_list (map (\<lambda>x. b) xs)"
    using assms(2) by (intro sum_list_mono) simp
  also have "\<dots> = real (length xs) * b"
    by (simp add: sum_list_triv)
  finally have "\<bar>sum_list (map f xs)\<bar> \<le> real (length xs) * b" .
  moreover have "0 < real (length xs)"
    using assms(1) by simp
  ultimately show ?thesis
    by (simp add: field_simps)
qed

end
