(* ===== verification/EventLoop.thy ===== *)
theory EventLoop
  imports KS_Prelude
begin

text \<open>
  The timers of the JavaScript event loop, as far as the screen relies on them.

  A pending timer is the time it is due and the callback it runs. The queue holds the
  pending timers in the order they fire: by due time, timers due at the same time in
  the order they were set. \<open>setTimeout\<close> computes the due time from the current time and
  the delay and puts the timer in its place; the event loop always runs the head of the
  queue. The callbacks are data (a type parameter here, the datatype of the program's
  closures in \<open>AppState\<close>), run by an interpreter the screen defines.
\<close>

section \<open>Timers and the queue\<close>

record 'a timer =
  due :: millis
  callback :: 'a

type_synonym 'a timers = "'a timer list"

fun enqueue :: "'a timer \<Rightarrow> 'a timers \<Rightarrow> 'a timers" where
  "enqueue t [] = [t]"
| "enqueue t (u # q) = (if due t < due u then t # u # q else u # enqueue t q)"

definition setTimeout :: "'a \<Rightarrow> millis \<Rightarrow> millis \<Rightarrow> 'a timers \<Rightarrow> 'a timers" where
  "setTimeout cb delay now q = enqueue \<lparr>due = now + delay, callback = cb\<rparr> q"

text \<open>The callbacks pending in a queue, in firing order, and the sum of a weight over
  them (the measure of the proofs that the queue drains).\<close>

definition pending :: "'a timers \<Rightarrow> 'a list" where
  "pending q = map callback q"

definition weight :: "('a \<Rightarrow> nat) \<Rightarrow> 'a timers \<Rightarrow> nat" where
  "weight w q = sum_list (map (\<lambda>t. w (callback t)) q)"

section \<open>Lemmas\<close>

lemma length_enqueue [simp]: "length (enqueue t q) = Suc (length q)"
  by (induction q) simp_all

lemma set_enqueue [simp]: "set (enqueue t q) = insert t (set q)"
  by (induction q) auto

lemma enqueue_neq_Nil [simp]: "enqueue t q \<noteq> []"
  by (cases q) simp_all

lemma sorted_enqueue [simp]: "sorted (map due (enqueue t q)) = sorted (map due q)"
  by (induction q) (auto simp: less_imp_le)

text \<open>Where the new timer goes: behind every timer that is not due later than it.\<close>

lemma enqueue_eq:
  "enqueue t q = takeWhile (\<lambda>u. due u \<le> due t) q @ t # dropWhile (\<lambda>u. due u \<le> due t) q"
  by (induction q) (simp_all add: not_less)

lemma enqueue_last: "\<forall>u\<in>set q. due u \<le> due t \<Longrightarrow> enqueue t q = q @ [t]"
  by (induction q) (simp_all add: not_less)

lemma enqueue_first: "\<forall>u\<in>set q. due t < due u \<Longrightarrow> enqueue t q = t # q"
  by (cases q) simp_all

lemma weight_Nil [simp]: "weight w [] = 0"
  by (simp add: weight_def)

lemma weight_Cons [simp]: "weight w (t # q) = w (callback t) + weight w q"
  by (simp add: weight_def)

lemma weight_enqueue [simp]: "weight w (enqueue t q) = w (callback t) + weight w q"
  by (induction q) simp_all

lemma weight_setTimeout [simp]: "weight w (setTimeout cb d n q) = w cb + weight w q"
  by (simp add: setTimeout_def)

lemma weight_mono:
  "(\<And>c. c \<in> set (pending q) \<Longrightarrow> w c \<le> w' c) \<Longrightarrow> weight w q \<le> weight w' q"
  unfolding weight_def pending_def by (intro sum_list_mono) auto

lemma sorted_setTimeout [simp]: "sorted (map due (setTimeout cb d n q)) = sorted (map due q)"
  by (simp add: setTimeout_def)

lemma set_setTimeout [simp]:
  "set (setTimeout cb d n q) = insert \<lparr>due = n + d, callback = cb\<rparr> (set q)"
  by (simp add: setTimeout_def)

lemma setTimeout_neq_Nil [simp]: "setTimeout cb d n q \<noteq> []"
  by (simp add: setTimeout_def)

lemma setTimeout_Nil [simp]: "setTimeout cb d n [] = [\<lparr>due = n + d, callback = cb\<rparr>]"
  by (simp add: setTimeout_def)

lemma pending_setTimeout_set [simp]:
  "set (pending (setTimeout cb d n q)) = insert cb (set (pending q))"
  by (simp add: pending_def)

text \<open>The timers of one kind within the queue: a new timer of another kind does not
  change them, and in a sorted queue a new timer of the kind goes to its place among
  them.\<close>

lemma filter_enqueue_other: "\<not> P t \<Longrightarrow> filter P (enqueue t q) = filter P q"
  by (induction q) simp_all

lemma filter_enqueue_same:
  "P t \<Longrightarrow> sorted (map due q) \<Longrightarrow> filter P (enqueue t q) = enqueue t (filter P q)"
proof (induction q)
  case Nil
  then show ?case by simp
next
  case (Cons u q)
  show ?case
  proof (cases "due t < due u")
    case True
    with Cons.prems have "\<forall>v\<in>set (filter P q). due t < due v"
      by auto
    then have "enqueue t (filter P q) = t # filter P q"
      by (rule enqueue_first)
    with True Cons.prems show ?thesis by simp
  next
    case False
    with Cons show ?thesis by simp
  qed
qed

lemma filter_setTimeout_other:
  "\<not> P \<lparr>due = n + d, callback = cb\<rparr> \<Longrightarrow> filter P (setTimeout cb d n q) = filter P q"
  by (simp add: setTimeout_def filter_enqueue_other)

lemma filter_setTimeout_same:
  "P \<lparr>due = n + d, callback = cb\<rparr> \<Longrightarrow> sorted (map due q) \<Longrightarrow>
   filter P (setTimeout cb d n q) = setTimeout cb d n (filter P q)"
  by (simp add: setTimeout_def filter_enqueue_same)

end
