(* ===== verification/AppState.thy ===== *)
theory AppState
  imports EventLoop
begin

text \<open>
  The state of the running screen and the data its components exchange.

  \<^item> \<open>region\<close> and \<open>GeoPoint\<close> extend \<open>coordinate\<close>: the map region
    (\<^verbatim>\<open>latitudeDelta\<close>, \<^verbatim>\<open>longitudeDelta\<close>) and the tapped point with its number
    (\<^verbatim>\<open>id\<close> in the source, \<open>point_id\<close> here).
  \<^item> \<open>callback\<close> has one constructor for every closure the source hands to
    \<^verbatim>\<open>setTimeout\<close> or to the \<^verbatim>\<open>start\<close> of an animation, with the variables the closure
    captured as arguments. What a callback does is defined by the component it belongs
    to; theory \<open>Screen\<close> dispatches.
  \<^item> \<open>effect\<close> has one constructor for every call that leaves the component: the
    location API, \<^verbatim>\<open>Alert.alert\<close>, \<^verbatim>\<open>console.error\<close>, the map's
    \<^verbatim>\<open>animateToRegion\<close> and \<^verbatim>\<open>navigation.replace\<close>. The state keeps the calls made
    so far, in order.
  \<^item> The state is one record in three layers: \<open>runtime\<close> (clock, timer queue, calls
    made, promises not yet settled, the window height), \<open>preloader\<close> (the hooks of the
    \<^verbatim>\<open>Preloader\<close> component) and \<open>app\<close> (the hooks of \<^verbatim>\<open>FetchingLocationScreen\<close>).

  An \<^verbatim>\<open>Animated.Value\<close> is modelled by the number it was last set to or is being
  animated towards; the course of an animation is not modelled, its completion callback
  is a timer due after the animation's delay and duration.
\<close>

section \<open>Data\<close>

record region = coordinate +
  latitudeDelta :: number
  longitudeDelta :: number

record GeoPoint = coordinate +
  point_id :: nat

definition coords :: "'a coordinate_scheme \<Rightarrow> coordinate" where
  "coords p = \<lparr>latitude = latitude p, longitude = longitude p\<rparr>"

datatype callback =
    PreloaderFadeInDone nat
  | PreloaderNextWord
  | PreloaderSlideUp
  | PreloaderSlideDone
  | AnimateToUser coordinate
  | ShowSelectionMessage
  | MessageFadeDone
  | StartAnalysis
  | AnalysisStep nat
  | Navigate

datatype effect =
    RequestForegroundPermissions
  | GetCurrentPosition
  | Alert_alert string string
  | Console_error string
  | AnimateToRegion region millis
  | Navigation_replace string

section \<open>State\<close>

record runtime =
  now :: millis
  timers :: "callback timers"
  effects :: "effect list"
  permissionRequests :: nat
  positionRequests :: nat
  height :: number

record preloader = runtime +
  index :: nat
  opacityAnim :: number
  slideUpAnim :: number
  scaleAnim :: number

record app = preloader +
  userLocation :: "region option"
  selectedPoints :: "GeoPoint list"
  boundingBox :: "coordinate list option"
  isSelectingPoints :: bool
  isAnalyzing :: bool
  currentAnalysisStep :: nat
  showSelectionMessage :: bool
  farmArea :: "number option"
  showPreloader :: bool
  boundingBoxAnim :: number
  loadingAnim :: number
  stepAnim :: number
  messageAnim :: number
  areaAnim :: number
  instructionsAnim :: number
  pointPulseAnims :: "number list"

text \<open>Setting a timer and recording a call, on any layer of the state.\<close>

definition schedule :: "callback \<Rightarrow> millis \<Rightarrow> 'a runtime_scheme \<Rightarrow> 'a runtime_scheme" where
  "schedule cb delay s = s\<lparr>timers := setTimeout cb delay (now s) (timers s)\<rparr>"

definition perform :: "effect \<Rightarrow> 'a runtime_scheme \<Rightarrow> 'a runtime_scheme" where
  "perform e s = s\<lparr>effects := effects s @ [e]\<rparr>"

text \<open>The state before the first render: the initial values of the hooks (lines 23-26
  and 118-137), an empty queue and the clock at 0.\<close>

definition initial :: "number \<Rightarrow> app" where
  "initial h =
     \<lparr>now = 0, timers = [], effects = [], permissionRequests = 0, positionRequests = 0,
      height = h,
      index = 0, opacityAnim = 0, slideUpAnim = 0, scaleAnim = 0.8,
      userLocation = None, selectedPoints = [], boundingBox = None,
      isSelectingPoints = False, isAnalyzing = False, currentAnalysisStep = 0,
      showSelectionMessage = False, farmArea = None, showPreloader = True,
      boundingBoxAnim = 0, loadingAnim = 0, stepAnim = 0, messageAnim = 0, areaAnim = 0,
      instructionsAnim = 0, pointPulseAnims = []\<rparr>"

section \<open>Lemmas\<close>

lemma coords_simps [simp]:
  "latitude (coords p) = latitude p" "longitude (coords p) = longitude p"
  by (simp_all add: coords_def)

lemmas [handler_defs] = schedule_def perform_def

end
