(* ===== verification/Preloader.thy ===== *)
theory Preloader
  imports AppState
begin

text \<open>
  The \<^verbatim>\<open>Preloader\<close> component (lines 21-114 of the screen's source): it shows the
  word for "farmer" in eight languages, one after the other, then slides away and calls
  \<^verbatim>\<open>onComplete\<close>.

  Its state is the layer \<open>preloader\<close> of the record: the index of the word shown and
  the three animated values. Its one effect (\<open>preloader_effect\<close>, the body of
  \<^verbatim>\<open>useEffect\<close>) runs when the component mounts and whenever the index changes; the
  callbacks it sets are \<open>PreloaderFadeInDone\<close> (the \<^verbatim>\<open>start\<close> callback of the fade-in,
  which captured the index), \<open>PreloaderNextWord\<close>, \<open>PreloaderSlideUp\<close> and
  \<open>PreloaderSlideDone\<close>. The words in Indian scripts are written in the Latin
  transcription the source gives in its comments.
\<close>

section \<open>Constants\<close>

definition words :: "string list" where
  "words = [''Kisan'', ''Raithu'', ''Raita'', ''Krshok'', ''Khedut'', ''Kisan'', ''Uzhavan'',
     ''Farmer'']"

definition FADE_IN_DURATION_PRELOADER :: millis where
  "FADE_IN_DURATION_PRELOADER = 300"

definition DELAY_BEFORE_NEXT_WORD_PRELOADER :: millis where
  "DELAY_BEFORE_NEXT_WORD_PRELOADER = 400"

definition SLIDE_UP_DURATION_PRELOADER :: millis where
  "SLIDE_UP_DURATION_PRELOADER = 600"

definition SLIDE_UP_DELAY_PRELOADER :: millis where
  "SLIDE_UP_DELAY_PRELOADER = 200"

lemmas preloader_constants =
  FADE_IN_DURATION_PRELOADER_def DELAY_BEFORE_NEXT_WORD_PRELOADER_def
  SLIDE_UP_DURATION_PRELOADER_def SLIDE_UP_DELAY_PRELOADER_def

section \<open>The effect and its callbacks\<close>

text \<open>The body of \<^verbatim>\<open>useEffect\<close>: the opacity and the scale are reset and animated to
  1 in parallel, each after a delay of 50 ms; the callback of \<^verbatim>\<open>start\<close> runs when both
  are done.\<close>

definition preloader_effect :: "'a preloader_scheme \<Rightarrow> 'a preloader_scheme" where
  "preloader_effect s =
     schedule (PreloaderFadeInDone (index s)) (50 + FADE_IN_DURATION_PRELOADER)
       (s\<lparr>opacityAnim := 1, scaleAnim := 1\<rparr>)"

definition preloader_fade_in_done :: "nat \<Rightarrow> 'a preloader_scheme \<Rightarrow> 'a preloader_scheme" where
  "preloader_fade_in_done i s =
     (if i < length words - 1
      then schedule PreloaderNextWord DELAY_BEFORE_NEXT_WORD_PRELOADER s
      else schedule PreloaderSlideUp DELAY_BEFORE_NEXT_WORD_PRELOADER s)"

text \<open>\<^verbatim>\<open>setIndex(prevIndex => prevIndex + 1)\<close>, the render it causes and the effect of
  that render.\<close>

definition preloader_next_word :: "'a preloader_scheme \<Rightarrow> 'a preloader_scheme" where
  "preloader_next_word s = preloader_effect (s\<lparr>index := index s + 1\<rparr>)"

definition preloader_slide_up :: "'a preloader_scheme \<Rightarrow> 'a preloader_scheme" where
  "preloader_slide_up s =
     schedule PreloaderSlideDone (SLIDE_UP_DELAY_PRELOADER + SLIDE_UP_DURATION_PRELOADER)
       (s\<lparr>slideUpAnim := - height s\<rparr>)"

definition preloader_slide_done ::
  "('a preloader_scheme \<Rightarrow> 'a preloader_scheme) \<Rightarrow> 'a preloader_scheme \<Rightarrow> 'a preloader_scheme"
where
  "preloader_slide_done onComplete s = onComplete s"

text \<open>Mounting the component: the first render and the first run of the effect.\<close>

definition preloader_mount :: "'a preloader_scheme \<Rightarrow> 'a preloader_scheme" where
  "preloader_mount s = preloader_effect s"

text \<open>What the component shows: the word at the index, nothing beyond the list.\<close>

definition preloader_word :: "'a preloader_scheme \<Rightarrow> string option" where
  "preloader_word s = (if index s < length words then Some (words ! index s) else None)"

lemmas [handler_defs] =
  preloader_effect_def preloader_fade_in_done_def preloader_next_word_def
  preloader_slide_up_def preloader_slide_done_def preloader_mount_def

lemma length_words [simp]: "length words = 8"
  by (simp add: words_def)

end
