(* ===== verification/Location.thy ===== *)
theory Location
  imports AppState
begin

text \<open>
  Finding the user (lines 222-291): \<^verbatim>\<open>getUserLocation\<close> and
  \<^verbatim>\<open>animateToUserLocation\<close>.

  \<^verbatim>\<open>getUserLocation\<close> is an \<^verbatim>\<open>async\<close> function with two \<^verbatim>\<open>await\<close>s. It is modelled
  by one definition for each stretch between them: \<open>getUserLocation\<close> up to the
  permission request, \<open>permission_resolved\<close> from the answer to the position request or
  the early return, \<open>position_resolved\<close> from the position to the end, and
  \<open>location_failed\<close> for the \<^verbatim>\<open>catch\<close> block, which a rejection of either promise
  enters. The promises not yet settled are counted in the state; which answer arrives,
  and when, is the environment's choice (the events of theory \<open>Screen\<close>).
\<close>

section \<open>Constants\<close>

datatype permission_status = Granted | Denied | Undetermined

definition MAP_ZOOM_DURATION :: millis where
  "MAP_ZOOM_DURATION = 1800"

definition DELAY_BEFORE_MESSAGE :: millis where
  "DELAY_BEFORE_MESSAGE = 400"

definition fallbackLocation :: region where
  "fallbackLocation =
     \<lparr>latitude = 19.0760, longitude = 72.8777, latitudeDelta = 0.01, longitudeDelta = 0.01\<rparr>"

definition fallbackCoords :: coordinate where
  "fallbackCoords = \<lparr>latitude = 19.0760, longitude = 72.8777\<rparr>"

section \<open>getUserLocation\<close>

definition getUserLocation :: "app \<Rightarrow> app" where
  "getUserLocation s =
     perform RequestForegroundPermissions (s\<lparr>permissionRequests := permissionRequests s + 1\<rparr>)"

definition permission_resolved :: "permission_status \<Rightarrow> app \<Rightarrow> app" where
  "permission_resolved status s =
     (if status \<noteq> Granted then
        schedule (AnimateToUser fallbackCoords) 300
          ((perform (Alert_alert ''Permission denied''
              ''Location permission is required to provide local services.'') s)
           \<lparr>userLocation := Some fallbackLocation\<rparr>)
      else perform GetCurrentPosition (s\<lparr>positionRequests := positionRequests s + 1\<rparr>))"

definition position_resolved :: "'a coordinate_scheme \<Rightarrow> app \<Rightarrow> app" where
  "position_resolved location_coords s =
     schedule (AnimateToUser (coords location_coords)) 300
       (s\<lparr>userLocation := Some \<lparr>latitude = latitude location_coords,
            longitude = longitude location_coords, latitudeDelta = 0.01, longitudeDelta = 0.01\<rparr>\<rparr>)"

definition location_failed :: "app \<Rightarrow> app" where
  "location_failed s =
     schedule (AnimateToUser fallbackCoords) 300
       ((perform (Console_error ''Error getting location:'') s)
        \<lparr>userLocation := Some fallbackLocation\<rparr>)"

section \<open>animateToUserLocation\<close>

text \<open>The map exists once the preloader is gone: \<^verbatim>\<open>MapView\<close>, which sets the ref, is
  rendered under \<^verbatim>\<open>!showPreloader\<close>.\<close>

definition mapRef_current :: "app \<Rightarrow> bool" where
  "mapRef_current s \<longleftrightarrow> \<not> showPreloader s"

definition animateToUserLocation :: "'a coordinate_scheme \<Rightarrow> app \<Rightarrow> app" where
  "animateToUserLocation c s =
     schedule ShowSelectionMessage (MAP_ZOOM_DURATION + DELAY_BEFORE_MESSAGE)
       (if mapRef_current s
        then perform (AnimateToRegion \<lparr>latitude = latitude c, longitude = longitude c,
               latitudeDelta = 0.01, longitudeDelta = 0.01\<rparr> MAP_ZOOM_DURATION) s
        else s)"

definition show_selection_message :: "app \<Rightarrow> app" where
  "show_selection_message s = s\<lparr>showSelectionMessage := True, messageAnim := 1\<rparr>"

lemmas location_constants = MAP_ZOOM_DURATION_def DELAY_BEFORE_MESSAGE_def

lemmas [handler_defs] =
  getUserLocation_def permission_resolved_def position_resolved_def
  location_failed_def mapRef_current_def animateToUserLocation_def show_selection_message_def

end
