(* ===== verification/AreaCalculator.thy ===== *)
theory AreaCalculator
  imports KS_Prelude
begin

text \<open>
  The area calculator of the screen: \<^verbatim>\<open>calculateAreaInAcres\<close> of
  \<^verbatim>\<open>src/MyApp/screens/FetchingLocationScreen.jsx\<close> (lines 199-220).

  The definitions follow the source statement by statement: \<open>toRadians\<close> is its local
  helper, \<open>area_loop\<close> its \<^verbatim>\<open>for\<close> loop (a recursion on the loop index with the
  accumulator \<^verbatim>\<open>area\<close>), \<open>centerLat\<close> its \<^verbatim>\<open>reduce\<close>, and \<open>calculateAreaInAcres\<close>
  the function with its early return. \<open>cross\<close>, \<open>shoelace\<close>, \<open>acres_of\<close> and \<open>round3\<close>
  are the reference definitions the lemmas compare the code with: the signed shoelace
  sum over the cycle of corners, the scaling to acres, and rounding to three decimals.

  The lemmas show that the loop computes the shoelace sum of any polygon, that the
  result does not depend on the corner the user starts with nor on the direction of the
  tour, that it is a non-negative multiple of 0.001 within 0.0005 of the unrounded
  value, and that it is 0 for corners on one line and for a list of other than four
  points.
\<close>

section \<open>The function\<close>

definition toRadians :: "number \<Rightarrow> number" where
  "toRadians degrees = degrees * (pi / 180)"

function area_loop :: "'a coordinate_scheme list \<Rightarrow> nat \<Rightarrow> number \<Rightarrow> number" where
  "area_loop points i area =
     (if i < length points then
        let j = (i + 1) mod length points;
            area1 = area + toRadians (longitude (points ! i)) * toRadians (latitude (points ! j));
            area2 = area1 - toRadians (longitude (points ! j)) * toRadians (latitude (points ! i))
        in area_loop points (i + 1) area2
      else area)"
  by pat_completeness auto
termination
  by (relation "measure (\<lambda>(points, i, area). length points - i)") auto

declare area_loop.simps [simp del]

definition earthRadius :: number where
  "earthRadius = 6371000"

definition centerLat :: "'a coordinate_scheme list \<Rightarrow> number" where
  "centerLat points = foldl (\<lambda>sum p. sum + latitude p) 0 points / real (length points)"

definition calculateAreaInAcres :: "'a coordinate_scheme list \<Rightarrow> number" where
  "calculateAreaInAcres points =
     (if length points \<noteq> 4 then 0
      else
        let area = area_loop points 0 0;
            area = Math_abs area / 2;
            latRadians = toRadians (centerLat points);
            adjustedRadius = earthRadius * cos latRadians;
            areaInSquareMeters = area * adjustedRadius * earthRadius;
            areaInAcres = areaInSquareMeters / 4046.86
        in Math_round (areaInAcres * 1000) / 1000)"

section \<open>Reference definitions\<close>

text \<open>
  The term one edge of the polygon adds to the sum, the sum over the closed polygon,
  the acres a shoelace sum stands for at a latitude, and rounding to thousandths.
\<close>

definition cross :: "'a coordinate_scheme \<Rightarrow> 'a coordinate_scheme \<Rightarrow> number" where
  "cross p q = toRadians (longitude p) * toRadians (latitude q)
             - toRadians (longitude q) * toRadians (latitude p)"

definition shoelace :: "'a coordinate_scheme list \<Rightarrow> number" where
  "shoelace ps = (\<Sum>i<length ps. cross (ps ! i) (ps ! ((i + 1) mod length ps)))"

definition acres_of :: "number \<Rightarrow> number \<Rightarrow> number" where
  "acres_of s lat = \<bar>s\<bar> / 2 * (earthRadius * cos (toRadians lat)) * earthRadius / 4046.86"

definition round3 :: "number \<Rightarrow> number" where
  "round3 x = Math_round (x * 1000) / 1000"

text \<open>
  The plot of the specification's worked example: a square of a thousandth of a degree
  north-east of latitude 19, longitude 73.
\<close>

definition example_plot :: "coordinate list" where
  "example_plot =
     [\<lparr>latitude = 19.0, longitude = 73.0\<rparr>, \<lparr>latitude = 19.0, longitude = 73.001\<rparr>,
      \<lparr>latitude = 19.001, longitude = 73.001\<rparr>, \<lparr>latitude = 19.001, longitude = 73.0\<rparr>]"

section \<open>The loop computes the shoelace sum\<close>

lemma area_loop_sum:
  "i \<le> length ps \<Longrightarrow>
   area_loop ps i a = a + (\<Sum>k = i..<length ps. cross (ps ! k) (ps ! ((k + 1) mod length ps)))"
proof (induction ps i a rule: area_loop.induct)
  case (1 points i area)
  show ?case
  proof (cases "i < length points")
    case True
    then show ?thesis
      using "1.IH" [OF True refl refl refl]
      by (subst area_loop.simps) (simp add: Let_def cross_def sum.atLeast_Suc_lessThan)
  next
    case False
    with "1.prems" show ?thesis
      by (subst area_loop.simps) simp
  qed
qed

lemma area_loop_0: "area_loop ps 0 0 = shoelace ps"
  by (simp add: area_loop_sum shoelace_def atLeast0LessThan)

lemma calculateAreaInAcres_eq:
  "calculateAreaInAcres ps =
     (if length ps \<noteq> 4 then 0 else round3 (acres_of (shoelace ps) (centerLat ps)))"
  by (simp add: calculateAreaInAcres_def Let_def area_loop_0 acres_of_def round3_def
      Math_abs_def)

section \<open>Edges and the shoelace sum\<close>

lemma cross_antisym: "cross q p = - cross p q"
  by (simp add: cross_def)

lemma cross_self [simp]: "cross p p = 0"
  by (simp add: cross_def)

lemma cross_degrees:
  "cross p q = (pi / 180)\<^sup>2 * (longitude p * latitude q - longitude q * latitude p)"
  by (simp add: cross_def toRadians_def power2_eq_square algebra_simps)

lemma cross_collinear:
  assumes "latitude p = la + s * v" "longitude p = lo + s * u"
    and "latitude q = la + t * v" "longitude q = lo + t * u"
  shows "cross p q = (pi / 180)\<^sup>2 * (lo * v - la * u) * (t - s)"
  unfolding cross_degrees assms by (simp add: algebra_simps)

lemma shoelace4:
  "shoelace [a, b, c, d] = cross a b + cross b c + cross c d + cross d a"
  by (simp add: shoelace_def)

lemma shoelace_rotate1: "shoelace (rotate1 ps) = shoelace ps"
proof -
  let ?n = "length ps"
  let ?h = "\<lambda>k. cross (ps ! k) (ps ! (Suc k mod ?n))"
  have "rotate1 ps ! i = ps ! (Suc i mod ?n)" "Suc i mod ?n < ?n" if "i < ?n" for i
    using that by (simp_all add: nth_rotate1)
  then have "shoelace (rotate1 ps) = (\<Sum>i<?n. ?h (Suc i mod ?n))"
    unfolding shoelace_def by (intro sum.cong) (simp_all add: mod_Suc_eq)
  also have "\<dots> = (\<Sum>i<?n. ?h i)"
    by (rule cyclic_sum_shift)
  finally show ?thesis by (simp add: shoelace_def)
qed

lemma shoelace_rotate: "shoelace (rotate n ps) = shoelace ps"
  by (induction n) (simp_all add: shoelace_rotate1)

lemma shoelace_rev4: "shoelace (rev [a, b, c, d]) = - shoelace [a, b, c, d]"
  by (simp add: shoelace4 cross_antisym [of d c] cross_antisym [of c b] cross_antisym [of b a]
      cross_antisym [of a d])

lemma shoelace4_collinear:
  assumes "\<forall>p\<in>{a, b, c, d}. latitude p = la + t p * v \<and> longitude p = lo + t p * u"
  shows "shoelace [a, b, c, d] = 0"
proof -
  have *: "cross p q = (pi / 180)\<^sup>2 * (lo * v - la * u) * (t q - t p)"
    if "p \<in> {a, b, c, d}" "q \<in> {a, b, c, d}" for p q
    using assms that by (intro cross_collinear) blast+
  show ?thesis
    unfolding shoelace4 by (simp add: * algebra_simps)
qed

section \<open>The mean latitude\<close>

lemma centerLat_sum_list: "centerLat ps = sum_list (map latitude ps) / real (length ps)"
  by (simp add: centerLat_def foldl_plus_sum_list)

lemma centerLat_rotate1 [simp]: "centerLat (rotate1 ps) = centerLat ps"
  by (simp add: centerLat_sum_list rotate1_map [symmetric] del: rotate1_map)

lemma centerLat_rotate [simp]: "centerLat (rotate n ps) = centerLat ps"
  by (induction n) simp_all

lemma centerLat_rev [simp]: "centerLat (rev ps) = centerLat ps"
  by (simp add: centerLat_sum_list rev_map [symmetric] del: rev_map)

lemma centerLat_abs_le:
  "ps \<noteq> [] \<Longrightarrow> \<forall>p\<in>set ps. \<bar>latitude p\<bar> \<le> b \<Longrightarrow> \<bar>centerLat ps\<bar> \<le> b"
  unfolding centerLat_sum_list by (rule mean_abs_le)

section \<open>Scaling and rounding\<close>

lemma toRadians_abs_le: "\<bar>x\<bar> \<le> 90 \<Longrightarrow> \<bar>toRadians x\<bar> \<le> pi / 2"
  by (simp add: toRadians_def abs_mult field_simps)

lemma cos_toRadians_nonneg: "\<bar>x\<bar> \<le> 90 \<Longrightarrow> 0 \<le> cos (toRadians x)"
  using toRadians_abs_le [of x] by (intro cos_ge_zero) linarith+

lemma acres_of_minus [simp]: "acres_of (- s) lat = acres_of s lat"
  by (simp add: acres_of_def)

lemma acres_of_0 [simp]: "acres_of 0 lat = 0"
  by (simp add: acres_of_def)

lemma acres_of_nonneg: "0 \<le> cos (toRadians lat) \<Longrightarrow> 0 \<le> acres_of s lat"
  by (simp add: acres_of_def earthRadius_def)

lemma round3_nonneg: "0 \<le> x \<Longrightarrow> 0 \<le> round3 x"
  by (simp add: round3_def Math_round_nonneg)

lemma round3_0 [simp]: "round3 0 = 0"
  using Math_round_of_int [of 0] by (simp add: round3_def)

lemma round3_thousandths: "round3 x * 1000 \<in> \<int>"
  by (simp add: round3_def)

lemma round3_eq_0_iff: "round3 x = 0 \<longleftrightarrow> - (1 / 2000) \<le> x \<and> x < 1 / 2000"
  by (simp add: round3_def Math_round_eq_0_iff field_simps)

lemma round3_error: "\<bar>round3 x - x\<bar> \<le> 1 / 2000"
proof -
  have "x * 1000 - 1 / 2 < Math_round (x * 1000)" "Math_round (x * 1000) \<le> x * 1000 + 1 / 2"
    by (rule Math_round_gt, rule Math_round_le)
  then have "x - 1 / 2000 < round3 x" "round3 x \<le> x + 1 / 2000"
    by (simp_all add: round3_def field_simps)
  then show ?thesis by linarith
qed

text \<open>Within 60 degrees of the equator the cosine of the latitude is at least a half.\<close>

lemma cos_toRadians_ge_half:
  assumes "\<bar>lat\<bar> \<le> 60"
  shows "1 / 2 \<le> cos (toRadians lat)"
proof -
  have "cos (pi / 3) \<le> cos (toRadians \<bar>lat\<bar>)"
    using assms by (intro cos_monotone_0_pi_le) (simp_all add: toRadians_def)
  moreover have "cos (toRadians \<bar>lat\<bar>) = cos (toRadians lat)"
    by (cases "0 \<le> lat") (simp_all add: toRadians_def abs_if)
  ultimately show ?thesis
    by (simp add: cos_60)
qed

text \<open>The result for four points is 0 exactly when the plot has less than half a
  thousandth of an acre.\<close>

lemma calculateAreaInAcres_eq_0_iff:
  assumes "length ps = 4" "0 \<le> cos (toRadians (centerLat ps))"
  shows "calculateAreaInAcres ps = 0 \<longleftrightarrow> acres_of (shoelace ps) (centerLat ps) < 1 / 2000"
  using assms acres_of_nonneg [OF assms(2), of "shoelace ps"]
  by (simp add: calculateAreaInAcres_eq round3_eq_0_iff)

section \<open>Properties of the calculator\<close>

text \<open>C7. The \<^verbatim>\<open>for\<close> loop of \<^verbatim>\<open>calculateAreaInAcres\<close>, started at index 0 with
  the accumulator 0, ends for a list of any length and returns the signed shoelace sum
  of the closed polygon: the sum, over every corner and the corner after it (the first
  one after the last), of the longitude of the one times the latitude of the other minus
  the reverse, all in radians.\<close>

theorem area_loop_computes_shoelace:
  "area_loop ps 0 0 = (\<Sum>i<length ps. cross (ps ! i) (ps ! ((i + 1) mod length ps)))"
  using area_loop_0 [of ps] by (simp add: shoelace_def)

text \<open>C1. For four points the function returns the documented formula: half the
  absolute shoelace sum, times the earth's radius (6371000 m) squared and the cosine of
  the mean latitude, divided by 4046.86 square metres per acre, rounded to three
  decimals by \<^verbatim>\<open>Math.round\<close> of the thousandfold.\<close>

theorem calculateAreaInAcres_four_points:
  "calculateAreaInAcres [a, b, c, d] =
     Math_round (\<bar>cross a b + cross b c + cross c d + cross d a\<bar> / 2
        * (6371000 * cos ((latitude a + latitude b + latitude c + latitude d) / 4 * (pi / 180)))
        * 6371000 / 4046.86 * 1000) / 1000"
  by (simp add: calculateAreaInAcres_eq shoelace4 centerLat_sum_list acres_of_def round3_def
      earthRadius_def toRadians_def add.assoc)

text \<open>C22. The area does not depend on which corner the user taps first: rotating the
  list of points by any number of places leaves the result unchanged.\<close>

theorem calculateAreaInAcres_rotate:
  "calculateAreaInAcres (rotate n ps) = calculateAreaInAcres ps"
  by (simp add: calculateAreaInAcres_eq shoelace_rotate)

text \<open>C23. The area does not depend on the direction of the tour: the shoelace sum of
  the reversed list is the negated sum, and the function takes its absolute value.\<close>

theorem calculateAreaInAcres_rev:
  "calculateAreaInAcres (rev ps) = calculateAreaInAcres ps"
proof (cases "length ps = 4")
  case True
  then obtain a b c d where ps: "ps = [a, b, c, d]" by (rule length4E)
  have "shoelace (rev ps) = - shoelace ps"
    unfolding ps by (rule shoelace_rev4)
  then show ?thesis
    by (simp add: calculateAreaInAcres_eq)
next
  case False
  then show ?thesis by (simp add: calculateAreaInAcres_eq)
qed

text \<open>C25. For points with latitudes between -90 and 90 degrees the result is not
  negative. (Outside that range the cosine of the mean latitude, and with it the result,
  can be negative: the function does not check its input.)\<close>

theorem calculateAreaInAcres_nonneg:
  assumes "\<forall>p\<in>set ps. \<bar>latitude p\<bar> \<le> 90"
  shows "0 \<le> calculateAreaInAcres ps"
proof (cases "length ps = 4")
  case True
  then have "ps \<noteq> []" by auto
  then have "\<bar>centerLat ps\<bar> \<le> 90" using assms by (rule centerLat_abs_le)
  then show ?thesis
    by (simp add: calculateAreaInAcres_eq round3_nonneg acres_of_nonneg cos_toRadians_nonneg)
next
  case False
  then show ?thesis by (simp add: calculateAreaInAcres_eq)
qed

theorem calculateAreaInAcres_nonneg_witness: "0 \<le> calculateAreaInAcres example_plot"
  using calculateAreaInAcres_nonneg [of example_plot] by (simp add: example_plot_def)

text \<open>C24. The result is a whole number of thousandths of an acre, and for four points
  it differs from the unrounded area by at most half a thousandth.\<close>

theorem calculateAreaInAcres_three_decimals:
  "calculateAreaInAcres ps * 1000 \<in> \<int> \<and>
   (length ps = 4 \<longrightarrow>
      \<bar>calculateAreaInAcres ps - acres_of (shoelace ps) (centerLat ps)\<bar> \<le> 1 / 2000)"
  using round3_error [of "acres_of (shoelace ps) (centerLat ps)"]
  by (simp add: calculateAreaInAcres_eq round3_thousandths)

theorem calculateAreaInAcres_three_decimals_witness:
  "calculateAreaInAcres example_plot * 1000 \<in> \<int> \<and>
   \<bar>calculateAreaInAcres example_plot - acres_of (shoelace example_plot) (centerLat example_plot)\<bar>
     \<le> 1 / 2000"
  using calculateAreaInAcres_three_decimals [of example_plot] by (simp add: example_plot_def)

text \<open>C21. Four points on one line (each is a base point plus a multiple of one
  direction; four identical points are the case of the multiple 0) have the area 0.\<close>

theorem calculateAreaInAcres_collinear:
  assumes "\<forall>p\<in>{a, b, c, d}. latitude p = la + t p * v \<and> longitude p = lo + t p * u"
  shows "calculateAreaInAcres [a, b, c, d] = 0"
  using shoelace4_collinear [OF assms] by (simp add: calculateAreaInAcres_eq)

theorem calculateAreaInAcres_collinear_witness:
  "calculateAreaInAcres
     [\<lparr>latitude = 19, longitude = 73\<rparr>, \<lparr>latitude = 19.001, longitude = 73.002\<rparr>,
      \<lparr>latitude = 19.003, longitude = 73.006\<rparr>, \<lparr>latitude = 19.002, longitude = 73.004\<rparr>] = 0"
  by (rule calculateAreaInAcres_collinear
      [where la = 19 and lo = 73 and v = 1 and u = 2 and t = "\<lambda>p. latitude p - 19"]) simp

text \<open>C26. Called with other than four points the function returns 0 without looking
  at them: the early return of its first line. No error is raised.\<close>

theorem calculateAreaInAcres_wrong_count:
  "length ps \<noteq> 4 \<Longrightarrow> calculateAreaInAcres ps = 0"
  by (simp add: calculateAreaInAcres_def)

theorem calculateAreaInAcres_wrong_count_witness:
  "calculateAreaInAcres [\<lparr>latitude = 19, longitude = 73\<rparr>, \<lparr>latitude = 19.001, longitude = 73\<rparr>,
      \<lparr>latitude = 19.001, longitude = 73.001\<rparr>] = 0"
  by (rule calculateAreaInAcres_wrong_count) simp

end
