(* ===== verification/Selection.thy ===== *)
theory Selection
  imports AreaCalculator AppState
begin

text \<open>
  Selecting the four corners (lines 139-161 and 293-376): the effect that gives every
  marker its pulse animation, \<^verbatim>\<open>startPointSelection\<close>, \<^verbatim>\<open>handleMapPress\<close> and
  \<^verbatim>\<open>createBoundingBox\<close>.

  \<^verbatim>\<open>createBoundingBox\<close> reads \<^verbatim>\<open>points[0]\<close> to \<^verbatim>\<open>points[3]\<close>; on a shorter list
  the read of a field of \<^verbatim>\<open>undefined\<close> raises a \<^verbatim>\<open>TypeError\<close>. The model returns the
  error as a value, so that "the handler does not raise" is a theorem and not an
  assumption.

  The effect is applied at the end of the handler that changes the points. In React it
  runs after the render that follows the handler, and its write to the ref causes no
  render, so the newest marker is drawn with the fallback scale 1 of line 455 until the
  next render; 1 is also the value the model gives a pulse (\<^verbatim>\<open>Animated.loop\<close> is not
  modelled).
\<close>

section \<open>Constants\<close>

definition MESSAGE_FADE_DURATION :: millis where
  "MESSAGE_FADE_DURATION = 600"

definition DELAY_BEFORE_ANALYSIS_START :: millis where
  "DELAY_BEFORE_ANALYSIS_START = 2500"

section \<open>The pulse effect\<close>

text \<open>The effect on \<^verbatim>\<open>selectedPoints\<close>: for every index of the list, an animated
  value is made and started unless there is one at that index already. The loop visits
  the indices from 0, so a missing value is always the next one of the array.\<close>

definition pulse_effect :: "app \<Rightarrow> app" where
  "pulse_effect s =
     s\<lparr>pointPulseAnims :=
         foldl (\<lambda>anims index. if index < length anims then anims else anims @ [1])
           (pointPulseAnims s) [0..<length (selectedPoints s)]\<rparr>"

section \<open>Handlers\<close>

definition startPointSelection :: "app \<Rightarrow> app" where
  "startPointSelection s =
     pulse_effect
       (schedule MessageFadeDone MESSAGE_FADE_DURATION
          (s\<lparr>isSelectingPoints := True, selectedPoints := [], boundingBox := None,
             farmArea := None, messageAnim := 0\<rparr>))"

definition message_fade_done :: "app \<Rightarrow> app" where
  "message_fade_done s = s\<lparr>showSelectionMessage := False, instructionsAnim := 1\<rparr>"

definition createBoundingBox :: "GeoPoint list \<Rightarrow> app \<Rightarrow> js_error + app" where
  "createBoundingBox points s =
     (if length points < 4 then Inl TypeError
      else
        let exactBoundingBoxCoords =
              [coords (points ! 0), coords (points ! 1), coords (points ! 2), coords (points ! 3)];
            area = calculateAreaInAcres points
        in Inr (schedule StartAnalysis DELAY_BEFORE_ANALYSIS_START
             (s\<lparr>boundingBox := Some exactBoundingBoxCoords, isSelectingPoints := False,
                farmArea := Some area, boundingBoxAnim := 1, areaAnim := 1\<rparr>)))"

definition newPoint :: "number \<Rightarrow> number \<Rightarrow> app \<Rightarrow> GeoPoint" where
  "newPoint lat lon s =
     \<lparr>latitude = lat, longitude = lon, point_id = length (selectedPoints s) + 1\<rparr>"

definition handleMapPress :: "number \<Rightarrow> number \<Rightarrow> app \<Rightarrow> js_error + app" where
  "handleMapPress lat lon s =
     (if \<not> isSelectingPoints s \<or> length (selectedPoints s) \<ge> 4 then Inr s
      else
        let updatedPoints = selectedPoints s @ [newPoint lat lon s];
            s1 = s\<lparr>selectedPoints := updatedPoints\<rparr>
        in map_sum id pulse_effect
             (if length updatedPoints = 4
              then createBoundingBox updatedPoints (s1\<lparr>instructionsAnim := 0\<rparr>)
              else Inr s1))"

lemmas selection_constants = MESSAGE_FADE_DURATION_def DELAY_BEFORE_ANALYSIS_START_def

lemmas [handler_defs] = pulse_effect_def startPointSelection_def message_fade_done_def

section \<open>The pulse effect\<close>

lemma pulse_fold:
  "foldl (\<lambda>anims index. if index < length anims then anims else anims @ [1]) anims [0..<n]
     = anims @ replicate (n - length anims) (1::number)"
proof (induction n)
  case 0
  then show ?case by simp
next
  case (Suc n)
  show ?case
  proof (cases "n < length anims")
    case True
    with Suc show ?thesis by simp
  next
    case False
    then have "Suc n - length anims = Suc (n - length anims)" by simp
    with Suc False show ?thesis by (simp add: replicate_append_same)
  qed
qed

lemma pulse_effect_eq:
  "pulse_effect s =
     s\<lparr>pointPulseAnims :=
         pointPulseAnims s @ replicate (length (selectedPoints s) - length (pointPulseAnims s)) 1\<rparr>"
  by (simp add: pulse_effect_def pulse_fold)

lemma pulse_effect_idem [simp]: "pulse_effect (pulse_effect s) = pulse_effect s"
  by (simp add: pulse_effect_eq)

lemma length_pulse_effect:
  "length (pointPulseAnims (pulse_effect s)) =
     max (length (pointPulseAnims s)) (length (selectedPoints s))"
  by (simp add: pulse_effect_eq)

section \<open>The branches of the handlers\<close>

lemma map_coords_4:
  "length points = 4 \<Longrightarrow>
   [coords (points ! 0), coords (points ! 1), coords (points ! 2), coords (points ! 3)]
     = map coords points"
  by (erule length4E) simp

lemma createBoundingBox_4:
  "length points = 4 \<Longrightarrow>
   createBoundingBox points s =
     Inr (schedule StartAnalysis DELAY_BEFORE_ANALYSIS_START
       (s\<lparr>boundingBox := Some (map coords points), isSelectingPoints := False,
          farmArea := Some (calculateAreaInAcres points), boundingBoxAnim := 1, areaAnim := 1\<rparr>))"
  using map_coords_4 [of points] by (simp add: createBoundingBox_def Let_def)

lemma createBoundingBox_short:
  "length points < 4 \<Longrightarrow> createBoundingBox points s = Inl TypeError"
  by (simp add: createBoundingBox_def)

lemma newPoint_simps [simp]:
  "latitude (newPoint lat lon s) = lat"
  "longitude (newPoint lat lon s) = lon"
  "point_id (newPoint lat lon s) = length (selectedPoints s) + 1"
  by (simp_all add: newPoint_def)

lemma handleMapPress_ignored:
  "\<not> isSelectingPoints s \<or> 4 \<le> length (selectedPoints s) \<Longrightarrow> handleMapPress lat lon s = Inr s"
  by (auto simp: handleMapPress_def)

lemma handleMapPress_add:
  "isSelectingPoints s \<Longrightarrow> length (selectedPoints s) < 3 \<Longrightarrow>
   handleMapPress lat lon s =
     Inr (pulse_effect (s\<lparr>selectedPoints := selectedPoints s @ [newPoint lat lon s]\<rparr>))"
  by (simp add: handleMapPress_def Let_def)

lemma handleMapPress_fourth:
  "isSelectingPoints s \<Longrightarrow> length (selectedPoints s) = 3 \<Longrightarrow>
   handleMapPress lat lon s =
     Inr (pulse_effect (schedule StartAnalysis DELAY_BEFORE_ANALYSIS_START
       (s\<lparr>selectedPoints := selectedPoints s @ [newPoint lat lon s], instructionsAnim := 0,
          boundingBox := Some (map coords (selectedPoints s @ [newPoint lat lon s])),
          isSelectingPoints := False,
          farmArea := Some (calculateAreaInAcres (selectedPoints s @ [newPoint lat lon s])),
          boundingBoxAnim := 1, areaAnim := 1\<rparr>)))"
  by (simp add: handleMapPress_def Let_def createBoundingBox_4)

lemma handleMapPress_Inr: "\<exists>s'. handleMapPress lat lon s = Inr s'"
  by (auto simp: handleMapPress_def Let_def createBoundingBox_4)

lemma handleMapPress_cases:
  obtains (ignored) "\<not> isSelectingPoints s \<or> 4 \<le> length (selectedPoints s)"
  | (add) "isSelectingPoints s" "length (selectedPoints s) < 3"
  | (fourth) "isSelectingPoints s" "length (selectedPoints s) = 3"
  by (cases "isSelectingPoints s"; cases "length (selectedPoints s) < 3";
      cases "length (selectedPoints s) = 3") auto

end
