(* ===== verification/Analysis.thy ===== *)
theory Analysis
  imports AppState
begin

text \<open>
  The timed analysis (lines 163-170, 180-191 and 378-415): the catalogue of steps,
  \<^verbatim>\<open>startAnalysis\<close>, which sets one timer per step, the callback of those timers
  (\<open>analysis_tick\<close>, which captured the step's index) and the callback that leaves the
  screen (\<open>navigate\<close>).
\<close>

section \<open>Constants\<close>

record analysis_step =
  title :: string
  icon :: string
  color :: string

definition analysisSteps :: "analysis_step list" where
  "analysisSteps =
     [\<lparr>title = ''Analyzing Farm Land'', icon = ''leaf-outline'', color = ''#10B981''\<rparr>,
      \<lparr>title = ''Analyzing Soil Conditions'', icon = ''earth-outline'', color = ''#8B4513''\<rparr>,
      \<lparr>title = ''Fetching Nearby Mandi Prices'', icon = ''trending-up-outline'',
        color = ''#F59E0B''\<rparr>,
      \<lparr>title = ''Getting Latest Weather Updates'', icon = ''partly-sunny-outline'',
        color = ''#3B82F6''\<rparr>,
      \<lparr>title = ''Finalizing Personalized Insights'', icon = ''analytics-outline'',
        color = ''#8B5CF6''\<rparr>]"

definition TIME_PER_ANALYSIS_STEP :: millis where
  "TIME_PER_ANALYSIS_STEP = 1800"

definition DELAY_AFTER_LAST_STEP :: millis where
  "DELAY_AFTER_LAST_STEP = 1500"

section \<open>Handlers\<close>

definition startAnalysis :: "app \<Rightarrow> app" where
  "startAnalysis s =
     foldl (\<lambda>s index. schedule (AnalysisStep index) ((index + 1) * TIME_PER_ANALYSIS_STEP) s)
       (s\<lparr>isAnalyzing := True, currentAnalysisStep := 0, loadingAnim := 1\<rparr>)
       [0..<length analysisSteps]"

definition analysis_tick :: "nat \<Rightarrow> app \<Rightarrow> app" where
  "analysis_tick i s =
     (let s1 = s\<lparr>currentAnalysisStep := i, stepAnim := 1\<rparr>
      in if i = length analysisSteps - 1
         then schedule Navigate DELAY_AFTER_LAST_STEP s1
         else s1)"

definition navigate :: "app \<Rightarrow> app" where
  "navigate s = perform (Navigation_replace ''ChoiceScreen'') s"

lemmas analysis_constants = TIME_PER_ANALYSIS_STEP_def DELAY_AFTER_LAST_STEP_def

lemmas [handler_defs] = startAnalysis_def analysis_tick_def navigate_def

lemma length_analysisSteps [simp]: "length analysisSteps = 5"
  by (simp add: analysisSteps_def)

end
