(* ===== verification/Screen.thy ===== *)
theory Screen
  imports Preloader Location Selection Analysis
begin

text \<open>
  The screen as a whole: \<^verbatim>\<open>handlePreloaderComplete\<close> (lines 193-197), which ties the
  preloader to the search for the user, and the event loop that runs the handlers.

  \<^item> \<open>fire\<close> is the interpreter of the callbacks: it maps every constructor of
    \<open>callback\<close> to the definition that models the closure. A \<^verbatim>\<open>setIndex\<close> of the
    preloader after the preloader was unmounted changes nothing, as in React.
  \<^item> \<open>event\<close> lists what can happen to the screen: the event loop runs the timer at
    the head of the queue (\<open>Tick\<close>), time passes (\<open>Elapse\<close>), a promise of the location
    API settles, the user presses "Start Selection" or the map. \<open>enabled\<close> says when an
    event can happen: a timer must be pending, a promise must be outstanding, the button
    and the map must be on the screen (lines 425-442 and 519-557).
  \<^item> \<open>handle\<close> runs the handler of an event; \<open>step\<close> is \<open>handle\<close> for an enabled event
    whose handler does not raise; \<open>run\<close> runs a list of events.
  \<^item> \<open>reachable\<close> are the states a mounted screen can be in: \<open>mount h\<close> for a window
    of height \<open>h\<close>, and every state a step leads to from a reachable one.

  Every event is handled to its end before the next one (JavaScript runs one callback
  at a time) and every handler sees the state the previous one left (React renders
  between two events, so the closures of the handlers hold the current state). A timer
  may run late, never early: \<open>Tick\<close> moves the clock to the due time of the timer unless
  the clock has passed it.

  \<open>enabled\<close> allows more than a device does: a tap on the map is enabled whenever the
  map is mounted, also while the analysis overlay covers the window and would take the
  touch, and a timer may be late by any amount. The guard of \<open>fire\<close> on \<^verbatim>\<open>showPreloader\<close>
  stands for React, which drops the \<^verbatim>\<open>setIndex\<close> of an unmounted component; the callback
  of line 68 has no condition of its own.
\<close>

section \<open>Composition\<close>

definition handlePreloaderComplete :: "app \<Rightarrow> app" where
  "handlePreloaderComplete s = getUserLocation (s\<lparr>showPreloader := False\<rparr>)"

fun fire :: "callback \<Rightarrow> app \<Rightarrow> app" where
  "fire (PreloaderFadeInDone i) s = preloader_fade_in_done i s"
| "fire PreloaderNextWord s = (if showPreloader s then preloader_next_word s else s)"
| "fire PreloaderSlideUp s = preloader_slide_up s"
| "fire PreloaderSlideDone s = preloader_slide_done handlePreloaderComplete s"
| "fire (AnimateToUser c) s = animateToUserLocation c s"
| "fire ShowSelectionMessage s = show_selection_message s"
| "fire MessageFadeDone s = message_fade_done s"
| "fire StartAnalysis s = startAnalysis s"
| "fire (AnalysisStep i) s = analysis_tick i s"
| "fire Navigate s = navigate s"

datatype event =
    Tick
  | Elapse millis
  | PermissionResolved permission_status
  | PermissionRejected
  | PositionResolved coordinate
  | PositionRejected
  | PressStartSelection
  | PressMap number number

fun enabled :: "event \<Rightarrow> app \<Rightarrow> bool" where
  "enabled Tick s \<longleftrightarrow> timers s \<noteq> []"
| "enabled (Elapse d) s \<longleftrightarrow> True"
| "enabled (PermissionResolved status) s \<longleftrightarrow> 0 < permissionRequests s"
| "enabled PermissionRejected s \<longleftrightarrow> 0 < permissionRequests s"
| "enabled (PositionResolved c) s \<longleftrightarrow> 0 < positionRequests s"
| "enabled PositionRejected s \<longleftrightarrow> 0 < positionRequests s"
| "enabled PressStartSelection s \<longleftrightarrow> \<not> showPreloader s \<and> showSelectionMessage s"
| "enabled (PressMap lat lon) s \<longleftrightarrow> \<not> showPreloader s"

definition tick :: "app \<Rightarrow> js_error + app" where
  "tick s =
     (case timers s of
        [] \<Rightarrow> Inr s
      | t # q \<Rightarrow> Inr (fire (callback t) (s\<lparr>timers := q, now := max (now s) (due t)\<rparr>)))"

fun handle :: "event \<Rightarrow> app \<Rightarrow> js_error + app" where
  "handle Tick s = tick s"
| "handle (Elapse d) s = Inr (s\<lparr>now := now s + d\<rparr>)"
| "handle (PermissionResolved status) s =
     Inr (permission_resolved status (s\<lparr>permissionRequests := permissionRequests s - 1\<rparr>))"
| "handle PermissionRejected s =
     Inr (location_failed (s\<lparr>permissionRequests := permissionRequests s - 1\<rparr>))"
| "handle (PositionResolved c) s =
     Inr (position_resolved c (s\<lparr>positionRequests := positionRequests s - 1\<rparr>))"
| "handle PositionRejected s =
     Inr (location_failed (s\<lparr>positionRequests := positionRequests s - 1\<rparr>))"
| "handle PressStartSelection s = Inr (startPointSelection s)"
| "handle (PressMap lat lon) s = handleMapPress lat lon s"

definition step :: "event \<Rightarrow> app \<Rightarrow> app option" where
  "step e s = (if enabled e s then (case handle e s of Inr s' \<Rightarrow> Some s' | Inl err \<Rightarrow> None) else None)"

fun run :: "event list \<Rightarrow> app \<Rightarrow> app option" where
  "run [] s = Some s"
| "run (e # es) s = (case step e s of None \<Rightarrow> None | Some s' \<Rightarrow> run es s')"

definition mount :: "number \<Rightarrow> app" where
  "mount h = preloader_mount (initial h)"

inductive reachable :: "app \<Rightarrow> bool" where
  reach_mount: "reachable (mount h)"
| reach_step: "reachable s \<Longrightarrow> step e s = Some s' \<Longrightarrow> reachable s'"

lemmas [handler_defs] = handlePreloaderComplete_def tick_def Let_def

section \<open>Steps and runs\<close>

lemma upt_0_5 [simp]: "[0..<5] = [0, 1, 2, 3, 4]"
  by (simp add: upt_rec)

lemma pending_Nil [simp]: "pending [] = []"
  by (simp add: pending_def)

lemma pending_Cons [simp]: "pending (t # q) = callback t # pending q"
  by (simp add: pending_def)

lemma step_Some_iff: "step e s = Some s' \<longleftrightarrow> enabled e s \<and> handle e s = Inr s'"
  by (auto simp: step_def split: sum.splits)

lemma step_Tick:
  "timers s = t # q \<Longrightarrow>
   step Tick s = Some (fire (callback t) (s\<lparr>timers := q, now := max (now s) (due t)\<rparr>))"
  by (simp add: step_def tick_def)

lemma run_append: "run (es @ fs) s = (case run es s of None \<Rightarrow> None | Some s' \<Rightarrow> run fs s')"
  by (induction es arbitrary: s) (simp_all split: option.splits)

lemma reachable_run: "reachable s \<Longrightarrow> run es s = Some s' \<Longrightarrow> reachable s'"
  by (induction es arbitrary: s) (auto split: option.splits intro: reachable.reach_step)

lemma timers_pulse_effect [simp]: "timers (pulse_effect s) = timers s"
  by (simp add: pulse_effect_def)

lemma set_timers_schedule [simp]:
  "set (timers (schedule cb delay s)) = insert \<lparr>due = now s + delay, callback = cb\<rparr> (set (timers s))"
  by (simp add: schedule_def set_setTimeout)

section \<open>Example states\<close>

text \<open>The screen after the user pressed "Start Selection" and tapped three corners of
  the plot of the calculator's example, and the fourth corner.\<close>

definition three_corners :: app where
  "three_corners =
     (initial 800)\<lparr>now := 12000, showPreloader := False, isSelectingPoints := True,
       selectedPoints :=
         [\<lparr>latitude = 19.0, longitude = 73.0, point_id = 1\<rparr>,
          \<lparr>latitude = 19.0, longitude = 73.001, point_id = 2\<rparr>,
          \<lparr>latitude = 19.001, longitude = 73.001, point_id = 3\<rparr>],
       pointPulseAnims := [1, 1, 1]\<rparr>"

definition fourth_corner :: GeoPoint where
  "fourth_corner = \<lparr>latitude = 19.001, longitude = 73.0, point_id = 4\<rparr>"

section \<open>Properties of the steps\<close>

text \<open>C15. No handler raises. Whenever an event can happen (a timer is pending, a promise
  is outstanding, the button or the map is on the screen) its handler runs to the end and
  leaves a state; in particular a tap on the map never reaches the read of
  \<^verbatim>\<open>points[3]\<close> in \<^verbatim>\<open>createBoundingBox\<close> with fewer than four points.\<close>

theorem enabled_step: "enabled e s \<Longrightarrow> \<exists>s'. step e s = Some s'"
proof (cases e)
  case (PressMap lat lon)
  moreover obtain s' where "handleMapPress lat lon s = Inr s'"
    using handleMapPress_Inr by blast
  moreover assume "enabled e s"
  ultimately show ?thesis by (simp add: step_def)
qed (auto simp: step_def tick_def split: list.splits)

theorem enabled_step_witness: "\<exists>s'. step (PressMap 19.001 73.0) three_corners = Some s'"
  using enabled_step [of "PressMap 19.001 73.0" three_corners] by (simp add: three_corners_def)

text \<open>C6. A tap on the map is dropped when no selection is going on or four points
  are held already: the fifth tap changes nothing, neither the points nor the boundary
  nor the area nor the timers.\<close>

theorem tap_ignored:
  assumes "\<not> showPreloader s" and "\<not> isSelectingPoints s \<or> 4 \<le> length (selectedPoints s)"
  shows "step (PressMap lat lon) s = Some s"
  using assms by (simp add: step_def handleMapPress_ignored)

theorem tap_ignored_witness:
  "step (PressMap 19.0005 73.0005) (three_corners\<lparr>isSelectingPoints := False\<rparr>)
     = Some (three_corners\<lparr>isSelectingPoints := False\<rparr>)"
  using tap_ignored [of "three_corners\<lparr>isSelectingPoints := False\<rparr>" "19.0005" "73.0005"]
  by (simp add: three_corners_def)

text \<open>C27. While points are selected, each of the first three taps appends the tapped
  point with the next number and gives it a pulse animation; there is no boundary and
  no area yet, and no timer is set.\<close>

theorem tap_appends_point:
  assumes "\<not> showPreloader s" "isSelectingPoints s" "length (selectedPoints s) < 3"
  shows "\<exists>s'. step (PressMap lat lon) s = Some s' \<and>
     selectedPoints s' = selectedPoints s @
        [\<lparr>latitude = lat, longitude = lon, point_id = length (selectedPoints s) + 1\<rparr>] \<and>
     boundingBox s' = boundingBox s \<and> farmArea s' = farmArea s \<and> isSelectingPoints s' \<and>
     timers s' = timers s \<and> length (selectedPoints s') \<le> length (pointPulseAnims s')"
  using assms by (simp add: step_def handleMapPress_add pulse_effect_eq newPoint_def)

theorem tap_appends_point_witness:
  "\<exists>s'. step (PressMap 19 73) ((initial 800)\<lparr>showPreloader := False, isSelectingPoints := True\<rparr>)
       = Some s' \<and>
     selectedPoints s' = [\<lparr>latitude = 19, longitude = 73, point_id = 1\<rparr>] \<and>
     boundingBox s' = None \<and> farmArea s' = None \<and> isSelectingPoints s' \<and>
     timers s' = [] \<and> length (selectedPoints s') \<le> length (pointPulseAnims s')"
  using tap_appends_point [of "(initial 800)\<lparr>showPreloader := False, isSelectingPoints := True\<rparr>" 19 73]
  by (simp add: initial_def)

text \<open>C3. The fourth tap forms the boundary at once, in the handler of the tap: the
  point is appended, the boundary is the four points in the order of the taps, the area
  is the result of \<^verbatim>\<open>calculateAreaInAcres\<close> for them, the selection is over, and the
  start of the analysis is due 2500 ms later; nothing else is scheduled.\<close>

theorem fourth_tap_forms_boundary:
  assumes "\<not> showPreloader s" "isSelectingPoints s" "length (selectedPoints s) = 3"
  shows "\<exists>s' p. step (PressMap lat lon) s = Some s' \<and>
     p = \<lparr>latitude = lat, longitude = lon, point_id = 4\<rparr> \<and>
     selectedPoints s' = selectedPoints s @ [p] \<and>
     boundingBox s' = Some (map coords (selectedPoints s @ [p])) \<and>
     farmArea s' = Some (calculateAreaInAcres (selectedPoints s @ [p])) \<and>
     \<not> isSelectingPoints s' \<and>
     timers s' = setTimeout StartAnalysis 2500 (now s) (timers s)"
  using assms
  by (simp add: step_def handleMapPress_fourth pulse_effect_eq newPoint_def schedule_def
      selection_constants)

theorem fourth_tap_forms_boundary_witness:
  "\<exists>s'. step (PressMap 19.001 73.0) three_corners = Some s' \<and>
     selectedPoints s' = selectedPoints three_corners @ [fourth_corner] \<and>
     boundingBox s' = Some (map coords (selectedPoints three_corners @ [fourth_corner])) \<and>
     farmArea s' = Some (calculateAreaInAcres (selectedPoints three_corners @ [fourth_corner])) \<and>
     \<not> isSelectingPoints s' \<and>
     timers s' = [\<lparr>due = 14500, callback = StartAnalysis\<rparr>]"
  using fourth_tap_forms_boundary [of three_corners "19.001" "73.0"]
  by (simp add: three_corners_def fourth_corner_def initial_def setTimeout_def)

text \<open>C28. "Start Selection" begins a new selection: the points, the boundary and the
  area of an earlier selection are discarded, taps are accepted, and the message is
  taken from the screen when its fade, 600 ms long, is over.\<close>

theorem start_selection_resets:
  assumes "\<not> showPreloader s" "showSelectionMessage s"
  shows "\<exists>s'. step PressStartSelection s = Some s' \<and>
     selectedPoints s' = [] \<and> boundingBox s' = None \<and> farmArea s' = None \<and>
     isSelectingPoints s' \<and>
     timers s' = setTimeout MessageFadeDone 600 (now s) (timers s)"
  using assms by (simp add: step_def handler_defs selection_constants)

theorem start_selection_resets_witness:
  "\<exists>s'. step PressStartSelection (three_corners\<lparr>showSelectionMessage := True\<rparr>) = Some s' \<and>
     selectedPoints s' = [] \<and> boundingBox s' = None \<and> farmArea s' = None \<and>
     isSelectingPoints s' \<and>
     timers s' = [\<lparr>due = 12600, callback = MessageFadeDone\<rparr>]"
  using start_selection_resets [of "three_corners\<lparr>showSelectionMessage := True\<rparr>"]
  by (simp add: three_corners_def initial_def setTimeout_def)

text \<open>C29. No timer is ever cancelled. An event other than the run of a timer leaves
  every pending timer in the queue, and the run of a timer removes only the timer that
  runs: a timer set for an earlier selection still runs after "Start Selection" was
  pressed again, and there is nothing that clears the timers when the screen goes.\<close>

theorem no_timer_cancelled:
  assumes "step e s = Some s'"
  shows "set (if e = Tick then tl (timers s) else timers s) \<subseteq> set (timers s')"
proof (cases e)
  case Tick
  have fire: "set (timers s) \<subseteq> set (timers (fire c s))" for c s
    by (cases c) (auto simp: handler_defs)
  show ?thesis
  proof (cases "timers s")
    case Nil
    with assms Tick show ?thesis by (simp add: step_def)
  next
    case (Cons t q)
    with assms Tick have "s' = fire (callback t) (s\<lparr>timers := q, now := max (now s) (due t)\<rparr>)"
      by (simp add: step_Tick)
    with fire [of "s\<lparr>timers := q, now := max (now s) (due t)\<rparr>" "callback t"] Tick Cons
    show ?thesis by simp
  qed
next
  case (PressMap lat lon)
  with assms show ?thesis
    by (cases s rule: handleMapPress_cases)
      (auto simp: step_Some_iff handleMapPress_ignored handleMapPress_add handleMapPress_fourth)
qed (use assms in \<open>auto simp: step_Some_iff handler_defs split: if_splits\<close>)

theorem no_timer_cancelled_witness:
  "\<exists>s'. step PressStartSelection
          (three_corners\<lparr>showSelectionMessage := True,
             timers := [\<lparr>due = 14500, callback = StartAnalysis\<rparr>]\<rparr>) = Some s' \<and>
     \<lparr>due = 14500, callback = StartAnalysis\<rparr> \<in> set (timers s')"
proof -
  let ?s = "three_corners\<lparr>showSelectionMessage := True,
    timers := [\<lparr>due = 14500, callback = StartAnalysis\<rparr>]\<rparr>"
  have step: "step PressStartSelection ?s = Some (startPointSelection ?s)"
    by (simp add: step_def three_corners_def)
  from no_timer_cancelled [OF step] have "set (timers ?s) \<subseteq> set (timers (startPointSelection ?s))"
    by simp
  with step show ?thesis by simp
qed

end
