(* ===== verification/Invariants.thy ===== *)
theory Invariants
  imports Screen
begin

text \<open>
  What is true in every state the screen can reach.

  \<^item> \<open>points_inv\<close>: the selection is consistent. At most four points are held; they are
    numbered 1, 2, ... in the order of the taps; while points are being selected there
    are fewer than four; the boundary exists exactly when four points are held, and then
    it is the four points in tap order and the area is the calculator's result for them;
    without a boundary there is no area; every marker has its pulse animation.
  \<^item> \<open>analysis_inv\<close>: the index of the current analysis step is an index of the
    catalogue, and so is the index every pending step timer will set.
  \<^item> \<open>queue_inv\<close>: the pending timers are in the order of their due times.

  Each invariant is proved for the callbacks (\<open>fire\<close>), for the handlers of the events
  (\<open>handle\<close>) and then for the reachable states by rule induction.
\<close>

section \<open>Definitions\<close>

definition points_inv :: "app \<Rightarrow> bool" where
  "points_inv s \<longleftrightarrow>
     length (selectedPoints s) \<le> 4 \<and>
     (\<forall>i<length (selectedPoints s). point_id (selectedPoints s ! i) = i + 1) \<and>
     (isSelectingPoints s \<longrightarrow> length (selectedPoints s) < 4) \<and>
     (case boundingBox s of
        None \<Rightarrow> length (selectedPoints s) \<noteq> 4 \<and> farmArea s = None
      | Some box \<Rightarrow> length (selectedPoints s) = 4 \<and> box = map coords (selectedPoints s) \<and>
          farmArea s = Some (calculateAreaInAcres (selectedPoints s))) \<and>
     length (selectedPoints s) \<le> length (pointPulseAnims s)"

definition analysis_inv :: "app \<Rightarrow> bool" where
  "analysis_inv s \<longleftrightarrow>
     currentAnalysisStep s < length analysisSteps \<and>
     (\<forall>i. AnalysisStep i \<in> set (pending (timers s)) \<longrightarrow> i < length analysisSteps)"

definition queue_inv :: "app \<Rightarrow> bool" where
  "queue_inv s \<longleftrightarrow> sorted (map due (timers s))"

definition screen_inv :: "app \<Rightarrow> bool" where
  "screen_inv s \<longleftrightarrow> points_inv s \<and> analysis_inv s \<and> queue_inv s"

text \<open>The fields the selection invariant reads.\<close>

definition selection_fields ::
  "app \<Rightarrow> GeoPoint list \<times> coordinate list option \<times> bool \<times> number option \<times> number list" where
  "selection_fields s =
     (selectedPoints s, boundingBox s, isSelectingPoints s, farmArea s, pointPulseAnims s)"

lemmas [inv_defs] = points_inv_def analysis_inv_def queue_inv_def screen_inv_def

section \<open>The selection\<close>

lemma points_inv_selection: "selection_fields s' = selection_fields s \<Longrightarrow> points_inv s' = points_inv s"
  by (simp add: points_inv_def selection_fields_def cong: option.case_cong)

lemma selection_fire [simp]: "selection_fields (fire c s) = selection_fields s"
  by (cases c) (simp_all add: selection_fields_def handler_defs)

lemma selection_runtime [simp]:
  "selection_fields (s\<lparr>timers := q\<rparr>) = selection_fields s"
  "selection_fields (s\<lparr>now := n\<rparr>) = selection_fields s"
  "selection_fields (s\<lparr>permissionRequests := k\<rparr>) = selection_fields s"
  "selection_fields (s\<lparr>positionRequests := k\<rparr>) = selection_fields s"
  by (simp_all add: selection_fields_def)

lemma selection_location [simp]:
  "selection_fields (permission_resolved status s) = selection_fields s"
  "selection_fields (position_resolved c s) = selection_fields s"
  "selection_fields (location_failed s) = selection_fields s"
  by (simp_all add: selection_fields_def handler_defs)

lemma points_inv_mount: "points_inv (mount h)"
  by (simp add: points_inv_def mount_def initial_def handler_defs)

lemma points_inv_startPointSelection: "points_inv (startPointSelection s)"
  by (simp add: points_inv_def handler_defs)

lemma ids_snoc:
  assumes "\<forall>i<length ps. point_id (ps ! i) = i + 1" and "point_id p = length ps + 1"
  shows "\<forall>i<length (ps @ [p]). point_id ((ps @ [p]) ! i) = i + 1"
  using assms by (simp add: nth_append less_Suc_eq)

lemma points_inv_add_point:
  assumes "points_inv s" "isSelectingPoints s" "length (selectedPoints s) < 3"
  shows "points_inv (pulse_effect (s\<lparr>selectedPoints := selectedPoints s @ [newPoint lat lon s]\<rparr>))"
proof -
  let ?ps = "selectedPoints s @ [newPoint lat lon s]"
  have ids: "\<forall>i<length ?ps. point_id (?ps ! i) = i + 1"
    using assms(1) by (intro ids_snoc) (simp_all add: points_inv_def)
  have box: "boundingBox s = None" "farmArea s = None"
    using assms by (auto simp: points_inv_def split: option.splits)
  show ?thesis
    unfolding points_inv_def using ids assms(2,3) box
    by (simp add: pulse_effect_eq)
qed

lemma points_inv_fourth_point:
  assumes "points_inv s" "isSelectingPoints s" "length (selectedPoints s) = 3"
  shows "points_inv (pulse_effect (schedule StartAnalysis DELAY_BEFORE_ANALYSIS_START
       (s\<lparr>selectedPoints := selectedPoints s @ [newPoint lat lon s], instructionsAnim := 0,
          boundingBox := Some (map coords (selectedPoints s @ [newPoint lat lon s])),
          isSelectingPoints := False,
          farmArea := Some (calculateAreaInAcres (selectedPoints s @ [newPoint lat lon s])),
          boundingBoxAnim := 1, areaAnim := 1\<rparr>)))"
proof -
  let ?ps = "selectedPoints s @ [newPoint lat lon s]"
  have ids: "\<forall>i<length ?ps. point_id (?ps ! i) = i + 1"
    using assms(1) by (intro ids_snoc) (simp_all add: points_inv_def)
  show ?thesis
    unfolding points_inv_def using ids assms(3)
    by (simp add: pulse_effect_eq schedule_def)
qed

lemma points_inv_handleMapPress:
  assumes "points_inv s" and "handleMapPress lat lon s = Inr s'"
  shows "points_inv s'"
proof (cases s rule: handleMapPress_cases)
  case ignored
  with assms show ?thesis by (simp add: handleMapPress_ignored)
next
  case add
  with assms(2) have "s' = pulse_effect (s\<lparr>selectedPoints := selectedPoints s @ [newPoint lat lon s]\<rparr>)"
    by (simp add: handleMapPress_add)
  with assms(1) add show ?thesis by (simp only: points_inv_add_point)
next
  case fourth
  with assms(2) have "s' = pulse_effect (schedule StartAnalysis DELAY_BEFORE_ANALYSIS_START
       (s\<lparr>selectedPoints := selectedPoints s @ [newPoint lat lon s], instructionsAnim := 0,
          boundingBox := Some (map coords (selectedPoints s @ [newPoint lat lon s])),
          isSelectingPoints := False,
          farmArea := Some (calculateAreaInAcres (selectedPoints s @ [newPoint lat lon s])),
          boundingBoxAnim := 1, areaAnim := 1\<rparr>))"
    by (simp add: handleMapPress_fourth)
  with assms(1) fourth show ?thesis by (simp only: points_inv_fourth_point)
qed

lemma selection_tick: "tick s = Inr s' \<Longrightarrow> selection_fields s' = selection_fields s"
  by (cases "timers s") (auto simp: tick_def)

lemma selection_handle:
  assumes "handle e s = Inr s'" "e \<noteq> PressStartSelection" "\<forall>lat lon. e \<noteq> PressMap lat lon"
  shows "selection_fields s' = selection_fields s"
  using assms by (cases e) (auto simp: selection_tick)

lemma event_cases:
  obtains (start) "e = PressStartSelection"
  | (press) lat lon where "e = PressMap lat lon"
  | (other) "e \<noteq> PressStartSelection" "\<forall>lat lon. e \<noteq> PressMap lat lon"
  by (cases e) simp_all

lemma points_inv_handle:
  assumes "points_inv s" and "handle e s = Inr s'"
  shows "points_inv s'"
proof (cases e rule: event_cases)
  case start
  with assms(2) show ?thesis by (auto simp: points_inv_startPointSelection)
next
  case (press lat lon)
  with assms(2) have "handleMapPress lat lon s = Inr s'" by simp
  with assms(1) show ?thesis by (rule points_inv_handleMapPress)
next
  case other
  with assms(2) have "selection_fields s' = selection_fields s" by (rule selection_handle)
  then have "points_inv s' = points_inv s" by (rule points_inv_selection)
  with assms(1) show ?thesis by simp
qed

section \<open>The analysis steps\<close>

lemma analysis_inv_mount: "analysis_inv (mount h)"
  by (simp add: analysis_inv_def mount_def initial_def handler_defs)

lemma analysis_inv_fire:
  assumes "analysis_inv s" and "\<forall>i. c = AnalysisStep i \<longrightarrow> i < length analysisSteps"
  shows "analysis_inv (fire c s)"
  using assms by (cases c) (auto simp add: analysis_inv_def handler_defs)

lemma analysis_inv_tick:
  assumes "analysis_inv s" and "tick s = Inr s'"
  shows "analysis_inv s'"
proof (cases "timers s")
  case Nil
  with assms show ?thesis by (simp add: tick_def)
next
  case (Cons t q)
  with assms(1) have "analysis_inv (s\<lparr>timers := q, now := max (now s) (due t)\<rparr>)"
    and "\<forall>i. callback t = AnalysisStep i \<longrightarrow> i < length analysisSteps"
    by (auto simp: analysis_inv_def)
  then have "analysis_inv (fire (callback t) (s\<lparr>timers := q, now := max (now s) (due t)\<rparr>))"
    by (rule analysis_inv_fire)
  with assms(2) Cons show ?thesis by (auto simp: tick_def)
qed

lemma analysis_inv_handleMapPress:
  assumes "analysis_inv s" and "handleMapPress lat lon s = Inr s'"
  shows "analysis_inv s'"
proof (cases s rule: handleMapPress_cases)
  case ignored
  with assms show ?thesis by (simp add: handleMapPress_ignored)
next
  case add
  with assms show ?thesis by (auto simp: handleMapPress_add analysis_inv_def pulse_effect_eq)
next
  case fourth
  with assms show ?thesis
    by (auto simp: handleMapPress_fourth analysis_inv_def pulse_effect_eq schedule_def)
qed

lemma analysis_inv_handle:
  assumes "analysis_inv s" and "handle e s = Inr s'"
  shows "analysis_inv s'"
proof (cases e)
  case Tick
  with assms show ?thesis by (auto intro: analysis_inv_tick)
next
  case (PressMap lat lon)
  with assms(2) have "handleMapPress lat lon s = Inr s'" by simp
  with assms(1) show ?thesis by (rule analysis_inv_handleMapPress)
qed (use assms in \<open>auto simp: analysis_inv_def handler_defs split: if_splits\<close>)

section \<open>The queue\<close>

lemma queue_inv_mount: "queue_inv (mount h)"
  by (simp add: queue_inv_def mount_def initial_def handler_defs)

lemma queue_inv_fire: "queue_inv s \<Longrightarrow> queue_inv (fire c s)"
  by (cases c) (simp_all add: queue_inv_def handler_defs)

lemma queue_inv_tick:
  assumes "queue_inv s" and "tick s = Inr s'"
  shows "queue_inv s'"
proof (cases "timers s")
  case Nil
  with assms show ?thesis by (simp add: tick_def)
next
  case (Cons t q)
  with assms(1) have "queue_inv (s\<lparr>timers := q, now := max (now s) (due t)\<rparr>)"
    by (simp add: queue_inv_def)
  then have "queue_inv (fire (callback t) (s\<lparr>timers := q, now := max (now s) (due t)\<rparr>))"
    by (rule queue_inv_fire)
  with assms(2) Cons show ?thesis by (auto simp: tick_def)
qed

lemma queue_inv_handleMapPress:
  assumes "queue_inv s" and "handleMapPress lat lon s = Inr s'"
  shows "queue_inv s'"
proof (cases s rule: handleMapPress_cases)
  case ignored
  with assms show ?thesis by (simp add: handleMapPress_ignored)
next
  case add
  with assms show ?thesis by (auto simp: handleMapPress_add queue_inv_def pulse_effect_eq)
next
  case fourth
  with assms show ?thesis
    by (auto simp: handleMapPress_fourth queue_inv_def pulse_effect_eq schedule_def)
qed

lemma queue_inv_handle:
  assumes "queue_inv s" and "handle e s = Inr s'"
  shows "queue_inv s'"
proof (cases e)
  case Tick
  with assms show ?thesis by (auto intro: queue_inv_tick)
next
  case (PressMap lat lon)
  with assms(2) have "handleMapPress lat lon s = Inr s'" by simp
  with assms(1) show ?thesis by (rule queue_inv_handleMapPress)
qed (use assms in \<open>auto simp: queue_inv_def handler_defs split: if_splits\<close>)

section \<open>Reachable states\<close>

lemma screen_inv_mount: "screen_inv (mount h)"
  by (simp add: screen_inv_def points_inv_mount analysis_inv_mount queue_inv_mount)

lemma screen_inv_step:
  assumes "screen_inv s" and "step e s = Some s'"
  shows "screen_inv s'"
proof -
  from assms(2) have "handle e s = Inr s'" by (simp add: step_Some_iff)
  with assms(1) show ?thesis
    by (auto simp: screen_inv_def intro: points_inv_handle analysis_inv_handle queue_inv_handle)
qed

lemma reachable_screen_inv: "reachable s \<Longrightarrow> screen_inv s"
  by (induction rule: reachable.induct) (auto intro: screen_inv_mount screen_inv_step)

section \<open>Properties\<close>

text \<open>C2. In every state the screen can reach the selection is consistent: at most
  four points are held, numbered 1, 2, ... in tap order; while taps are accepted fewer
  than four are held; there is a boundary exactly when four points are held, it is
  these points in tap order, and the area shown is the result of
  \<^verbatim>\<open>calculateAreaInAcres\<close> for them; without a boundary there is no area; every
  marker has a pulse animation.\<close>

theorem reachable_points_inv: "reachable s \<Longrightarrow> points_inv s"
  using reachable_screen_inv [of s] by (simp add: screen_inv_def)

text \<open>C30. In every state the screen can reach the index of the current analysis step
  is an index of the catalogue of steps: the read \<^verbatim>\<open>analysisSteps[currentAnalysisStep]\<close>
  of the analysis overlay never yields \<^verbatim>\<open>undefined\<close>.\<close>

theorem reachable_step_in_catalogue:
  "reachable s \<Longrightarrow> currentAnalysisStep s < length analysisSteps"
  using reachable_screen_inv [of s] by (simp add: screen_inv_def analysis_inv_def)

text \<open>In every state the screen can reach the pending timers are in the order of
  their due times, so the timer the event loop runs next is one that is due first.\<close>

theorem reachable_queue_sorted: "reachable s \<Longrightarrow> sorted (map due (timers s))"
  using reachable_screen_inv [of s] by (simp add: screen_inv_def queue_inv_def)

theorem reachable_queue_sorted_witness: "sorted (map due (timers (mount 800)))"
  using reachable_queue_sorted [of "mount 800"] by (simp add: reachable.reach_mount)

end
