(* ===== verification/Termination.thy ===== *)
theory Termination
  imports Invariants
begin

text \<open>
  The event loop comes to rest: from every state, running the pending timers one after
  the other fires finitely many callbacks and leaves an empty queue, although callbacks
  set new timers (the preloader sets one for every word, \<^verbatim>\<open>startAnalysis\<close> sets five, the
  last step sets the one that navigates).

  \<^item> \<open>cost idx c\<close> bounds the number of callbacks that run because of the pending
    callback \<open>c\<close>, itself included, when the preloader shows word \<open>idx\<close>; \<open>potential\<close>
    is the sum over the queue. Every \<open>Tick\<close> makes the potential smaller.
  \<^item> \<open>drain\<close> runs \<open>Tick\<close> until no timer is pending. It is a total function by the
    potential; \<open>drain_trace\<close> is the list of the states it goes through.
  \<^item> \<open>play\<close> runs a list of events and lets the queue drain before each of them and at
    the end: a user who acts when the screen is at rest.
\<close>

section \<open>Definitions\<close>

definition words_left :: "nat \<Rightarrow> nat" where
  "words_left idx = 4 + 2 * (length words - 2 - idx)"

fun cost :: "nat \<Rightarrow> callback \<Rightarrow> nat" where
  "cost idx (PreloaderFadeInDone i) = (if i < length words - 1 then 1 + words_left idx else 3)"
| "cost idx PreloaderNextWord = words_left idx"
| "cost idx PreloaderSlideUp = 2"
| "cost idx PreloaderSlideDone = 1"
| "cost idx (AnimateToUser c) = 2"
| "cost idx ShowSelectionMessage = 1"
| "cost idx MessageFadeDone = 1"
| "cost idx StartAnalysis = 1 + 2 * length analysisSteps"
| "cost idx (AnalysisStep i) = 2"
| "cost idx Navigate = 1"

definition potential :: "app \<Rightarrow> nat" where
  "potential s = weight (cost (index s)) (timers s)"

section \<open>The potential decreases\<close>

lemma cost_mono: "idx \<le> idx' \<Longrightarrow> cost idx' c \<le> cost idx c"
  by (cases c) (auto simp: words_left_def)

lemma weight_cost_mono: "idx \<le> idx' \<Longrightarrow> weight (cost idx') q \<le> weight (cost idx) q"
  by (intro weight_mono cost_mono)

lemma potential_fire: "potential (fire c s) < cost (index s) c + potential s"
proof (cases c)
  case PreloaderNextWord
  have "weight (cost (Suc (index s))) (timers s) \<le> weight (cost (index s)) (timers s)"
    by (rule weight_cost_mono) simp
  then show ?thesis
    unfolding PreloaderNextWord by (auto simp: potential_def handler_defs words_left_def)
qed (auto simp: potential_def handler_defs words_left_def)

lemma potential_step_Tick:
  assumes "step Tick s = Some s'"
  shows "potential s' < potential s"
proof (cases "timers s")
  case Nil
  with assms show ?thesis by (simp add: step_def)
next
  case (Cons t q)
  let ?s = "s\<lparr>timers := q, now := max (now s) (due t)\<rparr>"
  have "potential (fire (callback t) ?s) < cost (index ?s) (callback t) + potential ?s"
    by (rule potential_fire)
  also have "\<dots> = potential s"
    by (simp add: potential_def Cons)
  finally show ?thesis
    using assms Cons by (simp add: step_Tick)
qed

lemma step_Tick_None: "step Tick s = None \<longleftrightarrow> timers s = []"
  by (cases "timers s") (simp_all add: step_def tick_def)

section \<open>Running the queue empty\<close>

function drain :: "app \<Rightarrow> app" where
  "drain s = (case step Tick s of None \<Rightarrow> s | Some s' \<Rightarrow> drain s')"
  by pat_completeness auto
termination
  by (relation "measure potential") (simp_all add: potential_step_Tick)

function drain_trace :: "app \<Rightarrow> app list" where
  "drain_trace s = s # (case step Tick s of None \<Rightarrow> [] | Some s' \<Rightarrow> drain_trace s')"
  by pat_completeness auto
termination
  by (relation "measure potential") (simp_all add: potential_step_Tick)

fun play :: "event list \<Rightarrow> app \<Rightarrow> app option" where
  "play [] s = Some (drain s)"
| "play (e # es) s = (case step e (drain s) of None \<Rightarrow> None | Some s' \<Rightarrow> play es s')"

declare drain.simps [simp del] drain_trace.simps [simp del]

lemma drain_Nil: "timers s = [] \<Longrightarrow> drain s = s"
  by (subst drain.simps) (simp add: step_def)

lemma drain_Cons:
  "timers s = t # q \<Longrightarrow>
   drain s = drain (fire (callback t) (s\<lparr>timers := q, now := max (now s) (due t)\<rparr>))"
  by (subst drain.simps) (simp add: step_Tick)

lemma timers_drain [simp]: "timers (drain s) = []"
proof (induction s rule: drain.induct)
  case (1 s)
  show ?case
  proof (cases "step Tick s")
    case None
    then have "timers s = []" by (simp add: step_Tick_None)
    then show ?thesis by (simp add: drain_Nil)
  next
    case (Some s')
    with "1.IH" show ?thesis by (subst drain.simps) simp
  qed
qed

lemma drain_idem [simp]: "drain (drain s) = drain s"
  by (simp add: drain_Nil)

lemma drain_run: "\<exists>n. run (replicate n Tick) s = Some (drain s)"
proof (induction s rule: drain.induct)
  case (1 s)
  show ?case
  proof (cases "step Tick s")
    case None
    then have "run (replicate 0 Tick) s = Some (drain s)"
      by (subst drain.simps) simp
    then show ?thesis ..
  next
    case (Some s')
    with "1.IH" obtain n where "run (replicate n Tick) s' = Some (drain s')" by blast
    with Some have "run (replicate (Suc n) Tick) s = Some (drain s)"
      by (subst drain.simps) simp
    then show ?thesis ..
  qed
qed

lemma reachable_drain: "reachable s \<Longrightarrow> reachable (drain s)"
  using drain_run [of s] by (auto intro: reachable_run)

lemma last_drain_trace: "last (drain_trace s) = drain s"
proof (induction s rule: drain.induct)
  case (1 s)
  show ?case
  proof (cases "step Tick s")
    case None
    then show ?thesis
      by (subst drain_trace.simps, subst drain.simps) simp
  next
    case (Some s')
    moreover have "drain_trace s' \<noteq> []"
      by (subst drain_trace.simps) simp
    ultimately show ?thesis
      using "1.IH" by (subst drain_trace.simps, subst drain.simps) simp
  qed
qed

lemma play_run: "play es s = Some s' \<Longrightarrow> \<exists>fs. run fs s = Some s'"
proof (induction es arbitrary: s)
  case Nil
  then show ?case using drain_run [of s] by auto
next
  case (Cons e es)
  then obtain s1 where e: "step e (drain s) = Some s1" and "play es s1 = Some s'"
    by (auto split: option.splits)
  with Cons.IH obtain fs where fs: "run fs s1 = Some s'" by blast
  obtain n where "run (replicate n Tick) s = Some (drain s)"
    using drain_run by blast
  with e fs have "run (replicate n Tick @ e # fs) s = Some s'"
    by (simp add: run_append)
  then show ?case ..
qed

lemma reachable_play: "reachable s \<Longrightarrow> play es s = Some s' \<Longrightarrow> reachable s'"
  using play_run [of es s s'] by (auto intro: reachable_run)

section \<open>Properties\<close>

text \<open>C8. The event loop comes to rest from every state of the screen: a finite number
  of timer callbacks runs, none of them raises, and then no timer is pending. No
  chain of callbacks that set timers goes on for ever.\<close>

theorem event_loop_terminates:
  "\<exists>n. run (replicate n Tick) s = Some (drain s) \<and> step Tick (drain s) = None"
  using drain_run [of s] by (simp add: step_Tick_None)

end
