(* ===== verification/Session.thy ===== *)
theory Session
  imports Termination
begin

text \<open>
  Whole runs of the screen, from the mount to the hand-over to the next screen,
  evaluated on the model: what is on the screen at which time.

  \<^item> \<open>splash\<close> and \<open>progress\<close> are what an observer sees of a state during the preloader
    and during the analysis; mapped over \<open>drain_trace\<close> they give the time line of a run.
  \<^item> \<open>location_outcomes\<close> are the ways the search for the user can end.
  \<^item> \<open>hasty\<close> is a user who presses "Start Selection" a second time while the message
    fades, after four taps.

  The clock of a run starts at 0 at the mount. Timers run on time in these runs (the
  event loop is idle when they are due); the user's delays are arbitrary.
\<close>

section \<open>Definitions\<close>

definition splash :: "app \<Rightarrow> millis \<times> nat \<times> bool" where
  "splash s = (now s, index s, showPreloader s)"

definition progress :: "app \<Rightarrow> app \<Rightarrow> millis \<times> bool \<times> nat \<times> effect list" where
  "progress s0 s =
     (now s - now s0, isAnalyzing s, currentAnalysisStep s, drop (length (effects s0)) (effects s))"

definition location_outcomes :: "coordinate \<Rightarrow> event list list" where
  "location_outcomes c =
     [[PermissionResolved Granted, PositionResolved c],
      [PermissionResolved Granted, PositionRejected],
      [PermissionResolved Denied],
      [PermissionResolved Undetermined],
      [PermissionRejected]]"

definition region_of :: "coordinate \<Rightarrow> region" where
  "region_of c =
     \<lparr>latitude = latitude c, longitude = longitude c, latitudeDelta = 0.01, longitudeDelta = 0.01\<rparr>"

definition hasty :: "event list" where
  "hasty =
     [PressStartSelection,
      PressMap 19.0 73.0, PressMap 19.0 73.001, PressMap 19.001 73.001, PressMap 19.001 73.0,
      Elapse 500, PressStartSelection,
      PressMap 19.0 73.0, PressMap 19.0 73.001, PressMap 19.001 73.001, PressMap 19.001 73.0]"

text \<open>A session on the plot of the calculator's example, by a user near Pune, and the
  state it ends in.\<close>

definition example_session :: "event list" where
  "example_session =
     [PermissionResolved Granted, PositionResolved \<lparr>latitude = 18.52, longitude = 73.86\<rparr>,
      PressStartSelection,
      PressMap 19.0 73.0, PressMap 19.0 73.001, PressMap 19.001 73.001, PressMap 19.001 73.0]"

definition example_final :: app where
  "example_final = the (play example_session (mount 800))"

lemmas run_defs = step_def handler_defs preloader_constants location_constants
  selection_constants analysis_constants setTimeout_def

lemmas tap_defs = handleMapPress_def createBoundingBox_def newPoint_def pulse_effect_eq

section \<open>The example session\<close>

lemma example_final_points:
  "play example_session (mount 800) = Some example_final \<and>
   selectedPoints example_final =
     [\<lparr>latitude = 19.0, longitude = 73.0, point_id = 1\<rparr>,
      \<lparr>latitude = 19.0, longitude = 73.001, point_id = 2\<rparr>,
      \<lparr>latitude = 19.001, longitude = 73.001, point_id = 3\<rparr>,
      \<lparr>latitude = 19.001, longitude = 73.0, point_id = 4\<rparr>] \<and>
   farmArea example_final = Some (calculateAreaInAcres (selectedPoints example_final))"
  by (simp add: example_final_def example_session_def mount_def initial_def drain.simps
      run_defs tap_defs)

lemma reachable_example_final: "reachable example_final"
  using example_final_points reachable_play [OF reachable.reach_mount] by blast

text \<open>The plot of the example, a square of a thousandth of a degree, has an area.\<close>

lemma example_area_pos: "0 < calculateAreaInAcres (selectedPoints example_final)"
proof -
  let ?ps = "selectedPoints example_final"
  have ps: "?ps = [\<lparr>latitude = 19.0, longitude = 73.0, point_id = 1\<rparr>,
      \<lparr>latitude = 19.0, longitude = 73.001, point_id = 2\<rparr>,
      \<lparr>latitude = 19.001, longitude = 73.001, point_id = 3\<rparr>,
      \<lparr>latitude = 19.001, longitude = 73.0, point_id = 4\<rparr>]"
    using example_final_points by simp
  have s: "shoelace ?ps = (pi / 180)\<^sup>2 * (2 / 1000000)"
    unfolding ps by (simp add: shoelace4 cross_degrees algebra_simps)
  have c: "centerLat ?ps = 19.0005"
    unfolding ps by (simp add: centerLat_def)
  have cos: "1 / 2 \<le> cos (toRadians (centerLat ?ps))"
    unfolding c by (rule cos_toRadians_ge_half) simp
  moreover have "4 \<le> pi\<^sup>2"
    using pi_ge_two power_mono [of 2 pi 2] by simp
  ultimately have "4 * (1 / 2) \<le> pi\<^sup>2 * cos (toRadians (centerLat ?ps))"
    by (intro mult_mono) simp_all
  then have "1 / 2000 \<le> acres_of (shoelace ?ps) (centerLat ?ps)"
    unfolding s by (simp add: acres_of_def earthRadius_def power2_eq_square field_simps)
  with cos have "calculateAreaInAcres ?ps \<noteq> 0"
    by (subst calculateAreaInAcres_eq_0_iff) (simp_all add: ps)
  moreover from cos have "0 \<le> calculateAreaInAcres ?ps"
    by (simp add: calculateAreaInAcres_eq round3_nonneg acres_of_nonneg)
  ultimately show ?thesis by simp
qed

text \<open>The state the example ends in: the preloader is gone, the analysis has shown its
  last step.\<close>

lemma example_final_state:
  "\<not> showPreloader example_final" "height example_final = 800"
  "isAnalyzing example_final" "currentAnalysisStep example_final = 4"
  "boundingBox example_final = Some (map coords (selectedPoints example_final))"
  by (simp_all add: example_final_def example_session_def mount_def initial_def drain.simps
      run_defs tap_defs)

text \<open>The invariants of the selection and of the analysis at the end of the example
  session, with four points, their boundary, their area and the last step held.\<close>

theorem reachable_points_inv_witness: "points_inv example_final"
  using reachable_points_inv [OF reachable_example_final] by simp

theorem reachable_step_in_catalogue_witness:
  "currentAnalysisStep example_final < length analysisSteps"
  using reachable_step_in_catalogue [OF reachable_example_final] by simp

section \<open>The preloader\<close>

text \<open>The preloader shows the eight words in their order, each for 750 ms (350 ms
  until its fade-in is over and 400 ms more), the last one for 1050 ms until the slide
  starts; the slide is over 6800 ms after the mount, and only then the preloader is
  taken from the screen.\<close>

theorem preloader_timeline:
  "map splash (drain_trace (mount h)) =
     [(0, 0, True), (350, 0, True), (750, 1, True), (1100, 1, True), (1500, 2, True),
      (1850, 2, True), (2250, 3, True), (2600, 3, True), (3000, 4, True), (3350, 4, True),
      (3750, 5, True), (4100, 5, True), (4500, 6, True), (4850, 6, True), (5250, 7, True),
      (5600, 7, True), (6000, 7, True), (6800, 7, False)]"
  by (simp add: mount_def initial_def drain_trace.simps run_defs splash_def)

text \<open>C36. The preloader calls \<^verbatim>\<open>onComplete\<close> exactly once: when its timers have run,
  the screen has asked for the location permission once and for nothing else, the
  preloader is gone, its view is moved up by the height of the window, and no other
  field of the screen has changed.\<close>

theorem preloader_completes:
  "drain (mount h) =
     (initial h)\<lparr>now := 6800, effects := [RequestForegroundPermissions], permissionRequests := 1,
       index := 7, opacityAnim := 1, scaleAnim := 1, slideUpAnim := - h, showPreloader := False\<rparr>"
  by (simp add: mount_def initial_def drain.simps run_defs)

section \<open>The search for the user\<close>

text \<open>C34. However the search for the user ends (position found, position request
  failed, permission denied or left undecided, permission request failed), the screen
  gets a location, the found one in the first case and the fallback 19.0760, 72.8777
  in all others, moves the map there in 1800 ms, and shows the selection message
  2500 ms after the answer; no selection has begun.\<close>

theorem location_always_settles:
  assumes "es \<in> set (location_outcomes c)"
  shows "\<exists>s. play es (mount h) = Some s \<and> showSelectionMessage s \<and> now s = 9300 \<and>
     userLocation s =
       Some (if es = [PermissionResolved Granted, PositionResolved c] then region_of c
             else fallbackLocation) \<and>
     last (effects s) = AnimateToRegion (the (userLocation s)) 1800 \<and>
     \<not> isSelectingPoints s \<and> selectedPoints s = []"
  using assms unfolding location_outcomes_def
  by (auto simp: mount_def initial_def drain.simps run_defs region_of_def fallbackLocation_def
      fallbackCoords_def)

theorem location_always_settles_witness:
  "\<exists>s. play [PermissionResolved Denied] (mount 800) = Some s \<and> showSelectionMessage s \<and>
     now s = 9300 \<and> userLocation s = Some fallbackLocation \<and>
     last (effects s) = AnimateToRegion (the (userLocation s)) 1800 \<and>
     \<not> isSelectingPoints s \<and> selectedPoints s = []"
  using location_always_settles [of "[PermissionResolved Denied]"
      "\<lparr>latitude = 18.52, longitude = 73.86\<rparr>" 800]
  by (simp add: location_outcomes_def)

section \<open>The analysis\<close>

text \<open>C4. After the fourth tap, with no other timer pending, the analysis runs on a
  fixed time line: it starts 2500 ms after the tap with step 0; the step timers run
  every 1800 ms from 4300 ms on and show the steps 0, 1, 2, 3, 4 (the first of them
  sets step 0 again, so step 0 is shown for 3600 ms); 1500 ms after the last step,
  13000 ms after the tap, \<^verbatim>\<open>navigation.replace('ChoiceScreen')\<close> is called, once, and
  nothing else is called in between.\<close>

theorem analysis_timeline:
  assumes "isSelectingPoints s" "length (selectedPoints s) = 3" "timers s = []"
    and "\<not> isAnalyzing s" "currentAnalysisStep s = 0"
  shows "\<exists>s0. handleMapPress lat lon s = Inr s0 \<and>
     map (progress s0) (drain_trace s0) =
       [(0, False, 0, []), (2500, True, 0, []), (4300, True, 0, []), (6100, True, 1, []),
        (7900, True, 2, []), (9700, True, 3, []), (11500, True, 4, []),
        (13000, True, 4, [Navigation_replace ''ChoiceScreen''])]"
  using assms
  by (simp add: handleMapPress_fourth drain_trace.simps progress_def pulse_effect_eq run_defs)

theorem analysis_timeline_witness:
  "\<exists>s0. handleMapPress 19.001 73.0 three_corners = Inr s0 \<and>
     map (progress s0) (drain_trace s0) =
       [(0, False, 0, []), (2500, True, 0, []), (4300, True, 0, []), (6100, True, 1, []),
        (7900, True, 2, []), (9700, True, 3, []), (11500, True, 4, []),
        (13000, True, 4, [Navigation_replace ''ChoiceScreen''])]"
  using analysis_timeline [of three_corners "19.001" "73.0"]
  by (simp add: three_corners_def initial_def)

section \<open>A session\<close>

text \<open>C5. A session in which the user acts while the screen is at rest comes to its
  end: whatever the height of the window, the position found, the four points tapped
  and the time the user and the location service take, the run from the mount ends
  with the four points held in tap order and numbered 1 to 4, their boundary and
  area, the last analysis step shown, no timer pending, and exactly four calls to the
  outside, the last of them the one call of \<^verbatim>\<open>navigation.replace('ChoiceScreen')\<close>,
  22900 ms plus the waiting times after the mount.\<close>

theorem session_completes:
  "\<exists>s. play [Elapse d1, PermissionResolved Granted, Elapse d2, PositionResolved c,
            Elapse d3, PressStartSelection, Elapse d4, PressMap a1 b1, Elapse d5, PressMap a2 b2,
            Elapse d6, PressMap a3 b3, Elapse d7, PressMap a4 b4] (mount h) = Some s \<and>
     selectedPoints s =
       [\<lparr>latitude = a1, longitude = b1, point_id = 1\<rparr>,
        \<lparr>latitude = a2, longitude = b2, point_id = 2\<rparr>,
        \<lparr>latitude = a3, longitude = b3, point_id = 3\<rparr>,
        \<lparr>latitude = a4, longitude = b4, point_id = 4\<rparr>] \<and>
     boundingBox s = Some (map coords (selectedPoints s)) \<and>
     farmArea s = Some (calculateAreaInAcres (selectedPoints s)) \<and>
     isAnalyzing s \<and> currentAnalysisStep s = 4 \<and> timers s = [] \<and>
     effects s =
       [RequestForegroundPermissions, GetCurrentPosition,
        AnimateToRegion (region_of c) 1800, Navigation_replace ''ChoiceScreen''] \<and>
     now s = 22900 + d1 + d2 + d3 + d4 + d5 + d6 + d7"
  by (simp add: mount_def initial_def drain.simps run_defs tap_defs region_of_def)

text \<open>C16. A second press of "Start Selection" does not cancel what the first selection
  set going. When the user taps four points and presses the button again within the
  600 ms in which the message fades, and then taps four points again, both analyses
  run: in the end \<^verbatim>\<open>navigation.replace\<close> has been called twice.\<close>

theorem restart_navigates_twice:
  "\<exists>s1 s2. play [PermissionResolved Granted, PositionResolved c] (mount h) = Some s1 \<and>
     run hasty s1 = Some s2 \<and>
     count_list (effects (drain s2)) (Navigation_replace ''ChoiceScreen'') = 2"
  by (simp add: mount_def initial_def drain.simps run_defs tap_defs hasty_def)

end
