(* ===== verification/JSValue.thy ===== *)
theory JSValue
  imports KS_Prelude "HOL-Library.AList"
begin

text \<open>
  The JavaScript values that object literals are made of, for the two parts of the
  program that are data: the Expo configuration and the style sheet.

  \<^item> \<open>jsval\<close> are the values; an object is the list of its properties in the order of
    their creation.
  \<^item> \<open>spread\<close> gives the properties \<^verbatim>\<open>...v\<close> copies into an object literal: the
    properties of an object, the characters of a string under their indices, nothing
    for any other value.
  \<^item> \<open>lookup\<close>, \<open>member\<close> and \<open>opt_lookup\<close> are the reads \<^verbatim>\<open>v[k]\<close> of a value that is
    not \<^verbatim>\<open>null\<close> or \<^verbatim>\<open>undefined\<close>, \<^verbatim>\<open>v.k\<close> (which raises on these two) and \<^verbatim>\<open>v?.k\<close>;
    \<open>or_empty\<close> is \<^verbatim>\<open>v || {}\<close>; \<open>path\<close> is a chain of reads \<^verbatim>\<open>v?.k1?.k2\<close>.
  \<^item> \<open>object\<close> builds the object of a literal from its properties in source order
    (\<open>define_props\<close>), a later property replacing the value of an earlier one of the
    same name in its place.

  The lemmas give the algebra of literals (\<open>object_spread_object\<close>, \<open>object_twice\<close>,
  \<open>lookup_spread\<close>) and well-formedness of everything the operations build
  (\<open>wf_intros\<close>).

  Arrays, functions and reads of inherited properties (the methods of the prototypes)
  are not modelled.
  JavaScript enumerates the properties whose names are array indices before the
  others; the model keeps the order of creation, which is the same order for an
  object whose property names are not numbers.
\<close>

section \<open>JavaScript values\<close>

datatype jsval =
    Undefined
  | Null
  | Bool bool
  | Num number
  | Str string
  | Obj "(string \<times> jsval) list"

fun truthy_val :: "jsval \<Rightarrow> bool" where
  "truthy_val Undefined = False"
| "truthy_val Null = False"
| "truthy_val (Bool b) = b"
| "truthy_val (Num n) = truthy n"
| "truthy_val (Str s) = (s \<noteq> [])"
| "truthy_val (Obj ps) = True"

fun nullish :: "jsval \<Rightarrow> bool" where
  "nullish Undefined = True"
| "nullish Null = True"
| "nullish v = False"

fun spread :: "jsval \<Rightarrow> (string \<times> jsval) list" where
  "spread (Obj ps) = ps"
| "spread (Str s) = map (\<lambda>i. (decimal i, Str [s ! i])) [0..<length s]"
| "spread v = []"

fun lookup :: "jsval \<Rightarrow> string \<Rightarrow> jsval" where
  "lookup (Obj ps) k = (case map_of ps k of None \<Rightarrow> Undefined | Some v \<Rightarrow> v)"
| "lookup (Str s) k =
     (case map_of (spread (Str s)) k of
        None \<Rightarrow> if k = ''length'' then Num (real (length s)) else Undefined
      | Some v \<Rightarrow> v)"
| "lookup v k = Undefined"

definition member :: "jsval \<Rightarrow> string \<Rightarrow> js_error + jsval" where
  "member v k = (if nullish v then Inl TypeError else Inr (lookup v k))"

definition opt_lookup :: "jsval \<Rightarrow> string \<Rightarrow> jsval" where
  "opt_lookup v k = (if nullish v then Undefined else lookup v k)"

definition or_empty :: "jsval \<Rightarrow> jsval" where
  "or_empty v = (if truthy_val v then v else Obj [])"

definition define_props ::
  "(string \<times> jsval) list \<Rightarrow> (string \<times> jsval) list \<Rightarrow> (string \<times> jsval) list" where
  "define_props ps al = fold (\<lambda>(k, v). AList.update k v) ps al"

definition object :: "(string \<times> jsval) list \<Rightarrow> jsval" where
  "object ps = Obj (define_props ps [])"

fun path :: "jsval \<Rightarrow> string list \<Rightarrow> jsval" where
  "path v [] = v"
| "path v (k # ks) = path (lookup v k) ks"

fun is_obj :: "jsval \<Rightarrow> bool" where
  "is_obj (Obj ps) = True"
| "is_obj v = False"

fun is_str :: "jsval \<Rightarrow> bool" where
  "is_str (Str s) = True"
| "is_str v = False"

text \<open>A value is well formed when no object in it has two properties of one name.\<close>

fun wf :: "jsval \<Rightarrow> bool" where
  "wf (Obj ps) \<longleftrightarrow> distinct (map fst ps) \<and> list_all (\<lambda>p. wf (snd p)) ps"
| "wf v \<longleftrightarrow> True"

section \<open>Decimal names\<close>

text \<open>The value of a string of digits; it reads back what \<open>decimal\<close> prints, so the
  indices of a string give distinct property names.\<close>

definition value_of :: "string \<Rightarrow> nat" where
  "value_of ds = foldl (\<lambda>n d. 10 * n + (of_char d - 48)) 0 ds"

lemma value_of_snoc: "value_of (ds @ [d]) = 10 * value_of ds + (of_char d - 48)"
  by (simp add: value_of_def)

lemma value_of_decimal: "value_of (decimal n) = n"
proof (induction n rule: decimal.induct)
  case (1 n)
  show ?case
  proof (cases "n < 10")
    case True
    then show ?thesis
      by (subst decimal.simps) (simp add: value_of_def)
  next
    case False
    moreover have "of_char (char_of (48 + n mod 10) :: char) = 48 + n mod 10"
      by simp
    ultimately show ?thesis
      using "1.IH" by (subst decimal.simps) (simp add: value_of_snoc)
  qed
qed

lemma decimal_inj [simp]: "decimal m = decimal n \<longleftrightarrow> m = n"
  by (metis value_of_decimal)

section \<open>Object literals\<close>

lemma define_props_Nil [simp]: "define_props [] al = al"
  by (simp add: define_props_def)

lemma define_props_Cons [simp]:
  "define_props ((k, v) # ps) al = define_props ps (AList.update k v al)"
  by (simp add: define_props_def)

lemma define_props_append [simp]:
  "define_props (ps @ qs) al = define_props qs (define_props ps al)"
  by (simp add: define_props_def)

lemma map_of_define_props: "map_of (define_props ps al) = map_of al ++ map_of (rev ps)"
  by (induction ps arbitrary: al) (auto simp: update_conv' map_add_def fun_eq_iff split: option.splits)

lemma distinct_define_props:
  "distinct (map fst al) \<Longrightarrow> distinct (map fst (define_props ps al))"
  by (induction ps arbitrary: al) (auto simp: distinct_update)

lemma update_new: "k \<notin> fst ` set al \<Longrightarrow> AList.update k v al = al @ [(k, v)]"
  by (induction al) auto

lemma define_props_distinct:
  "distinct (map fst (al @ ps)) \<Longrightarrow> define_props ps al = al @ ps"
  by (induction ps arbitrary: al) (auto simp: update_new)

lemma object_distinct: "distinct (map fst ps) \<Longrightarrow> object ps = Obj ps"
  using define_props_distinct [of "[]" ps] by (simp add: object_def)

lemma define_props_same:
  "map_of al k = Some v \<Longrightarrow> define_props [(k, v)] al = al"
  by (simp add: update_triv)

lemma set_define_props:
  "set (define_props ps al) \<subseteq> set ps \<union> set al"
proof (induction ps arbitrary: al)
  case Nil
  then show ?case by simp
next
  case (Cons p ps)
  obtain k v where p: "p = (k, v)" by (cases p)
  have "set (AList.update k v al) \<subseteq> insert (k, v) (set al)"
    by (induction al) auto
  with Cons [of "AList.update k v al"] show ?case
    unfolding p by auto
qed

lemma lookup_object [simp]:
  "lookup (object ps) k = (case map_of (rev ps) k of None \<Rightarrow> Undefined | Some v \<Rightarrow> v)"
  by (simp add: object_def map_of_define_props)

lemma spread_object: "spread (object ps) = define_props ps []"
  by (simp add: object_def)

lemma object_simps [simp]:
  "truthy_val (object ps)" "\<not> nullish (object ps)" "or_empty (object ps) = object ps"
  "opt_lookup (object ps) k = lookup (object ps) k"
  by (simp_all add: object_def or_empty_def opt_lookup_def)

text \<open>An object spread into a literal gives the literal of its own properties.\<close>

lemma object_spread_object [simp]: "object (spread (object ps) @ qs) = object (ps @ qs)"
proof -
  have "define_props (define_props ps []) [] = define_props ps []"
    using define_props_distinct [of "[]" "define_props ps []"]
    by (simp add: distinct_define_props)
  then show ?thesis
    by (simp add: object_def)
qed

text \<open>A property written twice with one value counts once.\<close>

lemma object_twice [simp]: "object (ps @ [(k, v), (k, v)]) = object (ps @ [(k, v)])"
  by (simp add: object_def update_last)

lemma object_twice2:
  assumes "k \<noteq> l"
  shows "object (ps @ [(k, v), (l, w), (k, v), (l, w)]) = object (ps @ [(k, v), (l, w)])"
proof -
  let ?al = "AList.update l w (AList.update k v (define_props ps []))"
  from assms have "map_of ?al k = Some v" "map_of ?al l = Some w"
    by (simp_all add: update_conv')
  then have "AList.update l w (AList.update k v ?al) = ?al"
    by (simp add: update_triv)
  then show ?thesis
    by (simp add: object_def)
qed

section \<open>Well-formedness of what the operations build\<close>

lemma is_obj_object [simp]: "is_obj (object ps)"
  by (simp add: object_def)

lemma wf_object: "list_all (\<lambda>p. wf (snd p)) ps \<Longrightarrow> wf (object ps)"
  using set_define_props [of ps "[]"]
  by (auto simp: object_def distinct_define_props list_all_iff)

lemma wf_spread: "wf v \<Longrightarrow> list_all (\<lambda>p. wf (snd p)) (spread v)"
  by (cases v) (simp_all add: list_all_iff)

lemma wf_lookup: "wf v \<Longrightarrow> wf (lookup v k)"
proof (cases v)
  case (Obj ps)
  assume "wf v"
  with Obj show ?thesis
    by (auto simp: list_all_iff split: option.splits dest!: map_of_SomeD)
next
  case (Str s)
  then show ?thesis
    by (auto split: option.splits dest!: map_of_SomeD)
qed simp_all

lemma wf_or_empty: "wf v \<Longrightarrow> wf (or_empty v)"
  by (simp add: or_empty_def)

lemma wf_opt_lookup: "wf v \<Longrightarrow> wf (opt_lookup v k)"
  by (simp add: opt_lookup_def wf_lookup)

lemmas wf_intros = wf_object wf_spread wf_lookup wf_or_empty wf_opt_lookup

section \<open>Reads of a literal\<close>

text \<open>The guards \<^verbatim>\<open>|| {}\<close> and \<^verbatim>\<open>?.\<close> of the source change nothing in what is spread or
  read: spreading a falsy value adds no property, and a read of \<^verbatim>\<open>undefined\<close> that does
  not raise gives \<^verbatim>\<open>undefined\<close>.\<close>

lemma spread_or_empty [simp]: "spread (or_empty v) = spread v"
  by (cases v) (simp_all add: or_empty_def)

lemma opt_lookup_eq [simp]: "opt_lookup v k = lookup v k"
  by (cases v) (simp_all add: opt_lookup_def)

text \<open>A property that the literal does not write after the spread is read from the
  value spread, unless that value is a string (whose \<^verbatim>\<open>length\<close> is not copied).\<close>

lemma map_of_rev_distinct: "distinct (map fst ps) \<Longrightarrow> map_of (rev ps) = map_of ps"
  using map_of_inject_set [of "rev ps" ps] by (simp add: rev_map [symmetric])

lemma lookup_spread_miss:
  assumes "wf v" "\<not> is_str v" "k \<notin> fst ` set qs"
  shows "lookup (object (spread v @ qs)) k = lookup v k"
proof -
  from assms(3) have "map_of (rev qs) k = None"
    by (simp add: map_of_eq_None_iff)
  with assms(1,2) show ?thesis
    by (cases v) (simp_all add: map_add_def map_of_rev_distinct)
qed

lemma lookup_spread_hit:
  "lookup (object (ps @ [(k, v)])) k = v"
  "k \<noteq> l \<Longrightarrow> lookup (object (ps @ [(k, v), (l, w)])) k = v"
  "lookup (object (ps @ [(k, v), (l, w)])) l = w"
  by simp_all

lemma lookup_spread_only:
  "wf v \<Longrightarrow> \<not> is_str v \<Longrightarrow> lookup (object (spread v)) k = lookup v k"
  using lookup_spread_miss [of v k "[]"] by simp

lemma is_obj_lookup_Obj:
  "list_all (\<lambda>p. is_obj (snd p)) ps \<Longrightarrow> is_obj (lookup (Obj ps) k) \<longleftrightarrow> k \<in> fst ` set ps"
  by (induction ps) auto

lemma lookup_Obj_undefined: "k \<notin> fst ` set ps \<Longrightarrow> lookup (Obj ps) k = Undefined"
  by (simp add: map_of_eq_None_iff [THEN iffD2])

lemmas lookup_spread = lookup_spread_miss lookup_spread_only lookup_spread_hit

end
