(* ===== verification/StyleSheet.thy ===== *)
theory StyleSheet
  imports JSValue
begin

text \<open>
  The style sheet of the screen, the argument of \<^verbatim>\<open>StyleSheet.create\<close> (lines 716-1057
  of \<^verbatim>\<open>src/MyApp/screens/FetchingLocationScreen.jsx\<close>), as a JavaScript object: one
  property for every named style, whose value is the object of the style. The sheet is
  held in eight parts, one for every group the source marks with a comment; \<open>styles\<close>
  is the whole. Its parameter is the height of the window (line 19), which four offsets
  are a share of. \<^verbatim>\<open>StyleSheet.create\<close> returns its argument.

  \<open>defined_styles\<close> are the names of the sheet, \<open>layer\<close> is the \<^verbatim>\<open>zIndex\<close> of a style
  and \<open>covers_window\<close> says that a style is laid over the whole window. The lemmas
  evaluate the sheet: its names, that no literal of it writes a property twice, and
  the layers of the overlays.
\<close>

section \<open>The styles\<close>

definition screen_styles :: "(string \<times> jsval) list" where
  "screen_styles =
     [(''container'', object
         [(''flex'', Num 1),
          (''backgroundColor'', Str ''#000'')]),
      (''map'', object
         [(''flex'', Num 1)])]"

definition preloader_styles :: "(string \<times> jsval) list" where
  "preloader_styles =
     [(''preloaderContainer'', object
         [(''position'', Str ''absolute''),
          (''top'', Num 0),
          (''left'', Num 0),
          (''right'', Num 0),
          (''bottom'', Num 0),
          (''backgroundColor'', Str ''#000000''),
          (''zIndex'', Num 3000),
          (''justifyContent'', Str ''center''),
          (''alignItems'', Str ''center'')]),
      (''wordContainer'', object
         [(''flex'', Num 1),
          (''justifyContent'', Str ''center''),
          (''alignItems'', Str ''center'')]),
      (''wordWrapper'', object
         [(''alignItems'', Str ''center''),
          (''justifyContent'', Str ''center'')]),
      (''mainWord'', object
         [(''fontSize'', Num 52),
          (''fontWeight'', Str ''800''),
          (''color'', Str ''#10B981''),
          (''textAlign'', Str ''center''),
          (''letterSpacing'', Num 1)])]"

definition point_marker_styles :: "(string \<times> jsval) list" where
  "point_marker_styles =
     [(''pointMarker'', object
         [(''backgroundColor'', Str ''#10B981''),
          (''borderRadius'', Num 18),
          (''width'', Num 36),
          (''height'', Num 36),
          (''justifyContent'', Str ''center''),
          (''alignItems'', Str ''center''),
          (''borderWidth'', Num 3),
          (''borderColor'', Str ''#FFFFFF''),
          (''shadowColor'', Str ''#000''),
          (''shadowOffset'', object [(''width'', Num 0), (''height'', Num 3)]),
          (''shadowOpacity'', Num 0.3),
          (''shadowRadius'', Num 6),
          (''elevation'', Num 8)]),
      (''pointNumber'', object
         [(''color'', Str ''#FFFFFF''),
          (''fontSize'', Num 16),
          (''fontWeight'', Str ''bold'')])]"

definition area_overlay_styles :: "number \<Rightarrow> (string \<times> jsval) list" where
  "area_overlay_styles height =
     [(''areaOverlay'', object
         [(''position'', Str ''absolute''),
          (''top'', Num (height * 0.15)),
          (''right'', Num 20),
          (''zIndex'', Num 1000)]),
      (''areaGradient'', object
         [(''flexDirection'', Str ''row''),
          (''alignItems'', Str ''center''),
          (''paddingHorizontal'', Num 18),
          (''paddingVertical'', Num 14),
          (''borderRadius'', Num 24),
          (''shadowColor'', Str ''#000''),
          (''shadowOffset'', object [(''width'', Num 0), (''height'', Num 8)]),
          (''shadowOpacity'', Num 0.25),
          (''shadowRadius'', Num 16),
          (''elevation'', Num 16),
          (''borderWidth'', Num 1),
          (''borderColor'', Str ''rgba(255, 255, 255, 0.15)'')]),
      (''areaIconContainer'', object
         [(''backgroundColor'', Str ''rgba(255, 255, 255, 0.1)''),
          (''borderRadius'', Num 14),
          (''padding'', Num 8),
          (''marginRight'', Num 12)]),
      (''areaTextContainer'', object
         [(''alignItems'', Str ''center''),
          (''marginRight'', Num 10)]),
      (''areaValue'', object
         [(''color'', Str ''#FFFFFF''),
          (''fontSize'', Num 26),
          (''fontWeight'', Str ''800''),
          (''lineHeight'', Num 30)]),
      (''areaUnit'', object
         [(''color'', Str ''#FFFFFF''),
          (''fontSize'', Num 13),
          (''fontWeight'', Str ''600''),
          (''opacity'', Num 0.9)]),
      (''areaLabel'', object
         [(''color'', Str ''#FFFFFF''),
          (''fontSize'', Num 13),
          (''fontWeight'', Str ''600''),
          (''opacity'', Num 0.85)])]"

definition selection_message_styles :: "number \<Rightarrow> (string \<times> jsval) list" where
  "selection_message_styles height =
     [(''selectionMessage'', object
         [(''position'', Str ''absolute''),
          (''top'', Num (height * 0.16)),
          (''left'', Num 16),
          (''right'', Num 16),
          (''zIndex'', Num 1000)]),
      (''selectionGradient'', object
         [(''padding'', Num 20),
          (''borderRadius'', Num 20),
          (''alignItems'', Str ''center''),
          (''shadowColor'', Str ''#000''),
          (''shadowOffset'', object [(''width'', Num 0), (''height'', Num 10)]),
          (''shadowOpacity'', Num 0.3),
          (''shadowRadius'', Num 20),
          (''elevation'', Num 20),
          (''borderWidth'', Num 1),
          (''borderColor'', Str ''rgba(255, 255, 255, 0.1)'')]),
      (''selectionTitle'', object
         [(''color'', Str ''#FFFFFF''),
          (''fontSize'', Num 22),
          (''fontWeight'', Str ''800''),
          (''marginTop'', Num 12),
          (''marginBottom'', Num 8),
          (''textAlign'', Str ''center''),
          (''letterSpacing'', Num 0.5)]),
      (''selectionSubtext'', object
         [(''color'', Str ''rgba(255, 255, 255, 0.9)''),
          (''fontSize'', Num 15),
          (''textAlign'', Str ''center''),
          (''marginBottom'', Num 20),
          (''lineHeight'', Num 22),
          (''fontWeight'', Str ''500'')]),
      (''startButton'', object
         [(''backgroundColor'', Str ''#FFFFFF''),
          (''paddingHorizontal'', Num 24),
          (''paddingVertical'', Num 12),
          (''borderRadius'', Num 25),
          (''shadowColor'', Str ''#000''),
          (''shadowOffset'', object [(''width'', Num 0), (''height'', Num 6)]),
          (''shadowOpacity'', Num 0.2),
          (''shadowRadius'', Num 12),
          (''elevation'', Num 12),
          (''minWidth'', Num 140),
          (''alignItems'', Str ''center'')]),
      (''startButtonText'', object
         [(''color'', Str ''#10B981''),
          (''fontSize'', Num 17),
          (''fontWeight'', Str ''700''),
          (''letterSpacing'', Num 0.5)])]"

definition instructions_box_styles :: "number \<Rightarrow> (string \<times> jsval) list" where
  "instructions_box_styles height =
     [(''instructionsBox'', object
         [(''position'', Str ''absolute''),
          (''top'', Num (height * 0.08)),
          (''left'', Num 14),
          (''right'', Num 14),
          (''zIndex'', Num 1000)]),
      (''instructionsGradient'', object
         [(''flexDirection'', Str ''row''),
          (''alignItems'', Str ''center''),
          (''paddingHorizontal'', Num 18),
          (''paddingVertical'', Num 14),
          (''borderRadius'', Num 16),
          (''shadowColor'', Str ''#000''),
          (''shadowOffset'', object [(''width'', Num 0), (''height'', Num 6)]),
          (''shadowOpacity'', Num 0.25),
          (''shadowRadius'', Num 12),
          (''elevation'', Num 12),
          (''borderWidth'', Num 1),
          (''borderColor'', Str ''rgba(255, 255, 255, 0.1)'')]),
      (''instructionsText'', object
         [(''color'', Str ''#FFFFFF''),
          (''fontSize'', Num 16),
          (''fontWeight'', Str ''600''),
          (''marginLeft'', Num 12),
          (''flex'', Num 1),
          (''lineHeight'', Num 20)]),
      (''pointsCounter'', object
         [(''borderRadius'', Num 12),
          (''paddingHorizontal'', Num 10),
          (''paddingVertical'', Num 4),
          (''minWidth'', Num 40),
          (''alignItems'', Str ''center'')]),
      (''pointsText'', object
         [(''color'', Str ''#FFFFFF''),
          (''fontSize'', Num 14),
          (''fontWeight'', Str ''800'')])]"

definition bounding_box_message_styles :: "number \<Rightarrow> (string \<times> jsval) list" where
  "bounding_box_message_styles height =
     [(''boundingBoxMessage'', object
         [(''position'', Str ''absolute''),
          (''bottom'', Num (height * 0.18)),
          (''left'', Num 16),
          (''right'', Num 16),
          (''zIndex'', Num 1000)]),
      (''boundingBoxGradient'', object
         [(''flexDirection'', Str ''row''),
          (''alignItems'', Str ''center''),
          (''paddingHorizontal'', Num 18),
          (''paddingVertical'', Num 14),
          (''borderRadius'', Num 16),
          (''shadowColor'', Str ''#000''),
          (''shadowOffset'', object [(''width'', Num 0), (''height'', Num 8)]),
          (''shadowOpacity'', Num 0.25),
          (''shadowRadius'', Num 16),
          (''elevation'', Num 16),
          (''borderWidth'', Num 1),
          (''borderColor'', Str ''rgba(255, 255, 255, 0.1)'')]),
      (''boundingBoxText'', object
         [(''color'', Str ''#FFFFFF''),
          (''fontSize'', Num 16),
          (''fontWeight'', Str ''700''),
          (''marginLeft'', Num 12),
          (''flex'', Num 1)]),
      (''boundingBoxSubText'', object
         [(''color'', Str ''rgba(255, 255, 255, 0.85)''),
          (''fontSize'', Num 13),
          (''fontWeight'', Str ''500''),
          (''marginTop'', Num 2)])]"

definition loading_overlay_styles :: "(string \<times> jsval) list" where
  "loading_overlay_styles =
     [(''loadingOverlay'', object
         [(''position'', Str ''absolute''),
          (''top'', Num 0),
          (''left'', Num 0),
          (''right'', Num 0),
          (''bottom'', Num 0),
          (''zIndex'', Num 2000)]),
      (''loadingGradient'', object
         [(''flex'', Num 1),
          (''justifyContent'', Str ''center''),
          (''alignItems'', Str ''center''),
          (''padding'', Num 40)]),
      (''loadingContent'', object
         [(''alignItems'', Str ''center''),
          (''width'', Str ''100%''),
          (''maxWidth'', Num 320)]),
      (''loadingTitle'', object
         [(''color'', Str ''#FFFFFF''),
          (''fontSize'', Num 30),
          (''fontWeight'', Str ''800''),
          (''marginBottom'', Num 50),
          (''textAlign'', Str ''center''),
          (''letterSpacing'', Num 1)]),
      (''currentStepContainer'', object
         [(''alignItems'', Str ''center''),
          (''marginBottom'', Num 40),
          (''paddingHorizontal'', Num 20)]),
      (''stepIconContainer'', object
         [(''width'', Num 64),
          (''height'', Num 64),
          (''borderRadius'', Num 32),
          (''backgroundColor'', Str ''#10B981''),
          (''justifyContent'', Str ''center''),
          (''alignItems'', Str ''center''),
          (''marginBottom'', Num 16),
          (''shadowColor'', Str ''#000''),
          (''shadowOffset'', object [(''width'', Num 0), (''height'', Num 6)]),
          (''shadowOpacity'', Num 0.3),
          (''shadowRadius'', Num 12),
          (''elevation'', Num 12)]),
      (''currentStepText'', object
         [(''color'', Str ''#FFFFFF''),
          (''fontSize'', Num 18),
          (''fontWeight'', Str ''600''),
          (''textAlign'', Str ''center''),
          (''lineHeight'', Num 24)]),
      (''progressSteps'', object
         [(''width'', Str ''100%''),
          (''marginBottom'', Num 30)]),
      (''stepRow'', object
         [(''flexDirection'', Str ''row''),
          (''alignItems'', Str ''center''),
          (''marginBottom'', Num 16),
          (''paddingHorizontal'', Num 10)]),
      (''stepDot'', object
         [(''width'', Num 28),
          (''height'', Num 28),
          (''borderRadius'', Num 14),
          (''backgroundColor'', Str ''rgba(255, 255, 255, 0.2)''),
          (''justifyContent'', Str ''center''),
          (''alignItems'', Str ''center''),
          (''marginRight'', Num 18),
          (''borderWidth'', Num 2),
          (''borderColor'', Str ''rgba(255, 255, 255, 0.1)'')]),
      (''stepDotCompleted'', object
         [(''backgroundColor'', Str ''#10B981''),
          (''borderColor'', Str ''#10B981'')]),
      (''stepText'', object
         [(''color'', Str ''rgba(255, 255, 255, 0.6)''),
          (''fontSize'', Num 16),
          (''flex'', Num 1),
          (''lineHeight'', Num 20)]),
      (''stepTextCompleted'', object
         [(''color'', Str ''#FFFFFF''),
          (''fontWeight'', Str ''600'')]),
      (''loadingAnimation'', object
         [(''flexDirection'', Str ''row''),
          (''alignItems'', Str ''center''),
          (''justifyContent'', Str ''center'')]),
      (''loadingDot'', object
         [(''width'', Num 10),
          (''height'', Num 10),
          (''borderRadius'', Num 5),
          (''backgroundColor'', Str ''#10B981''),
          (''marginHorizontal'', Num 6),
          (''opacity'', Num 0.7)])]"

definition styles :: "number \<Rightarrow> jsval" where
  "styles height =
     object
      (screen_styles @
       preloader_styles @
       point_marker_styles @
       area_overlay_styles height @
       selection_message_styles height @
       instructions_box_styles height @
       bounding_box_message_styles height @
       loading_overlay_styles)"

lemmas style_defs = screen_styles_def preloader_styles_def point_marker_styles_def area_overlay_styles_def
  selection_message_styles_def instructions_box_styles_def
  bounding_box_message_styles_def loading_overlay_styles_def

section \<open>Reading the sheet\<close>

definition defined_styles :: "number \<Rightarrow> string list" where
  "defined_styles height = map fst (spread (styles height))"

definition layer :: "number \<Rightarrow> string \<Rightarrow> jsval" where
  "layer height name = path (styles height) [name, ''zIndex'']"

definition covers_window :: "number \<Rightarrow> string \<Rightarrow> bool" where
  "covers_window height name \<longleftrightarrow>
     path (styles height) [name, ''position''] = Str ''absolute'' \<and>
     list_all (\<lambda>side. path (styles height) [name, side] = Num 0)
       [''top'', ''left'', ''right'', ''bottom'']"

section \<open>The names of the sheet\<close>

lemma styles_distinct:
  "distinct (map fst (screen_styles @ preloader_styles @ point_marker_styles @
     area_overlay_styles height @ selection_message_styles height @
     instructions_box_styles height @ bounding_box_message_styles height @
     loading_overlay_styles))"
  by (simp add: style_defs)

lemma styles_Obj:
  "styles height =
     Obj (screen_styles @ preloader_styles @ point_marker_styles @
       area_overlay_styles height @ selection_message_styles height @
       instructions_box_styles height @ bounding_box_message_styles height @
       loading_overlay_styles)"
  unfolding styles_def by (rule object_distinct) (rule styles_distinct)

lemma defined_styles:
  "defined_styles height =
     [''container'', ''map'', ''preloaderContainer'', ''wordContainer'', ''wordWrapper'',
      ''mainWord'', ''pointMarker'', ''pointNumber'', ''areaOverlay'', ''areaGradient'',
      ''areaIconContainer'', ''areaTextContainer'', ''areaValue'', ''areaUnit'',
      ''areaLabel'', ''selectionMessage'', ''selectionGradient'', ''selectionTitle'',
      ''selectionSubtext'', ''startButton'', ''startButtonText'', ''instructionsBox'',
      ''instructionsGradient'', ''instructionsText'', ''pointsCounter'', ''pointsText'',
      ''boundingBoxMessage'', ''boundingBoxGradient'', ''boundingBoxText'',
      ''boundingBoxSubText'', ''loadingOverlay'', ''loadingGradient'', ''loadingContent'',
      ''loadingTitle'', ''currentStepContainer'', ''stepIconContainer'',
      ''currentStepText'', ''progressSteps'', ''stepRow'', ''stepDot'',
      ''stepDotCompleted'', ''stepText'', ''stepTextCompleted'', ''loadingAnimation'',
      ''loadingDot'']"
  by (simp add: defined_styles_def styles_Obj style_defs)

lemma styles_are_objects: "list_all (\<lambda>p. is_obj (snd p)) (spread (styles height))"
  by (simp add: styles_Obj style_defs)

text \<open>A name is read from the sheet as a style exactly when the sheet defines it; any
  other name reads \<^verbatim>\<open>undefined\<close>.\<close>

lemma style_defined_iff:
  "is_obj (lookup (styles height) name) \<longleftrightarrow> name \<in> set (defined_styles height)"
proof -
  obtain ps where ps: "styles height = Obj ps"
    by (simp add: styles_Obj)
  with styles_are_objects [of height] have "list_all (\<lambda>p. is_obj (snd p)) ps"
    by simp
  from is_obj_lookup_Obj [OF this] show ?thesis
    by (simp add: ps defined_styles_def)
qed

lemma style_undefined:
  assumes "name \<notin> set (defined_styles height)"
  shows "lookup (styles height) name = Undefined"
proof -
  obtain ps where ps: "styles height = Obj ps"
    by (simp add: styles_Obj)
  from assms have "name \<notin> fst ` set ps"
    unfolding defined_styles_def ps by simp
  then show ?thesis
    unfolding ps by (rule lookup_Obj_undefined)
qed

section \<open>The literals of the sheet\<close>

text \<open>No style is defined twice and no literal of the sheet writes a property twice.\<close>

lemma wf_styles: "wf (styles height)"
proof -
  have "list_all (\<lambda>p. wf (snd p)) (spread (styles height))"
    by (simp add: styles_Obj style_defs wf_object)
  with styles_distinct [of height] show ?thesis
    unfolding styles_Obj wf.simps spread.simps by (rule conjI)
qed

section \<open>The layers\<close>

text \<open>The panels lie in one layer over the map, the analysis overlay covers the window
  above them and the preloader covers it above everything.\<close>

lemma layers:
  "layer height ''preloaderContainer'' = Num 3000"
  "layer height ''loadingOverlay'' = Num 2000"
  "list_all (\<lambda>name. layer height name = Num 1000)
     [''areaOverlay'', ''selectionMessage'', ''instructionsBox'', ''boundingBoxMessage'']"
  by (simp_all add: layer_def styles_Obj style_defs)

lemma covers_window:
  "covers_window height ''preloaderContainer''" "covers_window height ''loadingOverlay''"
  by (simp_all add: covers_window_def styles_Obj style_defs)

end
