(* ===== verification/Render.thy ===== *)
theory Render
  imports Session StyleSheet
begin

text \<open>
  What is on the screen: the two render functions (lines 86-113 and 417-714) as
  functions from the state to a tree of React elements.

  An element is its component name, its props and its children; a child can also be a
  string or a number (JavaScript values in braces). Kept are the props that depend on
  the state or are literals of the JSX. Of a \<^verbatim>\<open>style\<close> prop the tree holds the styles of
  the sheet it names, as props \<open>Style\<close> in the order of the array, and the animated
  parts (\<^verbatim>\<open>opacity\<close> and the \<^verbatim>\<open>transform\<close>s) as the props \<open>Opacity\<close>, \<open>Scale\<close> and
  \<open>TranslateY\<close>; left out is every prop and every part of a style whose value comes
  from the theme.

  \<^verbatim>\<open>a && b\<close> in JSX is \<open>b\<close> when \<open>a\<close> is truthy and \<open>a\<close> otherwise; React renders
  nothing for \<^verbatim>\<open>null\<close> and \<^verbatim>\<open>false\<close> but renders the number 0 as text. The read of
  a field of \<^verbatim>\<open>analysisSteps[currentAnalysisStep]\<close> raises a \<^verbatim>\<open>TypeError\<close> when the
  index is not one of the catalogue; \<open>render\<close> returns it as a value.
\<close>

section \<open>Elements\<close>

datatype handler = HandleMapPress | StartPointSelection

datatype attr =
    Key nat
  | Style string
  | Opacity number
  | Scale number
  | TranslateY number
  | Coordinate GeoPoint
  | Coordinates "coordinate list"
  | InitialRegion region
  | OnPress handler
  | Flag string bool
  | Text_prop string string
  | Num_prop string number

datatype node =
    Node string "attr list" "node list"
  | TextS string
  | TextN number

text \<open>\<^verbatim>\<open>anim.interpolate({inputRange: [0, 1], outputRange: [lo, hi]})\<close>: the line
  through \<open>(0, lo)\<close> and \<open>(1, hi)\<close>.\<close>

definition interpolate :: "number \<Rightarrow> number \<Rightarrow> number \<Rightarrow> number" where
  "interpolate v lo hi = lo + (hi - lo) * v"

text \<open>The bullet of the boundary message, in UTF-8.\<close>

definition bullet :: string where
  "bullet = [CHR 0xE2, CHR 0x80, CHR 0xA2]"

section \<open>The preloader\<close>

definition preloader_render :: "'a preloader_scheme \<Rightarrow> node" where
  "preloader_render s =
     Node ''Animated.View'' [Style ''preloaderContainer'', TranslateY (slideUpAnim s)]
       [Node ''StatusBar'' [] [],
        Node ''View'' [Style ''wordContainer'']
          [Node ''Animated.View''
             [Style ''wordWrapper'', Opacity (opacityAnim s), Scale (scaleAnim s)]
             [Node ''Text'' [Style ''mainWord'']
                (case preloader_word s of None \<Rightarrow> [] | Some w \<Rightarrow> [TextS w])]]]"

section \<open>The map\<close>

definition INDIA_CENTER :: region where
  "INDIA_CENTER =
     \<lparr>latitude = 20.5937, longitude = 78.9629, latitudeDelta = 40, longitudeDelta = 40\<rparr>"

definition marker :: "number list \<Rightarrow> GeoPoint \<Rightarrow> nat \<Rightarrow> node" where
  "marker anims point i =
     Node ''Marker''
       [Key (point_id point), Coordinate point,
        Text_prop ''title'' (''Point '' @ decimal (point_id point))]
       [Node ''Animated.View''
          [Style ''pointMarker'', Scale (if i < length anims then anims ! i else 1)]
          [Node ''Text'' [Style ''pointNumber''] [TextN (real (point_id point))]]]"

definition map_view :: "app \<Rightarrow> node" where
  "map_view s =
     Node ''MapView''
       [Style ''map'',
        InitialRegion (case userLocation s of Some r \<Rightarrow> r | None \<Rightarrow> INDIA_CENTER),
        Flag ''showsUserLocation'' True, Flag ''showsMyLocationButton'' False,
        Flag ''showsCompass'' False, Flag ''showsScale'' False, Flag ''showsTraffic'' False,
        Flag ''showsBuildings'' False, Flag ''showsIndoors'' False,
        Flag ''showsIndoorLevelPicker'' False, Flag ''showsPointsOfInterest'' False,
        Text_prop ''mapType'' ''satellite'', OnPress HandleMapPress]
       (map (\<lambda>(point, index). marker (pointPulseAnims s) point index)
          (zip (selectedPoints s) [0..<length (selectedPoints s)]) @
        (case boundingBox s of
           None \<Rightarrow> []
         | Some box \<Rightarrow>
             [Node ''Polygon''
                [Coordinates box, Text_prop ''fillColor'' ''rgba(16, 185, 129, 0.25)'',
                 Text_prop ''strokeColor'' ''rgba(16, 185, 129, 0.9)'', Num_prop ''strokeWidth'' 3]
                []]))"

section \<open>The overlays\<close>

definition area_overlay :: "app \<Rightarrow> node list" where
  "area_overlay s =
     (case boundingBox s of
        None \<Rightarrow> []
      | Some box \<Rightarrow>
          (case farmArea s of
             None \<Rightarrow> []
           | Some area \<Rightarrow>
               if \<not> truthy area then [TextN area]
               else
                 [Node ''Animated.View''
                    [Style ''areaOverlay'', Opacity (areaAnim s),
                     Scale (interpolate (areaAnim s) 0.7 1),
                     TranslateY (interpolate (areaAnim s) (- 20) 0)]
                    [Node ''LinearGradient'' [Style ''areaGradient'']
                       [Node ''View'' [Style ''areaIconContainer'']
                          [Node ''Ionicons''
                             [Text_prop ''name'' ''calculator-outline'', Num_prop ''size'' 24] []],
                        Node ''View'' [Style ''areaTextContainer'']
                          [Node ''Text'' [Style ''areaValue''] [TextN area],
                           Node ''Text'' [Style ''areaUnit''] [TextS ''acres'']],
                        Node ''View'' [Style ''areaLabelContainer'']
                          [Node ''Text'' [Style ''areaLabel''] [TextS ''Farm Area'']]]]]))"

definition selection_message :: "app \<Rightarrow> node list" where
  "selection_message s =
     (if showSelectionMessage s then
        [Node ''Animated.View''
           [Style ''selectionMessage'', Opacity (messageAnim s),
            TranslateY (interpolate (messageAnim s) (- 30) 0),
            Scale (interpolate (messageAnim s) 0.9 1)]
           [Node ''LinearGradient'' [Style ''selectionGradient'']
              [Node ''Ionicons'' [Text_prop ''name'' ''hand-left-outline'', Num_prop ''size'' 28] [],
               Node ''Text'' [Style ''selectionTitle''] [TextS ''Select Your Farm Land''],
               Node ''Text'' [Style ''selectionSubtext'']
                 [TextS ''Tap 4 points around your farm boundary to calculate area''],
               Node ''TouchableOpacity''
                 [Style ''startButton'', OnPress StartPointSelection, Num_prop ''activeOpacity'' 0.8]
                 [Node ''Text'' [Style ''startButtonText''] [TextS ''Start Selection'']]]]]
      else [])"

definition instructions_box :: "app \<Rightarrow> node list" where
  "instructions_box s =
     (if isSelectingPoints s then
        [Node ''Animated.View''
           [Style ''instructionsBox'', Opacity (instructionsAnim s),
            TranslateY (interpolate (instructionsAnim s) (- 50) 0)]
           [Node ''LinearGradient'' [Style ''instructionsGradient'']
              [Node ''Ionicons'' [Text_prop ''name'' ''location-outline'', Num_prop ''size'' 24] [],
               Node ''Text'' [Style ''instructionsText'']
                 [TextS ''Tap '', TextN (4 - real (length (selectedPoints s))),
                  TextS '' more point(s) to define your farm boundary''],
               Node ''View'' [Style ''pointsCounter'']
                 [Node ''Text'' [Style ''pointsText'']
                    [TextN (real (length (selectedPoints s))), TextS ''/4'']]]]]
      else [])"

definition bounding_box_message :: "app \<Rightarrow> node list" where
  "bounding_box_message s =
     (if boundingBox s \<noteq> None \<and> \<not> isAnalyzing s then
        [Node ''Animated.View''
           [Style ''boundingBoxMessage'', Opacity (boundingBoxAnim s),
            TranslateY (interpolate (boundingBoxAnim s) 30 0)]
           [Node ''LinearGradient'' [Style ''boundingBoxGradient'']
              [Node ''Ionicons''
                 [Text_prop ''name'' ''checkmark-circle-outline'', Num_prop ''size'' 24] [],
               Node ''Text'' [Style ''boundingBoxText''] [TextS ''Farm boundary created!''],
               Node ''Text'' [Style ''boundingBoxSubText'']
                 ([TextS ''Area: ''] @
                  (case farmArea s of None \<Rightarrow> [] | Some area \<Rightarrow> [TextN area]) @
                  [TextS ('' acres '' @ bullet @ '' Starting analysis...'')])]]]
      else [])"

definition step_row :: "nat \<Rightarrow> analysis_step \<Rightarrow> nat \<Rightarrow> node" where
  "step_row current st i =
     Node ''View'' [Key i, Style ''stepRow'']
       [Node ''View''
          (Style ''stepDot'' #
           (if i \<le> current
            then [Style ''stepDotCompleted'', Text_prop ''backgroundColor'' (color st)]
            else []))
          (if i < current
           then [Node ''Ionicons''
                   [Text_prop ''name'' ''checkmark'', Num_prop ''size'' 12,
                    Text_prop ''color'' ''#FFFFFF''] []]
           else []),
        Node ''Text''
          (Style ''stepText'' # (if i \<le> current then [Style ''stepTextCompleted''] else []))
          [TextS (title st)]]"

definition loading_overlay :: "app \<Rightarrow> js_error + node list" where
  "loading_overlay s =
     (if isAnalyzing s then
        if currentAnalysisStep s < length analysisSteps then
          let step = analysisSteps ! currentAnalysisStep s in
          Inr [Node ''Animated.View'' [Style ''loadingOverlay'', Opacity (loadingAnim s)]
            [Node ''LinearGradient'' [Style ''loadingGradient'']
               [Node ''View'' [Style ''loadingContent'']
                  [Node ''Text'' [Style ''loadingTitle''] [TextS ''Analyzing Your Farm''],
                   Node ''Animated.View''
                     [Style ''currentStepContainer'', Opacity (stepAnim s),
                      Scale (interpolate (stepAnim s) 0.8 1)]
                     [Node ''View''
                        [Style ''stepIconContainer'', Text_prop ''backgroundColor'' (color step)]
                        [Node ''Ionicons''
                           [Text_prop ''name'' (icon step), Num_prop ''size'' 32,
                            Text_prop ''color'' ''#FFFFFF''] []],
                      Node ''Text'' [Style ''currentStepText''] [TextS (title step)]],
                   Node ''View'' [Style ''progressSteps'']
                     (map (\<lambda>(step, index). step_row (currentAnalysisStep s) step index)
                        (zip analysisSteps [0..<length analysisSteps])),
                   Node ''View'' [Style ''loadingAnimation'']
                     (map (\<lambda>index. Node ''Animated.View'' [Key index, Style ''loadingDot''] [])
                        [0, 1, 2])]]]]
        else Inl TypeError
      else Inr [])"

section \<open>The screen\<close>

definition render :: "app \<Rightarrow> js_error + node" where
  "render s =
     (if showPreloader s
      then Inr (Node ''SafeAreaView'' [Style ''container'']
             [Node ''StatusBar'' [] [], preloader_render s])
      else
        case loading_overlay s of
          Inl err \<Rightarrow> Inl err
        | Inr loading \<Rightarrow>
            Inr (Node ''SafeAreaView'' [Style ''container'']
              [Node ''StatusBar'' [] [],
               Node ''Fragment'' []
                 (map_view s # area_overlay s @ selection_message s @ instructions_box s @
                  bounding_box_message s @ loading)]))"

section \<open>What a tree holds\<close>

text \<open>\<open>wrapped inText v\<close>: every string and number of the tree \<open>v\<close> is inside a
  \<^verbatim>\<open>Text\<close> element (\<open>inText\<close> says whether \<open>v\<close> itself is). React Native refuses a tree
  with text outside a \<^verbatim>\<open>Text\<close>. \<open>children\<close> and \<open>key_of\<close> read an element.\<close>

fun wrapped :: "bool \<Rightarrow> node \<Rightarrow> bool" where
  "wrapped inText (Node name attrs cs) = list_all (wrapped (inText \<or> name = ''Text'')) cs"
| "wrapped inText (TextS s) = inText"
| "wrapped inText (TextN n) = inText"

fun children :: "node \<Rightarrow> node list" where
  "children (Node name attrs cs) = cs"
| "children (TextS s) = []"
| "children (TextN n) = []"

fun key_of :: "node \<Rightarrow> nat option" where
  "key_of (Node name (Key k # attrs) cs) = Some k"
| "key_of v = None"

text \<open>The handlers a tree offers to the user: the \<^verbatim>\<open>onPress\<close> props of its elements.\<close>

fun on_press :: "attr \<Rightarrow> handler list" where
  "on_press (OnPress h) = [h]"
| "on_press a = []"

fun handlers :: "node \<Rightarrow> handler list" where
  "handlers (Node name attrs cs) = concat (map on_press attrs) @ concat (map handlers cs)"
| "handlers (TextS s) = []"
| "handlers (TextN n) = []"

text \<open>The styles of the sheet a tree names: the \<open>Style\<close> props of its elements.\<close>

fun style_of :: "attr \<Rightarrow> string list" where
  "style_of (Style name) = [name]"
| "style_of a = []"

fun styles_of :: "node \<Rightarrow> string list" where
  "styles_of (Node name attrs cs) = concat (map style_of attrs) @ concat (map styles_of cs)"
| "styles_of (TextS s) = []"
| "styles_of (TextN n) = []"

lemmas render_defs = preloader_render_def marker_def map_view_def area_overlay_def
  selection_message_def instructions_box_def bounding_box_message_def step_row_def
  loading_overlay_def render_def

section \<open>The parts of the tree\<close>

lemma wrapped_preloader_render: "wrapped False (preloader_render s)"
  by (simp add: preloader_render_def split: option.splits)

lemma wrapped_map_view: "wrapped False (map_view s)"
  by (auto simp: map_view_def marker_def list_all_iff split: option.splits)

lemma wrapped_area_overlay:
  "farmArea s \<noteq> Some 0 \<Longrightarrow> list_all (wrapped False) (area_overlay s)"
  by (simp add: area_overlay_def truthy_def split: option.splits)

lemma wrapped_messages:
  "list_all (wrapped False) (selection_message s)"
  "list_all (wrapped False) (instructions_box s)"
  "list_all (wrapped False) (bounding_box_message s)"
  by (simp_all add: selection_message_def instructions_box_def bounding_box_message_def
      split: option.splits)

lemma wrapped_step_row: "wrapped False (step_row current st i)"
  by (simp add: step_row_def)

lemma loading_overlay_Inr:
  "currentAnalysisStep s < length analysisSteps \<Longrightarrow>
   \<exists>loading. loading_overlay s = Inr loading \<and> list_all (wrapped False) loading"
  by (auto simp: loading_overlay_def Let_def list_all_iff wrapped_step_row)

lemma loading_overlay_Inl:
  "loading_overlay s = Inl err \<longleftrightarrow>
   isAnalyzing s \<and> \<not> currentAnalysisStep s < length analysisSteps \<and> err = TypeError"
  by (auto simp: loading_overlay_def Let_def)

lemma handlers_map_view: "handlers (map_view s) = [HandleMapPress]"
  by (cases "boundingBox s") (auto simp: map_view_def marker_def)

lemma handlers_overlays:
  "concat (map handlers (area_overlay s)) = []"
  "concat (map handlers (selection_message s)) =
     (if showSelectionMessage s then [StartPointSelection] else [])"
  "concat (map handlers (instructions_box s)) = []"
  "concat (map handlers (bounding_box_message s)) = []"
  by (auto simp: area_overlay_def selection_message_def instructions_box_def
      bounding_box_message_def split: option.splits)

lemma handlers_loading_overlay:
  "loading_overlay s = Inr loading \<Longrightarrow> concat (map handlers loading) = []"
  by (auto simp: loading_overlay_def Let_def step_row_def split: if_splits)

lemma handlers_render:
  assumes "render s = Inr v"
  shows "handlers v =
     (if showPreloader s then []
      else HandleMapPress # (if showSelectionMessage s then [StartPointSelection] else []))"
proof (cases "showPreloader s")
  case True
  with assms show ?thesis by (auto simp: render_def preloader_render_def)
next
  case False
  with assms obtain loading where "loading_overlay s = Inr loading"
    and "v = Node ''SafeAreaView'' [Style ''container'']
              [Node ''StatusBar'' [] [],
               Node ''Fragment'' []
                 (map_view s # area_overlay s @ selection_message s @ instructions_box s @
                  bounding_box_message s @ loading)]"
    by (auto simp: render_def split: sum.splits)
  with False show ?thesis
    by (simp add: handlers_map_view handlers_overlays handlers_loading_overlay)
qed

lemma marker_keys:
  "map key_of (map (\<lambda>(point, i). marker anims point i) (zip ps [0..<length ps]))
     = map (Some \<circ> point_id) ps"
  by (rule nth_equalityI) (simp_all add: marker_def)

lemma calculateAreaInAcres_same_spot:
  assumes "latitude b = latitude a" "latitude c = latitude a" "latitude d = latitude a"
    and "longitude b = longitude a" "longitude c = longitude a" "longitude d = longitude a"
  shows "calculateAreaInAcres [a, b, c, d] = 0"
  using assms by (simp add: calculateAreaInAcres_eq shoelace4 cross_def)

section \<open>The styles of the parts\<close>

text \<open>\<open>known_styles\<close> are the names the sheet defines and the one name the area overlay
  reads that the sheet does not define.\<close>

definition known_styles :: "number \<Rightarrow> string set" where
  "known_styles h = insert ''areaLabelContainer'' (set (defined_styles h))"

lemma known_styles [simp]:
  "''container'' \<in> known_styles h" "''map'' \<in> known_styles h"
  "''preloaderContainer'' \<in> known_styles h" "''wordContainer'' \<in> known_styles h"
  "''wordWrapper'' \<in> known_styles h" "''mainWord'' \<in> known_styles h"
  "''pointMarker'' \<in> known_styles h" "''pointNumber'' \<in> known_styles h"
  "''areaOverlay'' \<in> known_styles h" "''areaGradient'' \<in> known_styles h"
  "''areaIconContainer'' \<in> known_styles h" "''areaTextContainer'' \<in> known_styles h"
  "''areaValue'' \<in> known_styles h" "''areaUnit'' \<in> known_styles h"
  "''areaLabel'' \<in> known_styles h" "''selectionMessage'' \<in> known_styles h"
  "''selectionGradient'' \<in> known_styles h" "''selectionTitle'' \<in> known_styles h"
  "''selectionSubtext'' \<in> known_styles h" "''startButton'' \<in> known_styles h"
  "''startButtonText'' \<in> known_styles h" "''instructionsBox'' \<in> known_styles h"
  "''instructionsGradient'' \<in> known_styles h" "''instructionsText'' \<in> known_styles h"
  "''pointsCounter'' \<in> known_styles h" "''pointsText'' \<in> known_styles h"
  "''boundingBoxMessage'' \<in> known_styles h" "''boundingBoxGradient'' \<in> known_styles h"
  "''boundingBoxText'' \<in> known_styles h" "''boundingBoxSubText'' \<in> known_styles h"
  "''loadingOverlay'' \<in> known_styles h" "''loadingGradient'' \<in> known_styles h"
  "''loadingContent'' \<in> known_styles h" "''loadingTitle'' \<in> known_styles h"
  "''currentStepContainer'' \<in> known_styles h" "''stepIconContainer'' \<in> known_styles h"
  "''currentStepText'' \<in> known_styles h" "''progressSteps'' \<in> known_styles h"
  "''stepRow'' \<in> known_styles h" "''stepDot'' \<in> known_styles h"
  "''stepDotCompleted'' \<in> known_styles h" "''stepText'' \<in> known_styles h"
  "''stepTextCompleted'' \<in> known_styles h" "''loadingAnimation'' \<in> known_styles h"
  "''loadingDot'' \<in> known_styles h" "''areaLabelContainer'' \<in> known_styles h"
  by (simp_all add: known_styles_def defined_styles)

lemma styles_of_marker: "styles_of (marker anims point i) = [''pointMarker'', ''pointNumber'']"
  by (simp add: marker_def)

lemma styles_of_step_row: "set (styles_of (step_row current st i)) \<subseteq> known_styles h"
  by (auto simp: step_row_def)

lemma styles_of_preloader_render: "set (styles_of (preloader_render s)) \<subseteq> known_styles h"
  by (auto simp: preloader_render_def split: option.splits)

lemma styles_of_map_view: "set (styles_of (map_view s)) \<subseteq> known_styles h"
  by (auto simp: map_view_def styles_of_marker split: option.splits)

lemma styles_of_overlays:
  "set (concat (map styles_of (area_overlay s))) \<subseteq> known_styles h"
  "set (concat (map styles_of (selection_message s))) \<subseteq> known_styles h"
  "set (concat (map styles_of (instructions_box s))) \<subseteq> known_styles h"
  "set (concat (map styles_of (bounding_box_message s))) \<subseteq> known_styles h"
  by (auto simp: area_overlay_def selection_message_def instructions_box_def
      bounding_box_message_def split: option.splits)

lemma styles_of_loading_overlay:
  assumes "loading_overlay s = Inr loading"
  shows "set (concat (map styles_of loading)) \<subseteq> known_styles h"
proof (cases "isAnalyzing s")
  case True
  with assms have "currentAnalysisStep s < length analysisSteps"
    by (simp add: loading_overlay_def split: if_splits)
  with assms True show ?thesis
    by (auto simp: loading_overlay_def Let_def dest!: set_zip_leftD
        dest: subsetD [OF styles_of_step_row])
next
  case False
  with assms show ?thesis by (simp add: loading_overlay_def)
qed

section \<open>Four taps on one spot\<close>

definition same_spot_session :: "event list" where
  "same_spot_session =
     [PermissionResolved Granted, PositionResolved \<lparr>latitude = 18.52, longitude = 73.86\<rparr>,
      PressStartSelection, PressMap 19 73, PressMap 19 73, PressMap 19 73, PressMap 19 73]"

definition same_spot_final :: app where
  "same_spot_final = the (play same_spot_session (mount 800))"

lemma same_spot_final:
  "play same_spot_session (mount 800) = Some same_spot_final"
  "\<not> showPreloader same_spot_final" "farmArea same_spot_final = Some 0"
  by (simp_all add: same_spot_final_def same_spot_session_def mount_def initial_def drain.simps
      run_defs tap_defs calculateAreaInAcres_same_spot)

lemma reachable_same_spot_final: "reachable same_spot_final"
  using same_spot_final(1) reachable_play [OF reachable.reach_mount] by blast

section \<open>Properties of the render\<close>

text \<open>C31. In every state the screen can reach the render function returns a tree: the
  reads of \<^verbatim>\<open>analysisSteps[currentAnalysisStep].color\<close>, \<^verbatim>\<open>.icon\<close> and \<^verbatim>\<open>.title\<close>
  never raise a \<^verbatim>\<open>TypeError\<close>, because the index is always one of the catalogue.\<close>

theorem render_never_raises: "reachable s \<Longrightarrow> \<exists>v. render s = Inr v"
proof -
  assume "reachable s"
  then have "currentAnalysisStep s < length analysisSteps"
    using reachable_screen_inv by (simp add: screen_inv_def analysis_inv_def)
  then obtain loading where "loading_overlay s = Inr loading"
    using loading_overlay_Inr by blast
  then show ?thesis by (simp add: render_def)
qed

theorem render_never_raises_witness: "\<exists>v. render example_final = Inr v"
  using render_never_raises [OF reachable_example_final] by simp

text \<open>C32. In every state the screen can reach, unless the area is 0, every string and
  every number of the tree is inside a \<^verbatim>\<open>Text\<close> element, as React Native
  requires.\<close>

theorem render_text_in_Text:
  assumes "reachable s" and "farmArea s \<noteq> Some 0"
  shows "\<exists>v. render s = Inr v \<and> wrapped False v"
proof -
  from assms(1) have "currentAnalysisStep s < length analysisSteps"
    using reachable_screen_inv by (simp add: screen_inv_def analysis_inv_def)
  then obtain loading where "loading_overlay s = Inr loading" "list_all (wrapped False) loading"
    using loading_overlay_Inr by blast
  with assms(2) show ?thesis
    by (simp add: render_def wrapped_preloader_render wrapped_map_view wrapped_area_overlay
        wrapped_messages)
qed

theorem render_text_in_Text_witness: "\<exists>v. render example_final = Inr v \<and> wrapped False v"
  using render_text_in_Text [OF reachable_example_final] example_final_points example_area_pos
  by simp

text \<open>C33. The events of the user the model allows are the ones the screen offers: the
  tree holds the handler of the map exactly when a tap on the map is an enabled event,
  and the handler of the button "Start Selection" exactly when the press of the button
  is one.\<close>

theorem enabled_iff_rendered:
  assumes "render s = Inr v"
  shows "(enabled (PressMap lat lon) s \<longleftrightarrow> HandleMapPress \<in> set (handlers v)) \<and>
     (enabled PressStartSelection s \<longleftrightarrow> StartPointSelection \<in> set (handlers v))"
  using handlers_render [OF assms] by simp

theorem enabled_iff_rendered_witness:
  "\<exists>v. render three_corners = Inr v \<and>
     (enabled (PressMap 19.001 73) three_corners \<longleftrightarrow> HandleMapPress \<in> set (handlers v)) \<and>
     (enabled PressStartSelection three_corners \<longleftrightarrow> StartPointSelection \<in> set (handlers v))"
proof -
  obtain v where v: "render three_corners = Inr v"
    by (auto simp: render_def three_corners_def initial_def loading_overlay_def)
  with enabled_iff_rendered [OF v, of "19.001" 73] show ?thesis by blast
qed

text \<open>C17. When the area of the plot is 0 (four taps on one spot, four points on a
  line, or a plot of less than half a thousandth of an acre), the condition
  \<^verbatim>\<open>boundingBox && farmArea && ...\<close> of the area overlay yields the number 0, and the
  tree holds a 0 outside any \<^verbatim>\<open>Text\<close> element instead of the overlay.\<close>

theorem zero_area_renders_bare_number:
  assumes "reachable s" "\<not> showPreloader s" "farmArea s = Some 0"
  shows "\<exists>v. render s = Inr v \<and> TextN 0 \<in> set (children (children v ! 1)) \<and>
     \<not> wrapped False v"
proof -
  from assms(1) have "points_inv s" "currentAnalysisStep s < length analysisSteps"
    using reachable_screen_inv by (simp_all add: screen_inv_def analysis_inv_def)
  with assms(3) obtain box loading
    where "boundingBox s = Some box" "loading_overlay s = Inr loading"
    using loading_overlay_Inr by (fastforce simp: points_inv_def split: option.splits)
  with assms(2,3) show ?thesis
    by (simp add: render_def area_overlay_def truthy_def)
qed

theorem zero_area_renders_bare_number_witness:
  "\<exists>v. render same_spot_final = Inr v \<and> TextN 0 \<in> set (children (children v ! 1)) \<and>
     \<not> wrapped False v"
  using zero_area_renders_bare_number [OF reachable_same_spot_final] same_spot_final
  by simp

text \<open>C12. Every style the screen names is a style of the sheet, with one exception: in
  every tree the render returns, the names read from \<^verbatim>\<open>styles\<close> are defined by
  \<^verbatim>\<open>StyleSheet.create\<close>, or are \<^verbatim>\<open>areaLabelContainer\<close>.\<close>

theorem render_styles_defined:
  assumes "render s = Inr t"
  shows "set (styles_of t) \<subseteq> insert ''areaLabelContainer'' (set (defined_styles (height s)))"
proof -
  have "set (styles_of t) \<subseteq> known_styles (height s)"
  proof (cases "showPreloader s")
    case True
    with assms show ?thesis
      using styles_of_preloader_render [of s "height s"] by (auto simp: render_def)
  next
    case False
    with assms obtain loading where "loading_overlay s = Inr loading"
      and "t = Node ''SafeAreaView'' [Style ''container'']
              [Node ''StatusBar'' [] [],
               Node ''Fragment'' []
                 (map_view s # area_overlay s @ selection_message s @ instructions_box s @
                  bounding_box_message s @ loading)]"
      by (auto simp: render_def split: sum.splits)
    then show ?thesis
      by (simp add: styles_of_map_view styles_of_overlays [simplified]
          styles_of_loading_overlay [simplified])
  qed
  then show ?thesis by (simp add: known_styles_def)
qed

theorem render_styles_defined_witness:
  "\<exists>t. render example_final = Inr t \<and>
     set (styles_of t) \<subseteq> insert ''areaLabelContainer'' (set (defined_styles 800))"
proof -
  obtain loading where "loading_overlay example_final = Inr loading"
    using loading_overlay_Inr [of example_final] by (auto simp: example_final_state)
  then obtain t where t: "render example_final = Inr t"
    by (simp add: render_def example_final_state)
  with render_styles_defined [OF t] show ?thesis
    by (auto simp: example_final_state)
qed

text \<open>C14. Whenever the area overlay is on the screen (an area other than 0 is held and
  the preloader is gone), its label is inside a \<^verbatim>\<open>View\<close> whose style is
  \<^verbatim>\<open>styles.areaLabelContainer\<close>, a name the style sheet does not define: the style read
  is \<^verbatim>\<open>undefined\<close>.\<close>

theorem area_label_style_undefined:
  assumes "reachable s" "\<not> showPreloader s" "farmArea s = Some a" "a \<noteq> 0"
  shows "\<exists>t. render s = Inr t \<and> ''areaLabelContainer'' \<in> set (styles_of t) \<and>
     lookup (styles (height s)) ''areaLabelContainer'' = Undefined"
proof -
  from assms(1) have "points_inv s" "currentAnalysisStep s < length analysisSteps"
    using reachable_screen_inv by (simp_all add: screen_inv_def analysis_inv_def)
  with assms(3) obtain box loading
    where "boundingBox s = Some box" "loading_overlay s = Inr loading"
    using loading_overlay_Inr by (fastforce simp: points_inv_def split: option.splits)
  with assms(2-4) have "\<exists>t. render s = Inr t \<and> ''areaLabelContainer'' \<in> set (styles_of t)"
    by (simp add: render_def area_overlay_def truthy_def)
  moreover have "lookup (styles (height s)) ''areaLabelContainer'' = Undefined"
    by (rule style_undefined) (simp add: defined_styles)
  ultimately show ?thesis by blast
qed

theorem area_label_style_undefined_witness:
  "\<exists>t. render example_final = Inr t \<and> ''areaLabelContainer'' \<in> set (styles_of t) \<and>
     lookup (styles (height example_final)) ''areaLabelContainer'' = Undefined"
  using area_label_style_undefined [OF reachable_example_final] example_final_points
    example_area_pos
  by (simp add: example_final_state)

text \<open>The markers of the map have the keys 1, 2, ... in the order of the taps, in
  every state the screen can reach: no two markers share a key.\<close>

theorem marker_keys_distinct:
  assumes "reachable s"
  shows "map key_of (take (length (selectedPoints s)) (children (map_view s)))
     = map (\<lambda>i. Some (i + 1)) [0..<length (selectedPoints s)]"
proof -
  from assms have "points_inv s"
    using reachable_screen_inv by (simp add: screen_inv_def)
  then have "map (Some \<circ> point_id) (selectedPoints s)
      = map (\<lambda>i. Some (i + 1)) [0..<length (selectedPoints s)]"
    by (intro nth_equalityI) (simp_all add: points_inv_def)
  then show ?thesis
    using marker_keys [of "pointPulseAnims s" "selectedPoints s"] by (simp add: map_view_def)
qed

theorem marker_keys_distinct_witness:
  "map key_of (take 4 (children (map_view example_final))) = [Some 1, Some 2, Some 3, Some 4]"
  using marker_keys_distinct [OF reachable_example_final] example_final_points
  by (simp add: upt_rec eval_nat_numeral)

end
