(* ===== verification/Refinement.thy ===== *)
theory Refinement
  imports Termination
begin

text \<open>
  The screen against the state machine of the specification.

  \<^item> \<open>session\<close> is the session state of the specification: a status, the points
    selected, the area and the index of the current analysis step. \<open>spec_step\<close> are
    its transitions: centring, the begin of a selection, the first three points, the
    fourth point (which forms the boundary and computes the area), the start of the
    analysis, a step, the completion.
  \<^item> \<open>session_of\<close> reads the session state off the state of the screen; the status is
    decided by the call of \<^verbatim>\<open>navigation.replace\<close>, \<^verbatim>\<open>isAnalyzing\<close>, \<^verbatim>\<open>boundingBox\<close>,
    \<^verbatim>\<open>isSelectingPoints\<close> and \<^verbatim>\<open>showSelectionMessage\<close>, in this order.
  \<^item> \<open>plan_inv\<close> ties the pending timers of the analysis to the status: none before
    the boundary, the start of the analysis when the boundary is ready, the remaining
    steps in their order while the analysis runs, then the navigation, then none.
  \<^item> \<open>disciplined\<close> are the states the screen reaches when "Start Selection" is
    pressed only while no selection has begun. The button stays on the screen for the
    600 ms of the fade of the message; a press in that time is the one thing the
    specified machine has no transition for.

  The result: every step of the screen from a disciplined state is a transition of the
  specified machine or leaves the session state as it is.
\<close>

section \<open>The specified state machine\<close>

datatype status = Idle | AwaitingStart | Selecting | BoundaryReady | Analyzing | Complete

record session =
  status :: status
  selection :: "GeoPoint list"
  areaAcres :: "number option"
  currentStepIndex :: "nat option"

inductive spec_step :: "session \<Rightarrow> session \<Rightarrow> bool" where
  centred: "status c = Idle \<Longrightarrow> spec_step c (c\<lparr>status := AwaitingStart\<rparr>)"
| beginSelection:
    "status c = AwaitingStart \<Longrightarrow>
     spec_step c (c\<lparr>status := Selecting, selection := [], areaAcres := None\<rparr>)"
| addPoint:
    "status c = Selecting \<Longrightarrow> length (selection c) < 3 \<Longrightarrow>
     p = \<lparr>latitude = lat, longitude = lon, point_id = length (selection c) + 1\<rparr> \<Longrightarrow>
     spec_step c (c\<lparr>selection := selection c @ [p]\<rparr>)"
| fourthPoint:
    "status c = Selecting \<Longrightarrow> length (selection c) = 3 \<Longrightarrow>
     p = \<lparr>latitude = lat, longitude = lon, point_id = length (selection c) + 1\<rparr> \<Longrightarrow>
     spec_step c (c\<lparr>status := BoundaryReady, selection := selection c @ [p],
       areaAcres := Some (calculateAreaInAcres (selection c @ [p]))\<rparr>)"
| beginAnalysis:
    "status c = BoundaryReady \<Longrightarrow>
     spec_step c (c\<lparr>status := Analyzing, currentStepIndex := Some 0\<rparr>)"
| stepTick:
    "status c = Analyzing \<Longrightarrow> currentStepIndex c = Some i \<Longrightarrow> i + 1 < length analysisSteps \<Longrightarrow>
     spec_step c (c\<lparr>currentStepIndex := Some (i + 1)\<rparr>)"
| complete:
    "status c = Analyzing \<Longrightarrow> currentStepIndex c = Some (length analysisSteps - 1) \<Longrightarrow>
     spec_step c (c\<lparr>status := Complete\<rparr>)"

section \<open>The session state of the screen\<close>

definition navigated :: "app \<Rightarrow> bool" where
  "navigated s \<longleftrightarrow> Navigation_replace ''ChoiceScreen'' \<in> set (effects s)"

definition status_of :: "app \<Rightarrow> status" where
  "status_of s =
     (if navigated s then Complete
      else if isAnalyzing s then Analyzing
      else if boundingBox s \<noteq> None then BoundaryReady
      else if isSelectingPoints s then Selecting
      else if showSelectionMessage s then AwaitingStart
      else Idle)"

definition session_of :: "app \<Rightarrow> session" where
  "session_of s =
     \<lparr>status = status_of s, selection = selectedPoints s, areaAcres = farmArea s,
      currentStepIndex = (if isAnalyzing s then Some (currentAnalysisStep s) else None)\<rparr>"

section \<open>The timers of the analysis\<close>

fun is_analysis :: "callback \<Rightarrow> bool" where
  "is_analysis StartAnalysis = True"
| "is_analysis (AnalysisStep i) = True"
| "is_analysis Navigate = True"
| "is_analysis c = False"

definition analysis_timers :: "app \<Rightarrow> callback list" where
  "analysis_timers s = pending (filter (\<lambda>t. is_analysis (callback t)) (timers s))"

definition analysis_plan :: "nat \<Rightarrow> callback list" where
  "analysis_plan k =
     map AnalysisStep [k..<length analysisSteps] @
     (if k = length analysisSteps then [Navigate] else [])"

definition plan_ok :: "bool \<times> bool \<times> bool \<times> nat \<times> callback list \<Rightarrow> bool" where
  "plan_ok v =
     (case v of (nav, analyzing, box, current, plan) \<Rightarrow>
        if nav then analyzing \<and> box \<and> current = length analysisSteps - 1 \<and> plan = []
        else if analyzing
          then box \<and> (\<exists>k\<le>length analysisSteps. current = k - 1 \<and> plan = analysis_plan k)
        else if box then plan = [StartAnalysis]
        else plan = [])"

definition plan_view :: "app \<Rightarrow> bool \<times> bool \<times> bool \<times> nat \<times> callback list" where
  "plan_view s =
     (navigated s, isAnalyzing s, boundingBox s \<noteq> None, currentAnalysisStep s, analysis_timers s)"

definition plan_inv :: "app \<Rightarrow> bool" where
  "plan_inv s \<longleftrightarrow> plan_ok (plan_view s)"

definition fade_inv :: "app \<Rightarrow> bool" where
  "fade_inv s \<longleftrightarrow>
     (MessageFadeDone \<in> set (pending (timers s)) \<longrightarrow> isSelectingPoints s \<or> boundingBox s \<noteq> None)"

definition session_inv :: "app \<Rightarrow> bool" where
  "session_inv s \<longleftrightarrow> screen_inv s \<and> plan_inv s \<and> fade_inv s"

text \<open>A press of "Start Selection" is in order when no selection has begun.\<close>

definition in_order :: "event \<Rightarrow> app \<Rightarrow> bool" where
  "in_order e s \<longleftrightarrow> (e = PressStartSelection \<longrightarrow> \<not> isSelectingPoints s \<and> boundingBox s = None)"

text \<open>A run in which every event is in order when it happens.\<close>

fun run_in_order :: "event list \<Rightarrow> app \<Rightarrow> bool" where
  "run_in_order [] s \<longleftrightarrow> True"
| "run_in_order (e # es) s \<longleftrightarrow>
     in_order e s \<and> (case step e s of None \<Rightarrow> True | Some s' \<Rightarrow> run_in_order es s')"

inductive disciplined :: "app \<Rightarrow> bool" where
  disc_mount: "disciplined (mount h)"
| disc_step: "disciplined s \<Longrightarrow> in_order e s \<Longrightarrow> step e s = Some s' \<Longrightarrow> disciplined s'"

lemmas [inv_defs] = plan_inv_def fade_inv_def session_inv_def

section \<open>The session state under the callbacks\<close>

lemma navigated_simps [simp]:
  "navigated (s\<lparr>timers := q\<rparr>) = navigated s"
  "navigated (s\<lparr>now := n\<rparr>) = navigated s"
  "navigated (schedule cb d s) = navigated s"
  "navigated (perform e s) \<longleftrightarrow> navigated s \<or> e = Navigation_replace ''ChoiceScreen''"
  by (auto simp: navigated_def schedule_def perform_def)

lemma analysis_timers_Cons:
  "timers s = t # q \<Longrightarrow>
   analysis_timers s =
     (if is_analysis (callback t) then [callback t] else []) @ analysis_timers (s\<lparr>timers := q\<rparr>)"
  by (simp add: analysis_timers_def)

lemma analysis_timers_now [simp]: "analysis_timers (s\<lparr>now := n\<rparr>) = analysis_timers s"
  by (simp add: analysis_timers_def)

lemma analysis_timers_schedule_other [simp]:
  "\<not> is_analysis cb \<Longrightarrow> analysis_timers (schedule cb d s) = analysis_timers s"
  by (simp add: analysis_timers_def schedule_def filter_setTimeout_other)

lemma analysis_timers_schedule_first:
  assumes "is_analysis cb" "queue_inv s" "analysis_timers s = []"
  shows "analysis_timers (schedule cb d s) = [cb]"
  using assms
  by (simp add: analysis_timers_def schedule_def filter_setTimeout_same queue_inv_def pending_def)

text \<open>The callbacks outside the analysis leave the analysis as it is.\<close>

lemma plan_view_fire:
  "\<not> is_analysis c \<Longrightarrow> plan_view (fire c s) = plan_view s"
  by (cases c) (simp_all add: plan_view_def handler_defs analysis_timers_def navigated_def
      filter_setTimeout_other)

lemma status_fire:
  assumes "\<not> is_analysis c" "c \<noteq> ShowSelectionMessage" "c \<noteq> MessageFadeDone"
  shows "session_of (fire c s) = session_of s"
  using assms by (cases c) (simp_all add: session_of_def status_of_def navigated_def handler_defs)

section \<open>The plan of the analysis\<close>

lemma analysis_plan_step:
  "k < 5 \<Longrightarrow> analysis_plan k = AnalysisStep k # map AnalysisStep [Suc k..<5]"
  by (simp add: analysis_plan_def upt_conv_Cons)

lemma analysis_plan_5 [simp]: "analysis_plan 5 = [Navigate]"
  by (simp add: analysis_plan_def)

lemma analysis_plan_cases:
  assumes "k \<le> 5"
  obtains (step) "k < 5" "analysis_plan k = AnalysisStep k # map AnalysisStep [Suc k..<5]"
  | (last) "k = 5" "analysis_plan k = [Navigate]"
  using assms analysis_plan_step [of k] by (cases "k = 5") auto

lemma plan_inv_cases:
  assumes "plan_inv s"
  obtains (complete) "navigated s" "isAnalyzing s" "boundingBox s \<noteq> None"
      "currentAnalysisStep s = 4" "analysis_timers s = []"
  | (analyzing) k where "\<not> navigated s" "isAnalyzing s" "boundingBox s \<noteq> None" "k \<le> 5"
      "currentAnalysisStep s = k - 1" "analysis_timers s = analysis_plan k"
  | (ready) "\<not> navigated s" "\<not> isAnalyzing s" "boundingBox s \<noteq> None"
      "analysis_timers s = [StartAnalysis]"
  | (before) "\<not> navigated s" "\<not> isAnalyzing s" "boundingBox s = None" "analysis_timers s = []"
  using assms unfolding plan_inv_def plan_view_def plan_ok_def
  by (simp split: if_splits) blast+

lemma plan_inv_StartAnalysis:
  assumes "plan_inv s" "analysis_timers s = StartAnalysis # rest"
  shows "\<not> navigated s \<and> \<not> isAnalyzing s \<and> boundingBox s \<noteq> None \<and> rest = []"
  using assms(1)
proof (cases s rule: plan_inv_cases)
  case (analyzing k)
  from analyzing(4) show ?thesis
    using assms(2) analyzing by (cases k rule: analysis_plan_cases) auto
qed (use assms(2) in simp_all)

lemma plan_inv_AnalysisStep:
  assumes "plan_inv s" "analysis_timers s = AnalysisStep i # rest"
  shows "\<not> navigated s \<and> isAnalyzing s \<and> boundingBox s \<noteq> None \<and> i < 5 \<and>
     currentAnalysisStep s = i - 1 \<and> rest = map AnalysisStep [Suc i..<5]"
  using assms(1)
proof (cases s rule: plan_inv_cases)
  case (analyzing k)
  from analyzing(4) show ?thesis
    using assms(2) analyzing by (cases k rule: analysis_plan_cases) auto
qed (use assms(2) in simp_all)

lemma plan_inv_Navigate:
  assumes "plan_inv s" "analysis_timers s = Navigate # rest"
  shows "\<not> navigated s \<and> isAnalyzing s \<and> boundingBox s \<noteq> None \<and>
     currentAnalysisStep s = 4 \<and> rest = []"
  using assms(1)
proof (cases s rule: plan_inv_cases)
  case (analyzing k)
  from analyzing(4) show ?thesis
    using assms(2) analyzing by (cases k rule: analysis_plan_cases) auto
qed (use assms(2) in simp_all)

lemma plan_inv_analyzing:
  assumes "\<not> navigated s" "isAnalyzing s" "boundingBox s \<noteq> None" "k \<le> 5"
    and "currentAnalysisStep s = k - 1" "analysis_timers s = analysis_plan k"
  shows "plan_inv s"
  using assms by (auto simp: plan_inv_def plan_view_def plan_ok_def)

lemma analysis_timers_startAnalysis:
  assumes "queue_inv s" "analysis_timers s = []"
  shows "analysis_timers (startAnalysis s) = analysis_plan 0"
proof -
  let ?P = "\<lambda>t. is_analysis (callback t)"
  from assms(2) have empty: "filter ?P (timers s) = []"
    by (simp add: analysis_timers_def pending_def)
  from assms(1) have sorted: "sorted (map due (timers s))"
    by (simp add: queue_inv_def)
  have "filter ?P (timers (startAnalysis s)) =
      foldl (\<lambda>q i. setTimeout (AnalysisStep i) ((i + 1) * TIME_PER_ANALYSIS_STEP) (now s) q)
        (filter ?P (timers s)) [0..<5]"
    using sorted by (simp add: startAnalysis_def schedule_def filter_setTimeout_same)
  then show ?thesis
    by (simp add: empty analysis_timers_def setTimeout_def analysis_plan_def analysis_constants)
qed

section \<open>The plan under the run of a timer\<close>

lemma plan_inv_startAnalysis:
  assumes "\<not> navigated s" "boundingBox s \<noteq> None" "queue_inv s" "analysis_timers s = []"
  shows "plan_inv (startAnalysis s)"
proof (rule plan_inv_analyzing [where k = 0])
  show "analysis_timers (startAnalysis s) = analysis_plan 0"
    using assms(3,4) by (rule analysis_timers_startAnalysis)
qed (use assms(1,2) in \<open>simp_all add: startAnalysis_def navigated_def schedule_def\<close>)

lemma plan_inv_analysis_tick:
  assumes "\<not> navigated s" "isAnalyzing s" "boundingBox s \<noteq> None" "i < 5" "queue_inv s"
    and "analysis_timers s = map AnalysisStep [Suc i..<5]"
  shows "plan_inv (analysis_tick i s)"
proof (rule plan_inv_analyzing [where k = "Suc i"])
  show "analysis_timers (analysis_tick i s) = analysis_plan (Suc i)"
  proof (cases "i = 4")
    case True
    let ?s = "s\<lparr>currentAnalysisStep := i, stepAnim := 1\<rparr>"
    from assms(5,6) True have "queue_inv ?s" "analysis_timers ?s = []"
      by (simp_all add: queue_inv_def analysis_timers_def)
    then have "analysis_timers (schedule Navigate DELAY_AFTER_LAST_STEP ?s) = [Navigate]"
      by (intro analysis_timers_schedule_first) simp_all
    with True show ?thesis by (simp add: analysis_tick_def)
  next
    case False
    with assms(4,6) show ?thesis
      by (simp add: analysis_tick_def analysis_plan_def analysis_timers_def)
  qed
qed (use assms(1-4) in \<open>auto simp: analysis_tick_def navigated_def schedule_def Let_def\<close>)

lemma plan_inv_navigate:
  assumes "isAnalyzing s" "boundingBox s \<noteq> None" "currentAnalysisStep s = 4"
    and "analysis_timers s = []"
  shows "plan_inv (navigate s)"
  using assms
  by (simp add: plan_inv_def plan_view_def plan_ok_def navigate_def analysis_timers_def
      navigated_def perform_def)

lemma plan_inv_tick:
  assumes "plan_inv s" "queue_inv s" "timers s = t # q"
  shows "plan_inv (fire (callback t) (s\<lparr>timers := q, now := max (now s) (due t)\<rparr>))"
proof -
  let ?s = "s\<lparr>timers := q, now := max (now s) (due t)\<rparr>"
  have queue: "queue_inv ?s"
    using assms(2,3) by (simp add: queue_inv_def)
  have timers: "analysis_timers s =
      (if is_analysis (callback t) then [callback t] else []) @ analysis_timers ?s"
    using analysis_timers_Cons [OF assms(3)] by (simp add: analysis_timers_def)
  have same: "navigated ?s = navigated s" "isAnalyzing ?s = isAnalyzing s"
    "boundingBox ?s = boundingBox s" "currentAnalysisStep ?s = currentAnalysisStep s"
    by simp_all
  show ?thesis
  proof (cases "is_analysis (callback t)")
    case False
    with timers have "plan_view (fire (callback t) ?s) = plan_view s"
      by (simp add: plan_view_fire) (simp add: plan_view_def)
    with assms(1) show ?thesis by (simp add: plan_inv_def)
  next
    case True
    then show ?thesis
    proof (cases "callback t")
      case StartAnalysis
      with timers have "analysis_timers s = StartAnalysis # analysis_timers ?s" by simp
      from plan_inv_StartAnalysis [OF assms(1) this] queue show ?thesis
        unfolding StartAnalysis by (simp add: plan_inv_startAnalysis)
    next
      case (AnalysisStep i)
      with timers have "analysis_timers s = AnalysisStep i # analysis_timers ?s" by simp
      from plan_inv_AnalysisStep [OF assms(1) this] queue show ?thesis
        unfolding AnalysisStep by (simp add: plan_inv_analysis_tick)
    next
      case Navigate
      with timers have "analysis_timers s = Navigate # analysis_timers ?s" by simp
      from plan_inv_Navigate [OF assms(1) this] show ?thesis
        unfolding Navigate by (simp add: plan_inv_navigate)
    qed simp_all
  qed
qed

section \<open>The plan under the events\<close>

lemma plan_view_location [simp]:
  "plan_view (permission_resolved st s) = plan_view s"
  "plan_view (position_resolved c s) = plan_view s"
  "plan_view (location_failed s) = plan_view s"
  "plan_view (s\<lparr>permissionRequests := n\<rparr>) = plan_view s"
  "plan_view (s\<lparr>positionRequests := n\<rparr>) = plan_view s"
  "plan_view (s\<lparr>now := m\<rparr>) = plan_view s"
  by (simp_all add: plan_view_def handler_defs analysis_timers_def navigated_def
      filter_setTimeout_other)

lemma plan_inv_handleMapPress:
  assumes "plan_inv s" "points_inv s" "queue_inv s" and "handleMapPress lat lon s = Inr s'"
  shows "plan_inv s'"
proof (cases s rule: handleMapPress_cases)
  case ignored
  with assms show ?thesis by (simp add: handleMapPress_ignored)
next
  case add
  with assms(4) have "plan_view s' = plan_view s"
    by (auto simp: handleMapPress_add pulse_effect_eq plan_view_def analysis_timers_def
        navigated_def)
  with assms(1) show ?thesis by (simp add: plan_inv_def)
next
  case fourth
  with assms(2) have box: "boundingBox s = None"
    by (auto simp: points_inv_def split: option.splits)
  let ?s = "s\<lparr>selectedPoints := selectedPoints s @ [newPoint lat lon s], instructionsAnim := 0,
          boundingBox := Some (map coords (selectedPoints s @ [newPoint lat lon s])),
          isSelectingPoints := False,
          farmArea := Some (calculateAreaInAcres (selectedPoints s @ [newPoint lat lon s])),
          boundingBoxAnim := 1, areaAnim := 1\<rparr>"
  from assms(1) box have before: "\<not> navigated s" "\<not> isAnalyzing s" "analysis_timers s = []"
    by (cases s rule: plan_inv_cases; simp)+
  with assms(3) have "analysis_timers (schedule StartAnalysis DELAY_BEFORE_ANALYSIS_START ?s)
      = [StartAnalysis]"
    by (intro analysis_timers_schedule_first) (simp_all add: queue_inv_def analysis_timers_def)
  moreover from assms(4) fourth
  have "s' = pulse_effect (schedule StartAnalysis DELAY_BEFORE_ANALYSIS_START ?s)"
    by (simp add: handleMapPress_fourth)
  ultimately show ?thesis
    using before
    by (simp add: plan_inv_def plan_view_def plan_ok_def pulse_effect_eq analysis_timers_def
        navigated_def schedule_def)
qed

lemma plan_inv_handle:
  assumes "plan_inv s" "screen_inv s" "in_order e s" and "handle e s = Inr s'"
  shows "plan_inv s'"
proof (cases e)
  case Tick
  from assms(2) have "queue_inv s" by (simp add: screen_inv_def)
  with assms(1,4) Tick show ?thesis
    by (cases "timers s") (auto simp: tick_def plan_inv_tick)
next
  case PressStartSelection
  with assms(3) have "boundingBox s = None" by (simp add: in_order_def)
  with assms(4) PressStartSelection have "plan_view s' = plan_view s"
    by (auto simp: plan_view_def handler_defs analysis_timers_def navigated_def
        filter_setTimeout_other)
  with assms(1) show ?thesis by (simp add: plan_inv_def)
next
  case (PressMap lat lon)
  with assms(4) have "handleMapPress lat lon s = Inr s'" by simp
  with assms(1,2) show ?thesis
    by (auto simp: screen_inv_def intro: plan_inv_handleMapPress)
qed (use assms(1,4) in \<open>auto simp: plan_inv_def\<close>)

section \<open>The fade of the message\<close>

lemma fade_fire: "MessageFadeDone \<in> set (pending (timers (fire c s))) \<Longrightarrow>
    MessageFadeDone \<in> set (pending (timers s))"
  by (cases c) (auto simp: handler_defs split: if_splits)

lemma fade_inv_handle:
  assumes "fade_inv s" and "handle e s = Inr s'"
  shows "fade_inv s'"
proof (cases e)
  case Tick
  show ?thesis
  proof (cases "timers s")
    case Nil
    with assms Tick show ?thesis by (simp add: tick_def)
  next
    case (Cons t q)
    let ?s = "s\<lparr>timers := q, now := max (now s) (due t)\<rparr>"
    have "selection_fields (fire (callback t) ?s) = selection_fields s"
      by simp
    then have "isSelectingPoints (fire (callback t) ?s) = isSelectingPoints s"
      "boundingBox (fire (callback t) ?s) = boundingBox s"
      by (simp_all add: selection_fields_def)
    moreover have "MessageFadeDone \<in> set (pending (timers s))"
      if "MessageFadeDone \<in> set (pending (timers (fire (callback t) ?s)))"
      using fade_fire [OF that] Cons by auto
    moreover have "s' = fire (callback t) ?s"
      using assms(2) Tick Cons by (simp add: tick_def)
    ultimately show ?thesis
      using assms(1) by (auto simp: fade_inv_def)
  qed
next
  case (PressMap lat lon)
  with assms show ?thesis
    by (cases s rule: handleMapPress_cases)
      (auto simp: fade_inv_def handleMapPress_ignored handleMapPress_add handleMapPress_fourth
        pulse_effect_eq schedule_def)
qed (use assms in \<open>auto simp: fade_inv_def handler_defs split: if_splits\<close>)

section \<open>Disciplined states\<close>

lemma session_inv_mount: "session_inv (mount h)"
  by (simp add: session_inv_def screen_inv_mount)
    (simp add: inv_defs plan_view_def plan_ok_def analysis_timers_def navigated_def mount_def
      initial_def handler_defs)

lemma session_inv_step:
  assumes "session_inv s" "in_order e s" "step e s = Some s'"
  shows "session_inv s'"
proof -
  from assms(3) have "handle e s = Inr s'" by (simp add: step_Some_iff)
  with assms(1,2) show ?thesis
    by (auto simp: session_inv_def intro: screen_inv_step [OF _ assms(3)] plan_inv_handle
        fade_inv_handle)
qed

lemma disciplined_session_inv: "disciplined s \<Longrightarrow> session_inv s"
  by (induction rule: disciplined.induct) (auto intro: session_inv_mount session_inv_step)

lemma disciplined_reachable: "disciplined s \<Longrightarrow> reachable s"
  by (induction rule: disciplined.induct) (auto intro: reachable.intros)

section \<open>Every step is a specified transition\<close>

lemmas session_defs = session_of_def status_of_def navigated_def

lemma selecting_status:
  assumes "session_inv s" "boundingBox s = None"
  shows "\<not> navigated s" "\<not> isAnalyzing s"
proof -
  from assms(1) have "plan_inv s" by (simp add: session_inv_def)
  then show "\<not> navigated s" "\<not> isAnalyzing s"
    using assms(2) by (cases s rule: plan_inv_cases; simp)+
qed

lemma refines_fire:
  assumes "session_inv s" "timers s = t # q"
  shows "session_of (fire (callback t) (s\<lparr>timers := q, now := max (now s) (due t)\<rparr>)) = session_of s \<or>
     spec_step (session_of s)
       (session_of (fire (callback t) (s\<lparr>timers := q, now := max (now s) (due t)\<rparr>)))"
proof -
  let ?s = "s\<lparr>timers := q, now := max (now s) (due t)\<rparr>"
  from assms(1) have plan: "plan_inv s" and "fade_inv s"
    by (simp_all add: session_inv_def)
  have frame: "session_of ?s = session_of s"
    by (simp add: session_defs)
  have timers: "analysis_timers s =
      (if is_analysis (callback t) then [callback t] else []) @ analysis_timers ?s"
    using analysis_timers_Cons [OF assms(2)] by (simp add: analysis_timers_def)
  consider (message) "callback t = ShowSelectionMessage" | (fade) "callback t = MessageFadeDone"
    | (start) "callback t = StartAnalysis" | (step) i where "callback t = AnalysisStep i"
    | (navigate) "callback t = Navigate"
    | (other) "\<not> is_analysis (callback t)" "callback t \<noteq> ShowSelectionMessage"
        "callback t \<noteq> MessageFadeDone"
    by (cases "callback t") auto
  then show ?thesis
  proof cases
    case message
    show ?thesis
    proof (cases "status_of s = Idle")
      case True
      then have "session_of (fire ShowSelectionMessage ?s) = (session_of s)\<lparr>status := AwaitingStart\<rparr>"
        by (simp add: session_defs handler_defs split: if_splits)
      moreover from True have "spec_step (session_of s) ((session_of s)\<lparr>status := AwaitingStart\<rparr>)"
        by (intro spec_step.centred) (simp add: session_of_def)
      ultimately show ?thesis
        unfolding message by simp
    next
      case False
      then have "session_of (fire ShowSelectionMessage ?s) = session_of s"
        by (simp add: session_defs handler_defs split: if_splits)
      then show ?thesis unfolding message by simp
    qed
  next
    case fade
    with assms(2) \<open>fade_inv s\<close> have "isSelectingPoints s \<or> boundingBox s \<noteq> None"
      by (simp add: fade_inv_def)
    then have "session_of (fire MessageFadeDone ?s) = session_of s"
      by (auto simp: session_defs handler_defs)
    then show ?thesis unfolding fade by simp
  next
    case start
    with timers have "analysis_timers s = StartAnalysis # analysis_timers ?s" by simp
    from plan_inv_StartAnalysis [OF plan this]
    have "status (session_of s) = BoundaryReady"
      and "session_of (fire StartAnalysis ?s) =
        (session_of s)\<lparr>status := Analyzing, currentStepIndex := Some 0\<rparr>"
      by (auto simp: session_defs startAnalysis_def schedule_def)
    then show ?thesis
      unfolding start by (simp add: spec_step.beginAnalysis)
  next
    case (step i)
    with timers have "analysis_timers s = AnalysisStep i # analysis_timers ?s" by simp
    from plan_inv_AnalysisStep [OF plan this]
    have facts: "status (session_of s) = Analyzing" "i < 5"
      "currentStepIndex (session_of s) = Some (i - 1)"
      and after: "session_of (fire (AnalysisStep i) ?s) =
        (session_of s)\<lparr>currentStepIndex := Some i\<rparr>"
      by (auto simp: session_defs analysis_tick_def schedule_def Let_def)
    show ?thesis
    proof (cases i)
      case 0
      with facts after show ?thesis
        unfolding step by (simp add: session_of_def split: if_splits)
    next
      case (Suc j)
      with facts have "spec_step (session_of s) ((session_of s)\<lparr>currentStepIndex := Some (j + 1)\<rparr>)"
        by (intro spec_step.stepTick) simp_all
      with after Suc show ?thesis
        unfolding step by simp
    qed
  next
    case navigate
    with timers have "analysis_timers s = Navigate # analysis_timers ?s" by simp
    from plan_inv_Navigate [OF plan this]
    have "status (session_of s) = Analyzing" "currentStepIndex (session_of s) = Some 4"
      and "session_of (fire Navigate ?s) = (session_of s)\<lparr>status := Complete\<rparr>"
      by (auto simp: session_defs navigate_def perform_def)
    then show ?thesis
      unfolding navigate using spec_step.complete [of "session_of s"] by simp
  next
    case other
    from status_fire [OF other] frame show ?thesis by simp
  qed
qed

lemma refines_handleMapPress:
  assumes "session_inv s" "handleMapPress lat lon s = Inr s'"
  shows "session_of s' = session_of s \<or> spec_step (session_of s) (session_of s')"
proof (cases s rule: handleMapPress_cases)
  case ignored
  with assms show ?thesis by (simp add: handleMapPress_ignored)
next
  case add
  from assms(1) have "points_inv s" by (simp add: session_inv_def screen_inv_def)
  with add have box: "boundingBox s = None"
    by (auto simp: points_inv_def split: option.splits)
  from selecting_status [OF assms(1) box] add box
  have "status (session_of s) = Selecting" "length (selection (session_of s)) < 3"
    by (simp_all add: session_defs)
  then have "spec_step (session_of s)
      ((session_of s)\<lparr>selection := selection (session_of s) @ [newPoint lat lon s]\<rparr>)"
    by (rule spec_step.addPoint) (simp add: newPoint_def session_of_def)
  moreover from assms(2) add
  have "session_of s' = (session_of s)\<lparr>selection := selection (session_of s) @ [newPoint lat lon s]\<rparr>"
    by (auto simp: handleMapPress_add pulse_effect_eq session_defs)
  ultimately show ?thesis by simp
next
  case fourth
  from assms(1) have "points_inv s" by (simp add: session_inv_def screen_inv_def)
  with fourth have box: "boundingBox s = None"
    by (auto simp: points_inv_def split: option.splits)
  from selecting_status [OF assms(1) box] fourth box
  have "status (session_of s) = Selecting" "length (selection (session_of s)) = 3"
    by (simp_all add: session_defs)
  then have "spec_step (session_of s)
      ((session_of s)\<lparr>status := BoundaryReady,
         selection := selection (session_of s) @ [newPoint lat lon s],
         areaAcres := Some (calculateAreaInAcres (selection (session_of s) @ [newPoint lat lon s]))\<rparr>)"
    by (rule spec_step.fourthPoint) (simp add: newPoint_def session_of_def)
  moreover from assms(2) fourth selecting_status [OF assms(1) box]
  have "session_of s' = (session_of s)\<lparr>status := BoundaryReady,
         selection := selection (session_of s) @ [newPoint lat lon s],
         areaAcres := Some (calculateAreaInAcres (selection (session_of s) @ [newPoint lat lon s]))\<rparr>"
    by (auto simp: handleMapPress_fourth pulse_effect_eq session_defs schedule_def)
  ultimately show ?thesis by simp
qed

lemma session_of_frame [simp]:
  "session_of (permission_resolved st s) = session_of s"
  "session_of (position_resolved c s) = session_of s"
  "session_of (location_failed s) = session_of s"
  "session_of (s\<lparr>permissionRequests := n\<rparr>) = session_of s"
  "session_of (s\<lparr>positionRequests := n\<rparr>) = session_of s"
  "session_of (s\<lparr>now := m\<rparr>) = session_of s"
  by (simp_all add: session_defs handler_defs)

lemma session_of_startPointSelection:
  assumes "\<not> navigated s" "\<not> isAnalyzing s"
  shows "session_of (startPointSelection s) =
     (session_of s)\<lparr>status := Selecting, selection := [], areaAcres := None\<rparr>"
  using assms by (simp add: session_defs handler_defs)

lemma refines_handle:
  assumes "session_inv s" "in_order e s" "enabled e s" "handle e s = Inr s'"
  shows "session_of s' = session_of s \<or> spec_step (session_of s) (session_of s')"
proof (cases e)
  case Tick
  with assms(3) obtain t q where timers: "timers s = t # q"
    by (cases "timers s") auto
  with assms(4) Tick have s': "s' = fire (callback t) (s\<lparr>timers := q, now := max (now s) (due t)\<rparr>)"
    by (simp add: tick_def)
  show ?thesis
    unfolding s' using assms(1) timers by (rule refines_fire)
next
  case PressStartSelection
  with assms(2) have box: "\<not> isSelectingPoints s" "boundingBox s = None"
    by (simp_all add: in_order_def)
  note status = selecting_status [OF assms(1) box(2)]
  from status box assms(3) PressStartSelection have "status (session_of s) = AwaitingStart"
    by (simp add: session_defs)
  then have "spec_step (session_of s)
      ((session_of s)\<lparr>status := Selecting, selection := [], areaAcres := None\<rparr>)"
    by (rule spec_step.beginSelection)
  moreover from assms(4) PressStartSelection have "s' = startPointSelection s"
    by simp
  ultimately show ?thesis
    by (simp add: session_of_startPointSelection status)
next
  case (PressMap lat lon)
  with assms(4) have "handleMapPress lat lon s = Inr s'" by simp
  with assms(1) show ?thesis by (rule refines_handleMapPress)
next
  case (Elapse d)
  with assms(4) have "s' = s\<lparr>now := now s + d\<rparr>" by simp
  then show ?thesis by simp
next
  case (PermissionResolved st)
  with assms(4) have "s' = permission_resolved st (s\<lparr>permissionRequests := permissionRequests s - 1\<rparr>)"
    by simp
  then show ?thesis by simp
next
  case PermissionRejected
  with assms(4) have "s' = location_failed (s\<lparr>permissionRequests := permissionRequests s - 1\<rparr>)"
    by simp
  then show ?thesis by simp
next
  case (PositionResolved c)
  with assms(4) have "s' = position_resolved c (s\<lparr>positionRequests := positionRequests s - 1\<rparr>)"
    by simp
  then show ?thesis by simp
next
  case PositionRejected
  with assms(4) have "s' = location_failed (s\<lparr>positionRequests := positionRequests s - 1\<rparr>)"
    by simp
  then show ?thesis by simp
qed

section \<open>The call of the next screen\<close>

definition nav_count :: "app \<Rightarrow> nat" where
  "nav_count s = count_list (effects s) (Navigation_replace ''ChoiceScreen'')"

lemma nav_count_0: "\<not> navigated s \<Longrightarrow> nav_count s = 0"
  by (simp add: nav_count_def navigated_def)

lemma nav_count_fire: "nav_count (fire c s) = nav_count s + (if c = Navigate then 1 else 0)"
  by (cases c) (simp_all add: nav_count_def handler_defs)

lemma nav_count_handleMapPress: "handleMapPress lat lon s = Inr s' \<Longrightarrow> nav_count s' = nav_count s"
  by (cases s rule: handleMapPress_cases)
    (auto simp: handleMapPress_ignored handleMapPress_add handleMapPress_fourth pulse_effect_eq
      nav_count_def schedule_def)

lemma nav_count_handle:
  assumes "session_inv s" "handle e s = Inr s'"
  shows "nav_count s' \<le> max 1 (nav_count s)"
proof (cases e)
  case Tick
  show ?thesis
  proof (cases "timers s")
    case Nil
    with assms(2) Tick show ?thesis by (simp add: tick_def)
  next
    case (Cons t q)
    let ?s = "s\<lparr>timers := q, now := max (now s) (due t)\<rparr>"
    from assms(2) Tick Cons have s': "s' = fire (callback t) ?s"
      by (simp add: tick_def)
    have "nav_count (fire (callback t) ?s) = nav_count ?s + (if callback t = Navigate then 1 else 0)"
      by (rule nav_count_fire)
    then have count: "nav_count s' = nav_count s + (if callback t = Navigate then 1 else 0)"
      unfolding s' by (simp add: nav_count_def)
    show ?thesis
    proof (cases "callback t = Navigate")
      case True
      with Cons have "analysis_timers s = Navigate # analysis_timers ?s"
        using analysis_timers_Cons [of s t q] by (simp add: analysis_timers_def)
      with assms(1) have "\<not> navigated s"
        using plan_inv_Navigate by (simp add: session_inv_def)
      then have "nav_count s = 0" by (rule nav_count_0)
      with True count show ?thesis by simp
    next
      case False
      with count show ?thesis by simp
    qed
  qed
next
  case (PressMap lat lon)
  with assms(2) show ?thesis by (simp add: nav_count_handleMapPress)
qed (use assms(2) in \<open>auto simp: nav_count_def handler_defs split: if_splits\<close>)

section \<open>Disciplined runs\<close>

lemma in_order_other [simp]: "e \<noteq> PressStartSelection \<Longrightarrow> in_order e s"
  by (simp add: in_order_def)

lemma disciplined_other:
  "disciplined s \<Longrightarrow> step e s = Some s' \<Longrightarrow> e \<noteq> PressStartSelection \<Longrightarrow> disciplined s'"
  by (rule disciplined.disc_step [of s e]) simp_all

lemma disciplined_drain: "disciplined s \<Longrightarrow> disciplined (drain s)"
proof (induction s rule: drain.induct)
  case (1 s)
  show ?case
  proof (cases "step Tick s")
    case None
    with "1.prems" show ?thesis by (subst drain.simps) simp
  next
    case (Some s')
    with "1.prems" have "disciplined s'"
      by (rule disciplined_other) simp
    with "1.IH" Some show ?thesis by (subst drain.simps) simp
  qed
qed

lemma disciplined_play:
  assumes "disciplined s" "PressStartSelection \<notin> set es" "play es s = Some s'"
  shows "disciplined s'"
  using assms
proof (induction es arbitrary: s)
  case Nil
  then show ?case by (auto simp: disciplined_drain)
next
  case (Cons e es)
  then obtain s1 where e: "step e (drain s) = Some s1" and rest: "play es s1 = Some s'"
    by (auto split: option.splits)
  from Cons.prems(1) have "disciplined (drain s)" by (rule disciplined_drain)
  moreover from Cons.prems(2) have "e \<noteq> PressStartSelection" by auto
  ultimately have "disciplined s1"
    using e by (simp add: disciplined_other)
  with Cons.IH Cons.prems(2) rest show ?case by simp
qed

lemma disciplined_run:
  assumes "disciplined s" "run_in_order es s" "run es s = Some s'"
  shows "disciplined s'"
  using assms
proof (induction es arbitrary: s)
  case Nil
  then show ?case by simp
next
  case (Cons e es)
  then obtain s1 where e: "step e s = Some s1" "in_order e s"
    and rest: "run es s1 = Some s'" "run_in_order es s1"
    by (auto split: option.splits)
  from Cons.prems(1) e(2,1) have "disciplined s1"
    by (rule disciplined.disc_step)
  with Cons.IH rest show ?case by simp
qed

section \<open>Example states\<close>

text \<open>The screen at rest with the selection message shown, in a window 800 high, for
  a user near Pune.\<close>

definition awaiting_start :: app where
  "awaiting_start =
     the (play [PermissionResolved Granted,
                PositionResolved \<lparr>latitude = 18.52, longitude = 73.86\<rparr>] (mount 800))"

lemma awaiting_start:
  "play [PermissionResolved Granted, PositionResolved \<lparr>latitude = 18.52, longitude = 73.86\<rparr>]
     (mount 800) = Some awaiting_start"
  "step PressStartSelection awaiting_start = Some (startPointSelection awaiting_start)"
  "in_order PressStartSelection awaiting_start"
  "status_of awaiting_start = AwaitingStart"
  "\<not> showPreloader awaiting_start"
  by (simp_all add: awaiting_start_def mount_def initial_def drain.simps step_def handler_defs
      preloader_constants location_constants setTimeout_def in_order_def status_of_def
      navigated_def)

lemma disciplined_awaiting_start: "disciplined awaiting_start"
  using disciplined_play [OF disciplined.disc_mount _ awaiting_start(1)] by simp

text \<open>From there the user presses "Start Selection", the message fades, four corners
  of a plot are tapped, and the timers of the start of the analysis and of its first
  two steps run: \<open>in_analysis\<close> is the screen showing the second step, with three steps
  to come. Running its timers to the end gives the screen that has called the next
  one.\<close>

definition to_second_step :: "event list" where
  "to_second_step =
     [PressStartSelection, Tick, PressMap 19 73, PressMap 19 73.001, PressMap 19.001 73.001,
      PressMap 19.001 73, Tick, Tick, Tick]"

definition in_analysis :: app where
  "in_analysis = the (run to_second_step awaiting_start)"

lemmas example_defs = awaiting_start_def mount_def initial_def drain.simps step_def handler_defs
  preloader_constants location_constants selection_constants analysis_constants setTimeout_def
  handleMapPress_def createBoundingBox_def newPoint_def pulse_effect_eq tick_def

lemma in_analysis:
  "run to_second_step awaiting_start = Some in_analysis"
  "run_in_order to_second_step awaiting_start"
  "isAnalyzing in_analysis" "currentAnalysisStep in_analysis = 1"
  "analysis_timers in_analysis = [AnalysisStep 2, AnalysisStep 3, AnalysisStep 4]"
  "nav_count in_analysis = 0"
  by (simp_all add: in_analysis_def to_second_step_def example_defs in_order_def
      analysis_timers_def pending_def nav_count_def)

lemma after_analysis:
  "nav_count (drain in_analysis) = 1" "status_of (drain in_analysis) = Complete"
  "analysis_timers (drain in_analysis) = []"
  by (simp_all add: in_analysis_def to_second_step_def example_defs nav_count_def status_of_def
      navigated_def analysis_timers_def pending_def)

lemma disciplined_in_analysis: "disciplined in_analysis"
  using disciplined_awaiting_start in_analysis(2,1) by (rule disciplined_run)

section \<open>Properties\<close>

text \<open>C13. The screen implements the state machine of the specification as long as
  "Start Selection" is pressed only while no selection has begun: every step of the
  screen from such a state (a timer, an answer of the location service, a press, a tap,
  the passing of time) either is a transition of the specified machine between the
  session states before and after, or leaves the session state as it is.\<close>

theorem refines_spec:
  assumes "disciplined s" "in_order e s" "step e s = Some s'"
  shows "session_of s' = session_of s \<or> spec_step (session_of s) (session_of s')"
proof -
  from assms(1) have "session_inv s" by (rule disciplined_session_inv)
  moreover from assms(3) have "enabled e s" "handle e s = Inr s'"
    by (simp_all add: step_Some_iff)
  ultimately show ?thesis
    using assms(2) by (simp add: refines_handle)
qed

theorem refines_spec_witness:
  "session_of (startPointSelection awaiting_start) = session_of awaiting_start \<or>
   spec_step (session_of awaiting_start) (session_of (startPointSelection awaiting_start))"
  using refines_spec [OF disciplined_awaiting_start awaiting_start(3) awaiting_start(2)] by simp

text \<open>C9. A run of the screen in which "Start Selection" is pressed only while no
  selection has begun is, seen through the session state, a run of the specified
  machine: the session state after the run is reached from the one before by
  transitions of the specification.\<close>

theorem run_refines_spec:
  assumes "disciplined s" "run_in_order es s" "run es s = Some s'"
  shows "spec_step\<^sup>*\<^sup>* (session_of s) (session_of s')"
  using assms
proof (induction es arbitrary: s)
  case Nil
  then show ?case by simp
next
  case (Cons e es)
  then obtain s1 where e: "step e s = Some s1" "in_order e s"
    and rest: "run es s1 = Some s'" "run_in_order es s1"
    by (auto split: option.splits)
  from Cons.prems(1) e(2,1) have "disciplined s1"
    by (rule disciplined.disc_step)
  with Cons.IH rest have "spec_step\<^sup>*\<^sup>* (session_of s1) (session_of s')"
    by simp
  moreover have "spec_step\<^sup>*\<^sup>* (session_of s) (session_of s1)"
    using refines_handle [of s e s1] disciplined_session_inv [OF Cons.prems(1)] e
    by (auto simp: step_Some_iff)
  ultimately show ?case by simp
qed

theorem run_refines_spec_witness:
  "\<exists>s'. run [PressStartSelection, PressMap 19 73] awaiting_start = Some s' \<and>
     spec_step\<^sup>*\<^sup>* (session_of awaiting_start) (session_of s')"
proof -
  have run: "run [PressStartSelection, PressMap 19 73] awaiting_start
      = Some (pulse_effect ((startPointSelection awaiting_start)
          \<lparr>selectedPoints := [newPoint 19 73 (startPointSelection awaiting_start)]\<rparr>))"
    by (simp add: awaiting_start(2))
      (simp add: step_def handleMapPress_def Let_def handler_defs awaiting_start(5))
  have "run_in_order [PressStartSelection, PressMap 19 73] awaiting_start"
    by (simp add: awaiting_start split: option.splits)
  from run_refines_spec [OF disciplined_awaiting_start this run] run show ?thesis by blast
qed

text \<open>C20. In a state the screen reaches with "Start Selection" pressed only while no
  selection has begun, the timers of the analysis are the ones the status calls for:
  none before the boundary, the start of the analysis while the boundary is ready, the
  remaining steps in their order while the analysis runs, then the navigation, and
  none after it; an analysis runs only on a boundary, and the last step is shown when
  the next screen is called.\<close>

theorem disciplined_plan_inv: "disciplined s \<Longrightarrow> plan_inv s"
  using disciplined_session_inv [of s] by (simp add: session_inv_def)

theorem disciplined_plan_inv_witness: "plan_inv in_analysis"
  using disciplined_plan_inv [OF disciplined_in_analysis] by simp

text \<open>C19. In a run in which "Start Selection" is pressed only while no selection has
  begun, \<^verbatim>\<open>navigation.replace\<close> is called at most once.\<close>

theorem disciplined_navigates_once: "disciplined s \<Longrightarrow> nav_count s \<le> 1"
proof (induction rule: disciplined.induct)
  case (disc_mount h)
  show ?case by (simp add: nav_count_def mount_def initial_def handler_defs)
next
  case (disc_step s e s')
  from disc_step.hyps(1) have "session_inv s" by (rule disciplined_session_inv)
  moreover from disc_step.hyps(3) have "handle e s = Inr s'" by (simp add: step_Some_iff)
  ultimately have "nav_count s' \<le> max 1 (nav_count s)" by (rule nav_count_handle)
  with disc_step.IH show ?case by simp
qed

theorem disciplined_navigates_once_witness: "nav_count (drain in_analysis) \<le> 1"
  using disciplined_navigates_once [OF disciplined_drain [OF disciplined_in_analysis]] by simp

end
