(* ===== verification/Splash.thy ===== *)
theory Splash
  imports Invariants
begin

text \<open>
  The preloader in the reachable states of the screen. While the preloader is shown,
  exactly one of its timers is pending, and which one it is follows the effect of lines
  46-84: the callback of the fade-in of the word at the index, then the timer of the
  next word or, after the last word, the timer of the slide-up and the callback of the
  slide. The index stays inside the list of words, so \<^verbatim>\<open>words[index]\<close> is a word in every
  render; when the preloader is gone none of its timers is left.

  \<open>splash_timers\<close> are the pending callbacks of the preloader in the order of the queue,
  \<open>splash_inv\<close> is the invariant, proved for every callback and every event as the
  invariants of theory \<open>Invariants\<close> are.
\<close>

section \<open>The timers of the preloader\<close>

fun is_splash :: "callback \<Rightarrow> bool" where
  "is_splash (PreloaderFadeInDone i) = True"
| "is_splash PreloaderNextWord = True"
| "is_splash PreloaderSlideUp = True"
| "is_splash PreloaderSlideDone = True"
| "is_splash c = False"

definition splash_timers :: "app \<Rightarrow> callback list" where
  "splash_timers s = pending (filter (\<lambda>t. is_splash (callback t)) (timers s))"

definition splash_ok :: "bool \<times> nat \<times> callback list \<Rightarrow> bool" where
  "splash_ok v =
     (case v of (shown, i, plan) \<Rightarrow>
        i < length words \<and>
        (if shown
         then plan = [PreloaderFadeInDone i] \<or>
           plan = [PreloaderNextWord] \<and> i < length words - 1 \<or>
           plan = [PreloaderSlideUp] \<and> i = length words - 1 \<or>
           plan = [PreloaderSlideDone] \<and> i = length words - 1
         else plan = []))"

definition splash_view :: "app \<Rightarrow> bool \<times> nat \<times> callback list" where
  "splash_view s = (showPreloader s, index s, splash_timers s)"

definition splash_inv :: "app \<Rightarrow> bool" where
  "splash_inv s \<longleftrightarrow> splash_ok (splash_view s)"

lemmas splash_defs = splash_inv_def splash_view_def splash_ok_def

section \<open>Frames\<close>

lemma splash_timers_Cons:
  "timers s = t # q \<Longrightarrow>
   splash_timers s =
     (if is_splash (callback t) then [callback t] else []) @ splash_timers (s\<lparr>timers := q\<rparr>)"
  by (simp add: splash_timers_def pending_def)

lemma splash_timers_now [simp]: "splash_timers (s\<lparr>now := n\<rparr>) = splash_timers s"
  by (simp add: splash_timers_def)

lemma splash_timers_schedule_first:
  assumes "is_splash cb" "queue_inv s" "splash_timers s = []"
  shows "splash_timers (schedule cb d s) = [cb]"
  using assms
  by (simp add: splash_timers_def schedule_def filter_setTimeout_same queue_inv_def pending_def)

text \<open>The callbacks and handlers outside the preloader leave the preloader as it is.\<close>

lemma splash_view_fire: "\<not> is_splash c \<Longrightarrow> splash_view (fire c s) = splash_view s"
  by (cases c) (simp_all add: splash_view_def handler_defs splash_timers_def
      filter_setTimeout_other)

lemma splash_view_location [simp]:
  "splash_view (permission_resolved st s) = splash_view s"
  "splash_view (position_resolved c s) = splash_view s"
  "splash_view (location_failed s) = splash_view s"
  "splash_view (startPointSelection s) = splash_view s"
  "splash_view (s\<lparr>permissionRequests := n\<rparr>) = splash_view s"
  "splash_view (s\<lparr>positionRequests := n\<rparr>) = splash_view s"
  "splash_view (s\<lparr>now := m\<rparr>) = splash_view s"
  by (simp_all add: splash_view_def handler_defs splash_timers_def filter_setTimeout_other)

lemma splash_view_handleMapPress:
  assumes "handleMapPress lat lon s = Inr s'"
  shows "splash_view s' = splash_view s"
  using assms
  by (cases s rule: handleMapPress_cases)
    (auto simp: handleMapPress_ignored handleMapPress_add handleMapPress_fourth pulse_effect_eq
      splash_view_def splash_timers_def schedule_def filter_setTimeout_other)

section \<open>The timers of the preloader run in their order\<close>

lemma splash_inv_mount: "splash_inv (mount h)"
  by (simp add: splash_defs mount_def initial_def handler_defs splash_timers_def schedule_def
      setTimeout_def pending_def)

lemma splash_inv_first:
  assumes "splash_inv s" "splash_timers s = c # rest"
  shows "showPreloader s \<and> rest = [] \<and> index s < length words \<and>
     (case c of
        PreloaderFadeInDone i \<Rightarrow> i = index s
      | PreloaderNextWord \<Rightarrow> index s < length words - 1
      | _ \<Rightarrow> index s = length words - 1)"
  using assms by (auto simp: splash_defs split: if_splits)

lemma splash_inv_shown:
  assumes "showPreloader s" "index s < length words" "queue_inv s" "splash_timers s = []"
    and "is_splash cb"
    and "case cb of
        PreloaderFadeInDone i \<Rightarrow> i = index s
      | PreloaderNextWord \<Rightarrow> index s < length words - 1
      | _ \<Rightarrow> index s = length words - 1"
  shows "splash_inv (schedule cb d s)"
proof -
  from assms(5,3,4) have "splash_timers (schedule cb d s) = [cb]"
    by (rule splash_timers_schedule_first)
  with assms(1,2,5,6) show ?thesis
    by (cases cb) (simp_all add: splash_defs schedule_def)
qed

lemma splash_inv_tick:
  assumes "splash_inv s" "queue_inv s" "timers s = t # q"
  shows "splash_inv (fire (callback t) (s\<lparr>timers := q, now := max (now s) (due t)\<rparr>))"
proof -
  let ?s = "s\<lparr>timers := q, now := max (now s) (due t)\<rparr>"
  have queue: "queue_inv ?s"
    using assms(2,3) by (simp add: queue_inv_def)
  have timers: "splash_timers s =
      (if is_splash (callback t) then [callback t] else []) @ splash_timers ?s"
    using splash_timers_Cons [OF assms(3)] by (simp add: splash_timers_def)
  show ?thesis
  proof (cases "is_splash (callback t)")
    case False
    with timers have "splash_view (fire (callback t) ?s) = splash_view s"
      by (simp add: splash_view_fire) (simp add: splash_view_def)
    with assms(1) show ?thesis by (simp add: splash_inv_def)
  next
    case True
    with timers have "splash_timers s = callback t # splash_timers ?s" by simp
    from splash_inv_first [OF assms(1) this]
    have shown: "showPreloader ?s" "index ?s < length words" and empty: "splash_timers ?s = []"
      and c: "case callback t of
          PreloaderFadeInDone i \<Rightarrow> i = index ?s
        | PreloaderNextWord \<Rightarrow> index ?s < length words - 1
        | _ \<Rightarrow> index ?s = length words - 1"
      by (simp_all split: callback.splits)
    from True show ?thesis
    proof (cases "callback t")
      case (PreloaderFadeInDone i)
      with c shown queue empty show ?thesis
        by (auto simp: preloader_fade_in_done_def intro!: splash_inv_shown)
    next
      case PreloaderNextWord
      let ?n = "?s\<lparr>index := index ?s + 1, opacityAnim := 1, scaleAnim := 1\<rparr>"
      from c shown queue empty PreloaderNextWord
      have "splash_inv (schedule (PreloaderFadeInDone (index ?n))
          (50 + FADE_IN_DURATION_PRELOADER) ?n)"
        by (intro splash_inv_shown) (simp_all add: queue_inv_def splash_timers_def)
      with shown show ?thesis
        unfolding PreloaderNextWord by (simp add: preloader_next_word_def preloader_effect_def)
    next
      case PreloaderSlideUp
      let ?n = "?s\<lparr>slideUpAnim := - height ?s\<rparr>"
      from c shown queue empty PreloaderSlideUp
      have "splash_inv (schedule PreloaderSlideDone
          (SLIDE_UP_DELAY_PRELOADER + SLIDE_UP_DURATION_PRELOADER) ?n)"
        by (intro splash_inv_shown) (simp_all add: queue_inv_def splash_timers_def)
      then show ?thesis
        unfolding PreloaderSlideUp by (simp add: preloader_slide_up_def)
    next
      case PreloaderSlideDone
      with shown empty show ?thesis
        by (simp add: splash_defs handler_defs splash_timers_def)
    qed simp_all
  qed
qed

lemma splash_inv_handle:
  assumes "splash_inv s" "queue_inv s" and "handle e s = Inr s'"
  shows "splash_inv s'"
proof (cases e)
  case Tick
  with assms show ?thesis
    by (cases "timers s") (auto simp: tick_def splash_inv_tick)
next
  case (PressMap lat lon)
  with assms(3) have "splash_view s' = splash_view s"
    by (simp add: splash_view_handleMapPress)
  with assms(1) show ?thesis by (simp add: splash_inv_def)
qed (use assms(1,3) in \<open>auto simp: splash_inv_def\<close>)

lemma reachable_splash_inv: "reachable s \<Longrightarrow> splash_inv s"
proof (induction rule: reachable.induct)
  case (reach_mount h)
  show ?case by (rule splash_inv_mount)
next
  case (reach_step s e s')
  from reach_step.hyps(1) have "queue_inv s"
    using reachable_screen_inv by (simp add: screen_inv_def)
  moreover from reach_step.hyps(2) have "handle e s = Inr s'"
    by (simp add: step_Some_iff)
  ultimately show ?case
    using reach_step.IH by (auto intro: splash_inv_handle)
qed

section \<open>Properties of the preloader\<close>

text \<open>C37. In every state the screen can reach the index of the preloader is inside the list
  of words: \<^verbatim>\<open>words[index]\<close> is a word in every render.\<close>

theorem preloader_word_defined: "reachable s \<Longrightarrow> \<exists>w. preloader_word s = Some w"
  using reachable_splash_inv [of s] by (simp add: splash_defs preloader_word_def)

theorem preloader_word_defined_witness: "\<exists>w. preloader_word (mount 800) = Some w"
  using preloader_word_defined [OF reachable.reach_mount, of 800] by simp

text \<open>C35. While the preloader is shown exactly one of its timers is pending, so the preloader is
  never left standing: the event loop has a timer to run. When the preloader is gone
  no timer of it is left.\<close>

theorem preloader_never_stuck:
  assumes "reachable s"
  shows "if showPreloader s then \<exists>c. splash_timers s = [c] else splash_timers s = []"
  using reachable_splash_inv [OF assms] by (auto simp: splash_defs)

theorem preloader_never_stuck_witness: "\<exists>c. splash_timers (mount 800) = [c]"
proof -
  have "showPreloader (mount 800)"
    by (simp add: mount_def initial_def handler_defs schedule_def)
  with preloader_never_stuck [OF reachable.reach_mount, of 800] show ?thesis
    by simp
qed

end
