(* ===== verification/AppConfig.thy ===== *)
theory AppConfig
  imports JSValue "HOL-Library.Sublist"
begin

text \<open>
  The Expo configuration function, \<^verbatim>\<open>src/MyApp/app.config.js\<close>: it receives the
  static configuration and returns it with the Google Maps API key of the environment
  variable \<^verbatim>\<open>EXPO_GOOGLE_MAPS_API_KEY\<close> put into \<^verbatim>\<open>ios.config.googleMapsApiKey\<close> and
  \<^verbatim>\<open>android.config.googleMaps.apiKey\<close>.

  \<open>env_key\<close> is the constant \<^verbatim>\<open>key\<close> (line 6), \<open>ios_section\<close> and \<open>android_section\<close> are
  the two nested literals (lines 10-16 and 17-26), \<open>app_config\<close> is the exported
  function. Its first parameter is the value of the environment variable (\<open>None\<close> when
  it is not set), its second the \<^verbatim>\<open>config\<close> property of the argument of the JavaScript
  function.

  The lemmas show, for each section, that it is a fixed point and what it keeps
  (\<open>ios_section_frame\<close>, \<open>android_section_frame\<close>). The theorems at the end are the
  contract of the function: when it raises, where the key is found, the shape of the
  result, idempotence, and that nothing else changes.
\<close>

section \<open>The configuration function\<close>

definition ios_section :: "string \<Rightarrow> jsval \<Rightarrow> jsval" where
  "ios_section key ios =
     object (spread (or_empty ios) @
       [(''config'',
         object (spread (or_empty (opt_lookup ios ''config'')) @
           spread (if key \<noteq> [] then object [(''googleMapsApiKey'', Str key)]
                   else object [])))])"

definition android_section :: "string \<Rightarrow> jsval \<Rightarrow> jsval" where
  "android_section key android =
     object (spread (or_empty android) @
       [(''config'',
         object (spread (or_empty (opt_lookup android ''config'')) @
           [(''googleMaps'',
             object (spread (or_empty (opt_lookup (opt_lookup android ''config'') ''googleMaps'')) @
               spread (if key \<noteq> [] then object [(''apiKey'', Str key)] else object [])))]))])"

definition env_key :: "string option \<Rightarrow> string" where
  "env_key env = (case env of None \<Rightarrow> [] | Some k \<Rightarrow> if k \<noteq> [] then k else [])"

definition app_config :: "string option \<Rightarrow> jsval \<Rightarrow> js_error + jsval" where
  "app_config env config =
     (let key = env_key env
      in case member config ''ios'' of
        Inl err \<Rightarrow> Inl err
      | Inr ios \<Rightarrow>
          Inr (object (spread config @
            [(''ios'', ios_section key ios),
             (''android'', android_section key (lookup config ''android''))])))"

text \<open>The values on the way to the two keys, and the two key paths.\<close>

definition key_paths :: "string list list" where
  "key_paths = [[''ios'', ''config'', ''googleMapsApiKey''],
                [''android'', ''config'', ''googleMaps'', ''apiKey'']]"

definition sections :: "string list list" where
  "sections = [[], [''ios''], [''ios'', ''config''],
               [''android''], [''android'', ''config''], [''android'', ''config'', ''googleMaps'']]"

section \<open>The sections of the result\<close>

lemma spread_key [simp]:
  "spread (if key \<noteq> [] then object [(n, Str key)] else object []) =
     (if key \<noteq> [] then [(n, Str key)] else [])"
  by (simp add: spread_object)

text \<open>A literal that spreads an object and then repeats the object's last property, or
  adds nothing, builds the object again.\<close>

lemma literal_fixed:
  assumes "qs = [] \<or> (\<exists>k v. qs = [(k, v)])"
  shows "object (spread (or_empty (object (ps @ qs))) @ qs) = object (ps @ qs)"
  using assms by auto

lemma ios_section_fixed [simp]: "ios_section key (ios_section key v) = ios_section key v"
  by (simp add: ios_section_def literal_fixed)

lemma android_section_fixed [simp]:
  "android_section key (android_section key v) = android_section key v"
  by (simp add: android_section_def literal_fixed)

lemma section_simps [simp]:
  "is_obj (ios_section key v)" "is_obj (android_section key v)"
  "\<not> nullish (ios_section key v)" "\<not> nullish (android_section key v)"
  by (simp_all add: ios_section_def android_section_def)

lemma wf_ios_section: "wf v \<Longrightarrow> wf (ios_section key v)"
  by (simp add: ios_section_def wf_intros)

lemma wf_android_section: "wf v \<Longrightarrow> wf (android_section key v)"
  by (simp add: android_section_def wf_intros)

lemma env_key_simps [simp]: "env_key None = []" "env_key (Some k) = k"
  by (simp_all add: env_key_def)

lemma app_config_Inr:
  "\<not> nullish config \<Longrightarrow>
   app_config env config =
     Inr (object (spread config @
       [(''ios'', ios_section (env_key env) (lookup config ''ios'')),
        (''android'', android_section (env_key env) (lookup config ''android''))]))"
  by (simp add: app_config_def member_def Let_def)

lemma app_config_Inl: "nullish config \<Longrightarrow> app_config env config = Inl TypeError"
  by (simp add: app_config_def member_def)

lemma app_config_InrD:
  assumes "app_config env config = Inr r"
  shows "\<not> nullish config"
    and "r = object (spread config @
       [(''ios'', ios_section (env_key env) (lookup config ''ios'')),
        (''android'', android_section (env_key env) (lookup config ''android''))])"
  using assms app_config_Inr [of config env] app_config_Inl [of config env]
  by (cases "nullish config"; simp)+

section \<open>What the sections keep\<close>

text \<open>A read chain into a section finds what it found in the section of the static
  configuration, unless it ends on the way to the key or, with a key, at or below it.\<close>

lemma ios_section_frame:
  assumes "wf v" "\<not> is_str v" "\<not> is_str (lookup v ''config'')"
    and "\<not> strict_prefix p [''config'', ''googleMapsApiKey'']"
    and "key \<noteq> [] \<longrightarrow> \<not> prefix [''config'', ''googleMapsApiKey''] p"
  shows "path (ios_section key v) p = path v p"
proof (cases p)
  case Nil
  with assms(4) show ?thesis by simp
next
  case p: (Cons k p1)
  show ?thesis
  proof (cases "k = ''config''")
    case False
    with assms(1,2) show ?thesis
      by (simp add: p ios_section_def lookup_spread del: lookup_object)
  next
    case True
    with assms(4) p obtain k2 p2 where p1: "p1 = k2 # p2"
      by (cases p1) auto
    from assms(5) p True p1 have "key \<noteq> [] \<longrightarrow> k2 \<noteq> ''googleMapsApiKey''"
      by auto
    with assms(1,3) show ?thesis
      by (simp add: p p1 True ios_section_def lookup_spread wf_lookup
          del: lookup_object)
  qed
qed

lemma android_section_frame:
  assumes "wf v" "\<not> is_str v" "\<not> is_str (lookup v ''config'')"
    and "\<not> is_str (lookup (lookup v ''config'') ''googleMaps'')"
    and "\<not> strict_prefix p [''config'', ''googleMaps'', ''apiKey'']"
    and "key \<noteq> [] \<longrightarrow> \<not> prefix [''config'', ''googleMaps'', ''apiKey''] p"
  shows "path (android_section key v) p = path v p"
proof (cases p)
  case Nil
  with assms(5) show ?thesis by simp
next
  case p: (Cons k p1)
  show ?thesis
  proof (cases "k = ''config''")
    case False
    with assms(1,2) show ?thesis
      by (simp add: p android_section_def lookup_spread del: lookup_object)
  next
    case config: True
    with assms(5) p obtain k2 p2 where p1: "p1 = k2 # p2"
      by (cases p1) auto
    show ?thesis
    proof (cases "k2 = ''googleMaps''")
      case False
      with assms(1,3) show ?thesis
        by (simp add: p p1 config android_section_def lookup_spread wf_lookup
            del: lookup_object)
    next
      case True
      with assms(5) p config p1 obtain k3 p3 where p2: "p2 = k3 # p3"
        by (cases p2) auto
      from assms(6) p config p1 True p2 have "key \<noteq> [] \<longrightarrow> k3 \<noteq> ''apiKey''"
        by auto
      with assms(1,4) show ?thesis
        by (simp add: p p1 p2 config True android_section_def lookup_spread
            wf_lookup del: lookup_object)
    qed
  qed
qed

section \<open>Properties of the configuration function\<close>

text \<open>C38. The function raises exactly when the static configuration is \<^verbatim>\<open>undefined\<close> or
  \<^verbatim>\<open>null\<close> (the read \<^verbatim>\<open>config.ios\<close> is a \<^verbatim>\<open>TypeError\<close> then); for every other value,
  an object or not, it returns a configuration.\<close>

theorem app_config_raises:
  "if nullish config then app_config env config = Inl TypeError
   else \<exists>r. app_config env config = Inr r"
  by (simp add: app_config_Inr app_config_Inl)

text \<open>C10. With a key in the environment the returned configuration holds the key at
  \<^verbatim>\<open>ios.config.googleMapsApiKey\<close> and at \<^verbatim>\<open>android.config.googleMaps.apiKey\<close>,
  whatever the static configuration held there, and also when it had no \<^verbatim>\<open>ios\<close> or
  \<^verbatim>\<open>android\<close> section at all.\<close>

theorem app_config_key:
  assumes "\<not> nullish config" "key \<noteq> []"
  shows "\<exists>r. app_config (Some key) config = Inr r \<and>
     path r [''ios'', ''config'', ''googleMapsApiKey''] = Str key \<and>
     path r [''android'', ''config'', ''googleMaps'', ''apiKey''] = Str key"
  using assms by (simp add: app_config_Inr ios_section_def android_section_def spread_object)

theorem app_config_key_witness:
  "\<exists>r. app_config (Some ''AIza-example'') (Obj [(''name'', Str ''MyApp'')]) = Inr r \<and>
     path r [''ios'', ''config'', ''googleMapsApiKey''] = Str ''AIza-example'' \<and>
     path r [''android'', ''config'', ''googleMaps'', ''apiKey''] = Str ''AIza-example''"
  using app_config_key [of "Obj [(''name'', Str ''MyApp'')]" "''AIza-example''"] by simp

text \<open>C40. The result of the function is a fixed point of it: applied to its own
  result, with the same environment, it returns the result unchanged. Evaluating the
  configuration more than once adds nothing and reorders nothing.\<close>

theorem app_config_idempotent:
  assumes "app_config env config = Inr r"
  shows "app_config env r = Inr r"
  unfolding app_config_InrD(2) [OF assms]
  by (simp add: app_config_Inr object_twice2)

theorem app_config_idempotent_witness:
  "app_config (Some ''AIza-example'')
     (projr (app_config (Some ''AIza-example'') (Obj [(''name'', Str ''MyApp'')]))) =
   app_config (Some ''AIza-example'') (Obj [(''name'', Str ''MyApp'')])"
  using app_config_idempotent [of "Some ''AIza-example''" "Obj [(''name'', Str ''MyApp'')]"]
  by (simp add: app_config_Inr)

text \<open>C39. For a well-formed static configuration the result is well formed (no object
  in it has two properties of one name), and it is an object with the sections
  \<^verbatim>\<open>ios\<close>, \<^verbatim>\<open>ios.config\<close>, \<^verbatim>\<open>android\<close>, \<^verbatim>\<open>android.config\<close> and
  \<^verbatim>\<open>android.config.googleMaps\<close>, each of them an object, with or without a key.\<close>

theorem app_config_shape:
  assumes "wf config" "\<not> nullish config"
  shows "\<exists>r. app_config env config = Inr r \<and> wf r \<and> is_obj r \<and>
     is_obj (path r [''ios'']) \<and> is_obj (path r [''ios'', ''config'']) \<and>
     is_obj (path r [''android'']) \<and> is_obj (path r [''android'', ''config'']) \<and>
     is_obj (path r [''android'', ''config'', ''googleMaps''])"
  using assms
  by (simp add: app_config_Inr wf_intros wf_ios_section wf_android_section)
    (simp add: ios_section_def android_section_def)

theorem app_config_shape_witness:
  "\<exists>r. app_config None (Obj [(''ios'', Str ''x'')]) = Inr r \<and> wf r \<and> is_obj r \<and>
     is_obj (path r [''ios'']) \<and> is_obj (path r [''ios'', ''config'']) \<and>
     is_obj (path r [''android'']) \<and> is_obj (path r [''android'', ''config'']) \<and>
     is_obj (path r [''android'', ''config'', ''googleMaps''])"
  using app_config_shape [of "Obj [(''ios'', Str ''x'')]" None] by simp

text \<open>C18. The function changes nothing else: in a well-formed static configuration
  whose sections on the way to the two keys are not strings, every chain of reads finds
  in the result what it finds in the static configuration, unless the chain ends at one
  of these sections or, when a key is set, at or below one of the two keys. Without a
  key the keys the static configuration holds are kept as well.\<close>

theorem app_config_frame:
  assumes "wf config" "list_all (\<lambda>q. \<not> is_str (path config q)) sections"
    and "app_config env config = Inr r"
    and "list_all (\<lambda>kp. \<not> strict_prefix p kp \<and> (env_key env \<noteq> [] \<longrightarrow> \<not> prefix kp p)) key_paths"
  shows "path r p = path config p"
proof (cases p)
  case Nil
  with assms(4) show ?thesis
    by (simp add: key_paths_def)
next
  case p: (Cons k p1)
  note r = app_config_InrD(2) [OF assms(3)]
  consider "k = ''ios''" | "k = ''android''" | "k \<notin> {''ios'', ''android''}"
    by auto
  then show ?thesis
  proof cases
    case 1
    with assms(1,2,4) show ?thesis
      by (simp add: p r sections_def key_paths_def lookup_spread ios_section_frame wf_lookup
          del: lookup_object)
  next
    case 2
    with assms(1,2,4) show ?thesis
      by (simp add: p r sections_def key_paths_def lookup_spread android_section_frame
          wf_lookup del: lookup_object)
  next
    case 3
    with assms(1,2) show ?thesis
      by (simp add: p r sections_def lookup_spread del: lookup_object)
  qed
qed

theorem app_config_frame_witness:
  "\<exists>r. app_config (Some ''AIza-example'')
          (Obj [(''name'', Str ''MyApp''), (''ios'', Obj [(''bundleIdentifier'', Str ''in.kisaan'')])])
        = Inr r \<and>
       path r [''ios'', ''bundleIdentifier''] = Str ''in.kisaan''"
  using app_config_frame [of
      "Obj [(''name'', Str ''MyApp''), (''ios'', Obj [(''bundleIdentifier'', Str ''in.kisaan'')])]"
      "Some ''AIza-example''" _ "[''ios'', ''bundleIdentifier'']"]
  by (simp add: app_config_Inr sections_def key_paths_def)

end
