(* ===== verification/Spec2Isabelle.thy ===== *)
theory Spec2Isabelle
  imports Render Refinement Splash AppConfig
begin

text \<open>
  Verification of the Kisaan-Sahayak farm-boundary screen,
  \<^verbatim>\<open>src/MyApp/screens/FetchingLocationScreen.jsx\<close>, and of the configuration function
  \<^verbatim>\<open>src/MyApp/app.config.js\<close>. The screen is a React Native screen on which
  a farmer, after a splash of greetings and the search for the device's position, taps
  the four corners of a plot on a map; the screen computes the area of the plot in
  acres, shows a timed sequence of five analysis steps and hands over to the next
  screen.

  \<^bold>\<open>The program and its model.\<close> The file holds two React components and one pure
  function. All state of the components lives in hooks (\<^verbatim>\<open>useState\<close>, \<^verbatim>\<open>useRef\<close>);
  all behaviour in time comes from \<^verbatim>\<open>setTimeout\<close>, from the completion callbacks of
  animations and from two promises of the location API. The model is a shallow
  embedding: the hooks are the fields of a record, every handler, effect and callback is
  a function on the record, and the JavaScript event loop is an explicit queue of
  timers in the record.

  \<^item> \<open>KS_Prelude\<close>: the types \<open>number\<close> (a real) and \<open>millis\<close> (a natural number), the
    record \<open>coordinate\<close>, \<^verbatim>\<open>Math.round\<close>, \<^verbatim>\<open>Math.abs\<close>, truthiness, and generic lemmas on
    rounding, sums and lists.
  \<^item> \<open>AreaCalculator\<close>: \<^verbatim>\<open>calculateAreaInAcres\<close> (lines 199-220) with its loop as the
    recursive function \<open>area_loop\<close>; the shoelace sum \<open>shoelace\<close> as reference
    definition. Shown: the loop computes the shoelace sum; the result for four points
    is the documented formula; it is invariant under rotation and reversal of the
    points, a multiple of a thousandth, within half a thousandth of the unrounded
    value, not negative for latitudes of the globe, 0 for points on a line and for
    any other number of points than four, and 0 for four points exactly when the plot
    has less than half a thousandth of an acre.
  \<^item> \<open>EventLoop\<close>: the timer queue of the JavaScript runtime, \<open>setTimeout\<close> as insertion
    by due time, after the timers due at the same time.
  \<^item> \<open>AppState\<close>: the state. \<open>runtime\<close> is the environment (clock, timers, the log
    \<open>effects\<close> of calls to the outside, the counts of pending promises, the window
    height); \<open>preloader\<close> extends it by the hooks of \<^verbatim>\<open>Preloader\<close> (lines 23-26) and
    \<open>app\<close> by the hooks of \<^verbatim>\<open>FetchingLocationScreen\<close> (lines 118-137). \<open>callback\<close> has
    one constructor for every closure the code gives to \<^verbatim>\<open>setTimeout\<close> or to the
    \<^verbatim>\<open>start\<close> of an animation, \<open>effect\<close> one for every call to a collaborator.
  \<^item> \<open>Preloader\<close>: the effect of lines 46-84 and its callbacks.
  \<^item> \<open>Location\<close>: \<^verbatim>\<open>getUserLocation\<close> (lines 223-269), cut at its two \<^verbatim>\<open>await\<close>s, and
    \<^verbatim>\<open>animateToUserLocation\<close> (lines 272-291).
  \<^item> \<open>Selection\<close>: the pulse effect (lines 140-161), \<^verbatim>\<open>startPointSelection\<close> (lines
    294-315), \<^verbatim>\<open>handleMapPress\<close> (lines 318-339) and \<^verbatim>\<open>createBoundingBox\<close> (lines
    342-376), whose read of \<^verbatim>\<open>points[3]\<close> is an error value on a short list.
  \<^item> \<open>Analysis\<close>: the catalogue \<^verbatim>\<open>analysisSteps\<close> (lines 164-170) and
    \<^verbatim>\<open>startAnalysis\<close> (lines 379-415) with the callbacks of its timers.
  \<^item> \<open>Screen\<close>: \<^verbatim>\<open>handlePreloaderComplete\<close> (lines 194-197), the interpreter \<open>fire\<close> of
    the callbacks, the events of the environment with their guards \<open>enabled\<close> (taken
    from the conditions under which the render of lines 417-714 puts the map and the
    button on the screen), the handler \<open>handle\<close> of an event, \<open>step\<close>, \<open>run\<close> and the
    reachable states. Shown: no handler raises; what a tap does in each of its three
    cases; what "Start Selection" resets; that no event cancels a timer.
  \<^item> \<open>Invariants\<close>: the invariants \<open>points_inv\<close>, \<open>analysis_inv\<close> and \<open>queue_inv\<close>,
    proved for every callback and handler and, by rule induction, for every reachable
    state.
  \<^item> \<open>Splash\<close>: the invariant \<open>splash_inv\<close> of the preloader. Shown: while the
    preloader is on the screen exactly one of its timers is pending, none is left when
    it is gone, and the index is always one of the list of words.
  \<^item> \<open>Termination\<close>: a potential on the timer queue that every run of a timer makes
    smaller; the total function \<open>drain\<close> that runs the queue empty, the list
    \<open>drain_trace\<close> of the states on the way, and \<open>play\<close>, the run of a user who acts
    when the screen is at rest.
  \<^item> \<open>Session\<close>: whole runs evaluated on the model: the time line of the preloader
    and of the analysis, the outcomes of the search for the user, a complete session
    for arbitrary inputs and waiting times, and a run in which a second press of
    "Start Selection" leads to two calls of \<^verbatim>\<open>navigation.replace\<close>.
  \<^item> \<open>JSValue\<close>: JavaScript values, object literals, spread and property reads, with
    the algebra of literals; the data of the style sheet and of the configuration are
    values of this type.
  \<^item> \<open>StyleSheet\<close>: the style sheet (lines 716-1057), one definition for every group
    of styles the source marks, as a function of the window height. Shown: the names
    it defines, that no style and no property is written twice, the layers of the
    overlays.
  \<^item> \<open>Render\<close>: the two render functions (lines 86-113 and 417-714) as functions from
    the state to a tree of React elements, with \<^verbatim>\<open>INDIA_CENTER\<close> (lines 173-178).
    Shown: the render never raises in a reachable state; all text is inside \<^verbatim>\<open>Text\<close>
    elements unless the area is 0, and with the area 0 a bare number is in the tree;
    the keys of the markers are distinct; every style the tree names is defined in the
    sheet except \<^verbatim>\<open>areaLabelContainer\<close>, which the area overlay reads and the sheet
    does not hold.
  \<^item> \<open>Refinement\<close>: the state machine of the specification (\<open>status\<close>, \<open>session\<close>,
    \<open>spec_step\<close>), the abstraction \<open>session_of\<close> of a state of the screen, the phase
    invariant \<open>plan_inv\<close> of the analysis timers, and the runs \<open>disciplined\<close> in which
    "Start Selection" is pressed only while no selection has begun. Shown: every
    event of such a run is a transition of the specification or leaves the session
    unchanged; the timers of the analysis are always the rest of one plan; the screen
    navigates at most once.
  \<^item> \<open>AppConfig\<close>: the configuration function of \<^verbatim>\<open>src/MyApp/app.config.js\<close>. Shown:
    it raises exactly on a missing configuration; the key of the environment is
    found at both places of the result; the result is well formed and has all five
    sections; the function is idempotent and changes nothing but the sections on the
    way to the keys.
  \<^item> This theory: the properties that span the calculator and the screen.

  \<^bold>\<open>How the model reads the code.\<close>
  \<^item> Numbers are real numbers. The calculator's arithmetic is exact in the model;
    the rounding of IEEE doubles, NaN and the infinities are not modelled. That the
    result is the same for a rotated or reversed list of points and that it is a whole
    number of thousandths are statements about the exact arithmetic: in doubles the
    sums can differ in their last bits and \<^verbatim>\<open>result * 1000\<close> need not be an integer.
  \<^item> An \<^verbatim>\<open>Animated.Value\<close> is the number its last animation leads to. An animation
    is its final value, set at once, and, where the code passes a callback to
    \<^verbatim>\<open>start\<close>, a timer for the callback after the delay and the duration of the
    animation. Easing, looping pulses and an animation interrupted by another one
    are not modelled.
  \<^item> Time is a clock in milliseconds. A timer runs when it is first in the queue; the
    clock then moves to its due time unless it has passed it already, so timers run
    late or on time and never early, in the order of their due times.
  \<^item> One event is handled to its end before the next, and every handler sees the
    state the one before left (React has rendered in between). In React a handler
    holds the state of the last render: two taps that arrive before a render would
    both read the old \<^verbatim>\<open>selectedPoints\<close> (lines 319-328); the model has no such run.
  \<^item> The effect on \<^verbatim>\<open>selectedPoints\<close> (lines 140-161) is applied at the end of the
    handler that changes the points. In React it runs after the render, and its write
    to the ref causes no render: until the next render the newest marker is drawn with
    the scale 1 of the fallback \<^verbatim>\<open>pointPulseAnims[index] || 1\<close> (line 455), which is the
    value the model gives the animation.
  \<^item> The timer of the next word of the preloader (line 68) calls \<^verbatim>\<open>setIndex\<close> without
    a condition; React drops the update of a component that is unmounted. \<open>fire\<close> writes
    this as a guard on \<^verbatim>\<open>showPreloader\<close>.
  \<^item> The events of the user are enabled by what the render mounts: a tap on the map
    whenever the \<^verbatim>\<open>MapView\<close> is mounted, also under the analysis overlay, which covers
    the window (lines 629-636 and 956-963) and would take the touch on a device; and
    a timer may run late by any amount. The model so allows more runs than a device
    shows: what is proved of all reachable states holds on the device too, and the
    runs evaluated in \<open>Session\<close> are runs with every timer on time.
  \<^item> The calls to collaborators (permission and position requests, \<^verbatim>\<open>Alert.alert\<close>,
    \<^verbatim>\<open>console.error\<close>, \<^verbatim>\<open>animateToRegion\<close>, \<^verbatim>\<open>navigation.replace\<close>) are recorded in the
    log \<open>effects\<close> in the order the code makes them; what the collaborators answer is
    an event.
  \<^item> The eight greetings of the preloader are in eight scripts; the model holds their
    transliterations, and only their number and order matter.
  \<^item> An object is the list of its properties in the order of their creation; an
    object literal creates them in source order, a later property of the same name
    replacing the value of the earlier one. JavaScript lists properties whose names
    are array indices first; the model does not. Values are \<^verbatim>\<open>undefined\<close>, \<^verbatim>\<open>null\<close>,
    booleans, numbers, strings and objects: arrays, functions and inherited
    properties are not modelled, and neither the style sheet nor the configuration
    function reads one. \<^verbatim>\<open>StyleSheet.create\<close> returns its argument. The environment
    variable of the configuration function is a parameter of it.

  \<^bold>\<open>Bounds.\<close> No fuel is used. \<open>area_loop\<close> ends because the index grows up to the
  length of the list; \<open>drain\<close> and \<open>drain_trace\<close> end because of the potential, which
  counts, for every pending callback, the callbacks that can still run because of it
  (at most \<open>4 + 2 * 6\<close> for the word timers of the preloader and \<open>1 + 2 * 5\<close> for the
  start of the analysis).

  \<^bold>\<open>Not modelled.\<close> The theme (\<^verbatim>\<open>useTheme\<close>, a module that is not among the sources)
  and every prop and every part of a style whose value comes from it (colours, the
  colours of the gradients, the style of the status bar); the imports (lines 1-18).
  The unmount of the screen is not an event of the model: the code has no clean-up, so
  after an unmount the pending timers would still run. A render of the screen while
  the preloader is shown, which would run the effect of the preloader again
  (\<^verbatim>\<open>onComplete\<close> is among its dependencies and is a new function in every render), does
  not happen in the model: no state of the screen changes before the preloader is
  done.
\<close>

section \<open>The area on the screen\<close>

text \<open>C11. Whenever the screen shows an area, four points are held, the boundary drawn
  is these points in tap order, and the area is the documented formula applied to
  them: the absolute shoelace sum of the four points, scaled to acres at their mean
  latitude and rounded to thousandths. The area on the screen is never one of an
  earlier selection or of a part of the points.\<close>

theorem displayed_area_is_formula:
  assumes "reachable s" and "farmArea s = Some a"
  shows "length (selectedPoints s) = 4 \<and>
     boundingBox s = Some (map coords (selectedPoints s)) \<and>
     a = round3 (acres_of (shoelace (selectedPoints s)) (centerLat (selectedPoints s)))"
proof -
  from assms(1) have "points_inv s"
    using reachable_screen_inv by (simp add: screen_inv_def)
  with assms(2) show ?thesis
    by (auto simp: points_inv_def calculateAreaInAcres_eq split: option.splits)
qed

theorem displayed_area_is_formula_witness:
  "length (selectedPoints example_final) = 4 \<and>
   boundingBox example_final = Some (map coords (selectedPoints example_final)) \<and>
   calculateAreaInAcres (selectedPoints example_final) =
     round3 (acres_of (shoelace (selectedPoints example_final))
       (centerLat (selectedPoints example_final)))"
  using displayed_area_is_formula [of example_final
      "calculateAreaInAcres (selectedPoints example_final)"]
    reachable_example_final example_final_points
  by simp

end
